(* ===== verification/Prelude.thy ===== *)
theory Prelude
  imports Complex_Main
begin

text \<open>
  Shared vocabulary of the ClipperWatch development: the Python exceptions the
  program raises, a small exception-and-state monad in which the pipeline of
  \<^verbatim>\<open>src/clipperwatch.py\<close> is written (Python code mutates module globals and its
  exceptions propagate with those mutations kept), the Python primitives the
  code relies on (\<open>xs[0]\<close>, \<open>d[k]\<close>, \<open>s.split(c)[0]\<close>, \<open>str(n)\<close>,
  \<open>"%0Nd"\<close>), frame conditions saying that a computation leaves a part of the
  state alone, invariants of the state, and the generic lemmas about them that the
  component theories use.
\<close>

section \<open>Python exceptions and results\<close>

datatype error =
    KeyError string        \<comment> \<open>a missing dictionary key, with the key\<close>
  | IndexError             \<comment> \<open>\<open>xs[0]\<close> on an empty table\<close>
  | ValueError             \<comment> \<open>\<open>random.randrange(0)\<close>\<close>
  | TypeError              \<comment> \<open>subscripting \<open>None\<close>\<close>
  | ProviderError string   \<comment> \<open>any failure raised by the ephemeris service\<close>
  | SystemExit int         \<comment> \<open>\<open>exit(n)\<close>\<close>

type_synonym 'a result = "error + 'a"

type_synonym point = "real \<times> real"

named_theorems prog_simps "evaluation rules of the exception-and-state monad"
named_theorems py_simps "evaluation rules of the Python primitives"
named_theorems frame_intros "rules showing that a computation leaves a part of the state alone"
named_theorems inv_intros "rules showing that a computation preserves an invariant of the state"
named_theorems grows_intros "rules showing that a computation only appends to the request log"
named_theorems agrees_intros "rules relating a computation to its run against the completed service"

section \<open>The exception-and-state monad\<close>

text \<open>
  A computation takes the program state and returns a result (an exception or a
  value) together with the new state. On an exception the state reached so far is
  kept, as in Python, where an exception does not undo the mutations made before it.
\<close>

type_synonym ('s, 'a) prog = "'s \<Rightarrow> 'a result \<times> 's"

definition ret :: "'a \<Rightarrow> ('s, 'a) prog" where
  "ret a = (\<lambda>s. (Inr a, s))"

definition raise :: "error \<Rightarrow> ('s, 'a) prog" where
  "raise e = (\<lambda>s. (Inl e, s))"

definition bindP :: "('s, 'a) prog \<Rightarrow> ('a \<Rightarrow> ('s, 'b) prog) \<Rightarrow> ('s, 'b) prog" where
  "bindP m f = (\<lambda>s. case m s of (Inl e, s') \<Rightarrow> (Inl e, s') | (Inr a, s') \<Rightarrow> f a s')"

definition liftR :: "'a result \<Rightarrow> ('s, 'a) prog" where
  "liftR r = (\<lambda>s. (r, s))"

definition gets :: "('s \<Rightarrow> 'a) \<Rightarrow> ('s, 'a) prog" where
  "gets f = (\<lambda>s. (Inr (f s), s))"

definition modify :: "('s \<Rightarrow> 's) \<Rightarrow> ('s, unit) prog" where
  "modify f = (\<lambda>s. (Inr (), f s))"

definition catch :: "('s, 'a) prog \<Rightarrow> (error \<Rightarrow> ('s, 'a) prog) \<Rightarrow> ('s, 'a) prog" where
  "catch m h = (\<lambda>s. case m s of (Inl e, s') \<Rightarrow> h e s' | (Inr a, s') \<Rightarrow> (Inr a, s'))"

text \<open>A \<^verbatim>\<open>for\<close> loop whose body is a statement: the body runs on each element in order.\<close>

fun forP :: "'a list \<Rightarrow> ('a \<Rightarrow> ('s, unit) prog) \<Rightarrow> ('s, unit) prog" where
  "forP [] f = ret ()"
| "forP (x # xs) f = bindP (f x) (\<lambda>_. forP xs f)"

text \<open>Frame conditions: a computation that leaves the part \<open>f\<close> of the state as it
  was, and one that leaves it as it was whenever it raises.\<close>

definition preserves :: "('s \<Rightarrow> 'b) \<Rightarrow> ('s, 'a) prog \<Rightarrow> bool" where
  "preserves f m \<longleftrightarrow> (\<forall>s. f (snd (m s)) = f s)"

definition keeps_on_error :: "('s \<Rightarrow> 'b) \<Rightarrow> ('s, 'a) prog \<Rightarrow> bool" where
  "keeps_on_error f m \<longleftrightarrow> (\<forall>s e. fst (m s) = Inl e \<longrightarrow> f (snd (m s)) = f s)"

text \<open>An invariant of the state: a property that holds after the computation whenever
  it held before, whether the computation returns or raises.\<close>

definition invariant :: "('s \<Rightarrow> bool) \<Rightarrow> ('s, 'a) prog \<Rightarrow> bool" where
  "invariant P m \<longleftrightarrow> (\<forall>s. P s \<longrightarrow> P (snd (m s)))"

text \<open>Sequencing of pure computations that may raise.\<close>

definition ebind :: "'a result \<Rightarrow> ('a \<Rightarrow> 'b result) \<Rightarrow> 'b result" where
  "ebind r f = (case r of Inl e \<Rightarrow> Inl e | Inr a \<Rightarrow> f a)"

text \<open>\<open>str(e)\<close> of an exception, as the handler of \<open>GetAstroData\<close> prints it:
  \<open>str(KeyError(k))\<close> is the key in quotes; the service's message is printed as it is.\<close>

definition error_text :: "error \<Rightarrow> string" where
  "error_text e =
     (case e of KeyError k \<Rightarrow> CHR 0x27 # k @ [CHR 0x27]
      | IndexError \<Rightarrow> ''index 0 is out of bounds''
      | ValueError \<Rightarrow> ''empty range for randrange()''
      | TypeError \<Rightarrow> ''NoneType object is not subscriptable''
      | ProviderError msg \<Rightarrow> msg
      | SystemExit n \<Rightarrow> ''exit'')"

section \<open>Python primitives\<close>

text \<open>\<open>xs[0]\<close>: the first element, \<open>IndexError\<close> on an empty sequence.\<close>

definition py_first :: "'a list \<Rightarrow> 'a result" where
  "py_first xs = (case xs of [] \<Rightarrow> Inl IndexError | x # _ \<Rightarrow> Inr x)"

text \<open>\<open>d[k]\<close> on a dictionary with string keys: \<open>KeyError k\<close> when absent.\<close>

definition dict_get :: "(string \<rightharpoonup> 'v) \<Rightarrow> string \<Rightarrow> 'v result" where
  "dict_get d k = (case d k of None \<Rightarrow> Inl (KeyError k) | Some v \<Rightarrow> Inr v)"

text \<open>\<open>s.split(c)[0]\<close>: the part of \<open>s\<close> before the first occurrence of \<open>c\<close>.\<close>

definition split_first :: "char \<Rightarrow> string \<Rightarrow> string" where
  "split_first c s = takeWhile (\<lambda>x. x \<noteq> c) s"

text \<open>\<open>str(n)\<close> for a non-negative integer, and \<open>"%0Nd"\<close> (zero padding to width \<open>N\<close>).\<close>

definition digit_chars :: "char set" where
  "digit_chars = set ''0123456789''"

definition digit_char :: "nat \<Rightarrow> char" where
  "digit_char d = ''0123456789'' ! d"

fun string_of_nat :: "nat \<Rightarrow> string" where
  "string_of_nat n =
     (if n < 10 then [digit_char n] else string_of_nat (n div 10) @ [digit_char (n mod 10)])"

declare string_of_nat.simps [simp del]

definition string_of_int :: "int \<Rightarrow> string" where
  "string_of_int i = (if i < 0 then ''-'' @ string_of_nat (nat (- i)) else string_of_nat (nat i))"

definition zpad :: "nat \<Rightarrow> string \<Rightarrow> string" where
  "zpad w s = replicate (w - length s) (CHR ''0'') @ s"

text \<open>Reading a string of decimal digits back as the number it denotes, as \<open>int(s)\<close>
  does for a digit string: the inverse of \<^const>\<open>string_of_nat\<close>, used to state what
  a printed number means.\<close>

definition digit_value :: "char \<Rightarrow> nat" where
  "digit_value c = of_char c - 48"

definition digits_value :: "string \<Rightarrow> nat" where
  "digits_value s = foldl (\<lambda>n c. 10 * n + digit_value c) 0 s"

text \<open>The squared Euclidean norm of a scene point.\<close>

definition norm2 :: "point \<Rightarrow> real" where
  "norm2 p = fst p ^ 2 + snd p ^ 2"

definition dist2 :: "point \<Rightarrow> point \<Rightarrow> real" where
  "dist2 p q = (fst p - fst q) ^ 2 + (snd p - snd q) ^ 2"

section \<open>Lemmas on the monad\<close>

lemma ret_apply [prog_simps]: "ret a s = (Inr a, s)"
  by (simp add: ret_def)

lemma raise_apply [prog_simps]: "raise e s = (Inl e, s)"
  by (simp add: raise_def)

lemma liftR_apply [prog_simps]: "liftR r s = (r, s)"
  by (simp add: liftR_def)

lemma gets_apply [prog_simps]: "gets f s = (Inr (f s), s)"
  by (simp add: gets_def)

lemma modify_apply [prog_simps]: "modify f s = (Inr (), f s)"
  by (simp add: modify_def)

lemma bindP_apply [prog_simps]:
  "bindP m f s = (case m s of (Inl e, s') \<Rightarrow> (Inl e, s') | (Inr a, s') \<Rightarrow> f a s')"
  by (simp add: bindP_def)

lemma catch_apply [prog_simps]:
  "catch m h s = (case m s of (Inl e, s') \<Rightarrow> h e s' | (Inr a, s') \<Rightarrow> (Inr a, s'))"
  by (simp add: catch_def)

lemma bindP_Inr [simp]: "m s = (Inr a, s') \<Longrightarrow> bindP m f s = f a s'"
  by (simp add: bindP_def)

lemma bindP_Inl [simp]: "m s = (Inl e, s') \<Longrightarrow> bindP m f s = (Inl e, s')"
  by (simp add: bindP_def)

lemma bindP_eq_Inr:
  "bindP m f s = (Inr b, t) \<longleftrightarrow> (\<exists>a s'. m s = (Inr a, s') \<and> f a s' = (Inr b, t))"
  by (auto simp: bindP_def split: prod.splits sum.splits)

lemma bindP_ret_left [simp]: "bindP (ret a) f = f a"
  by (simp add: bindP_def ret_def)

lemma bindP_assoc: "bindP (bindP m f) g = bindP m (\<lambda>a. bindP (f a) g)"
  by (rule ext) (simp add: bindP_def split: prod.splits sum.splits)

lemma forP_append: "forP (xs @ ys) f = bindP (forP xs f) (\<lambda>_. forP ys f)"
  by (induction xs) (simp_all add: bindP_assoc)

text \<open>A loop whose every step succeeds succeeds as a whole.\<close>

lemma forP_Inr:
  assumes "\<And>x s. x \<in> set xs \<Longrightarrow> fst (f x s) = Inr ()"
  shows "fst (forP xs f s) = Inr ()"
  using assms
proof (induction xs arbitrary: s)
  case Nil
  then show ?case by (simp add: ret_def)
next
  case (Cons x xs)
  obtain s' where "f x s = (Inr (), s')"
    using Cons.prems by (metis list.set_intros(1) prod.collapse)
  then show ?case using Cons by simp
qed

lemma ebind_simps [simp]: "ebind (Inl e) f = Inl e" "ebind (Inr a) f = f a"
  by (simp_all add: ebind_def)

lemma ebind_eq_Inr: "ebind r f = Inr b \<longleftrightarrow> (\<exists>a. r = Inr a \<and> f a = Inr b)"
  by (cases r) simp_all

section \<open>Frame lemmas\<close>

lemma preserves_ret [frame_intros]: "preserves f (ret a)"
  and preserves_raise [frame_intros]: "preserves f (raise e)"
  and preserves_liftR [frame_intros]: "preserves f (liftR r)"
  and preserves_gets [frame_intros]: "preserves f (gets g)"
  by (simp_all add: preserves_def prog_simps)

lemma preserves_modify [frame_intros]: "(\<And>s. f (g s) = f s) \<Longrightarrow> preserves f (modify g)"
  by (simp add: preserves_def prog_simps)

lemma preserves_bindP [frame_intros]:
  assumes m: "preserves f m" and k: "\<And>a. preserves f (k a)"
  shows "preserves f (bindP m k)"
  unfolding preserves_def
proof
  fix s
  obtain r s' where ms: "m s = (r, s')" by fastforce
  have "f s' = f s" using m ms unfolding preserves_def by (metis snd_conv)
  then show "f (snd (bindP m k s)) = f s"
    using k ms unfolding preserves_def by (cases r) simp_all
qed

lemma preserves_catch [frame_intros]:
  assumes m: "preserves f m" and h: "\<And>e. preserves f (h e)"
  shows "preserves f (catch m h)"
  unfolding preserves_def
proof
  fix s
  obtain r s' where ms: "m s = (r, s')" by fastforce
  have "f s' = f s" using m ms unfolding preserves_def by (metis snd_conv)
  then show "f (snd (catch m h s)) = f s"
    using h ms unfolding preserves_def by (cases r) (simp_all add: catch_def)
qed

lemma preserves_if [frame_intros]:
  "preserves f m1 \<Longrightarrow> preserves f m2 \<Longrightarrow> preserves f (if b then m1 else m2)"
  by simp

lemma preserves_case_option [frame_intros]:
  "preserves f m1 \<Longrightarrow> (\<And>k. preserves f (m2 k)) \<Longrightarrow>
   preserves f (case x of None \<Rightarrow> m1 | Some k \<Rightarrow> m2 k)"
  by (cases x) simp_all

lemma preserves_forP [frame_intros]: "(\<And>x. preserves f (g x)) \<Longrightarrow> preserves f (forP xs g)"
  by (induction xs) (simp_all add: preserves_ret preserves_bindP)

lemma preserves_D: "preserves f m \<Longrightarrow> m s = (r, s') \<Longrightarrow> f s' = f s"
  unfolding preserves_def by (metis snd_conv)

text \<open>A computation that ends with a step that cannot fail keeps, on an exception,
  whatever its earlier steps keep.\<close>

lemma keeps_on_error_preserves: "preserves f m \<Longrightarrow> keeps_on_error f m"
  by (simp add: preserves_def keeps_on_error_def)

lemma keeps_on_error_total: "(\<And>s. \<exists>a s'. m s = (Inr a, s')) \<Longrightarrow> keeps_on_error f m"
  unfolding keeps_on_error_def by (metis fst_conv sum.distinct(1))

lemma keeps_on_error_bindP:
  assumes m: "preserves f m" and k: "\<And>a. keeps_on_error f (k a)"
  shows "keeps_on_error f (bindP m k)"
  unfolding keeps_on_error_def
proof (intro allI impI)
  fix s e
  assume err: "fst (bindP m k s) = Inl e"
  obtain r s' where ms: "m s = (r, s')" by fastforce
  have fs: "f s' = f s" using m ms by (rule preserves_D)
  show "f (snd (bindP m k s)) = f s"
  proof (cases r)
    case (Inl e')
    then show ?thesis using ms fs by simp
  next
    case (Inr a)
    then show ?thesis using ms fs err k [of a] unfolding keeps_on_error_def by simp
  qed
qed

lemma invariant_simple [inv_intros]:
  "invariant P (ret a)" "invariant P (raise e)" "invariant P (liftR r)" "invariant P (gets g)"
  by (simp_all add: invariant_def prog_simps)

lemma invariant_modify [inv_intros]: "(\<And>s. P s \<Longrightarrow> P (g s)) \<Longrightarrow> invariant P (modify g)"
  by (simp add: invariant_def prog_simps)

lemma invariant_bindP [inv_intros]:
  assumes m: "invariant P m" and k: "\<And>a. invariant P (k a)"
  shows "invariant P (bindP m k)"
  unfolding invariant_def
proof (intro allI impI)
  fix s
  assume p: "P s"
  obtain r s' where ms: "m s = (r, s')" by fastforce
  have "P s'" using m ms p unfolding invariant_def by (metis snd_conv)
  then show "P (snd (bindP m k s))"
    using k ms unfolding invariant_def by (cases r) simp_all
qed

lemma invariant_catch [inv_intros]:
  assumes m: "invariant P m" and h: "\<And>e. invariant P (h e)"
  shows "invariant P (catch m h)"
  unfolding invariant_def
proof (intro allI impI)
  fix s
  assume p: "P s"
  obtain r s' where ms: "m s = (r, s')" by fastforce
  have "P s'" using m ms p unfolding invariant_def by (metis snd_conv)
  then show "P (snd (catch m h s))"
    using h ms unfolding invariant_def by (cases r) (simp_all add: catch_def)
qed

lemma invariant_if [inv_intros]:
  "invariant P m1 \<Longrightarrow> invariant P m2 \<Longrightarrow> invariant P (if b then m1 else m2)"
  by simp

lemma invariant_case_option [inv_intros]:
  "invariant P m1 \<Longrightarrow> (\<And>k. invariant P (m2 k)) \<Longrightarrow> invariant P (case x of None \<Rightarrow> m1 | Some k \<Rightarrow> m2 k)"
  by (cases x) simp_all

lemma invariant_forP [inv_intros]: "(\<And>x. invariant P (g x)) \<Longrightarrow> invariant P (forP xs g)"
  by (induction xs) (simp_all add: invariant_simple invariant_bindP)

section \<open>Lemmas on the Python primitives\<close>

lemma py_first_simps [simp, py_simps]:
  "py_first [] = Inl IndexError" "py_first (x # xs) = Inr x"
  by (simp_all add: py_first_def)

lemma dict_get_simps [py_simps]:
  "d k = None \<Longrightarrow> dict_get d k = Inl (KeyError k)"
  "d k = Some v \<Longrightarrow> dict_get d k = Inr v"
  by (simp_all add: dict_get_def)

lemma dict_get_upd [simp]: "dict_get (d(k \<mapsto> v)) k = Inr v"
  by (simp add: dict_get_def)

lemma dict_get_upd_other [simp]: "k' \<noteq> k \<Longrightarrow> dict_get (d(k \<mapsto> v)) k' = dict_get d k'"
  by (simp add: dict_get_def)

lemma dict_get_Inr_iff: "dict_get d k = Inr v \<longleftrightarrow> d k = Some v"
  by (simp add: dict_get_def split: option.splits)

lemma dict_get_Inl_iff: "dict_get d k = Inl e \<longleftrightarrow> d k = None \<and> e = KeyError k"
  by (auto simp: dict_get_def split: option.splits)

lemma split_first_no_sep: "c \<notin> set (split_first c s)"
  by (induction s) (auto simp: split_first_def)

lemma split_first_prefix: "split_first c s @ dropWhile (\<lambda>x. x \<noteq> c) s = s"
  by (simp add: split_first_def)

lemma split_first_id: "c \<notin> set s \<Longrightarrow> split_first c s = s"
  unfolding split_first_def by (rule takeWhile_eq_all_conv [THEN iffD2]) blast

lemma digit_char_digit: "d < 10 \<Longrightarrow> digit_char d \<in> digit_chars"
  unfolding digit_char_def digit_chars_def by (rule nth_mem) simp

lemma string_of_nat_digits: "set (string_of_nat n) \<subseteq> digit_chars"
proof (induction n rule: string_of_nat.induct)
  case (1 n)
  then show ?case
    by (subst string_of_nat.simps) (auto simp: digit_char_digit)
qed

text \<open>Evaluation of \<^const>\<open>string_of_nat\<close> on literals only, so that the simplifier
  never unfolds it on a symbolic argument.\<close>

lemma string_of_nat_numeral [py_simps]:
  "string_of_nat (numeral n) =
     (if numeral n < (10::nat) then [digit_char (numeral n)]
      else string_of_nat (numeral n div 10) @ [digit_char (numeral n mod 10)])"
  by (rule string_of_nat.simps)

lemma string_of_nat_0 [py_simps]: "string_of_nat 0 = ''0''"
  and string_of_nat_1 [py_simps]: "string_of_nat 1 = ''1''"
  and string_of_nat_Suc_0 [py_simps]: "string_of_nat (Suc 0) = ''1''"
  by (simp_all add: string_of_nat.simps digit_char_def)

lemma string_of_nat_nonempty: "string_of_nat n \<noteq> []"
  by (subst string_of_nat.simps) simp

lemma replicate_numeral_Cons [py_simps]: "replicate (numeral n) x = x # replicate (pred_numeral n) x"
  by (simp add: numeral_eq_Suc)

lemma length_zpad: "length (zpad w s) = max w (length s)"
  by (simp add: zpad_def)

lemma length_string_of_nat_le:
  "0 < k \<Longrightarrow> m < 10 ^ k \<Longrightarrow> length (string_of_nat m) \<le> k"
proof (induction m arbitrary: k rule: string_of_nat.induct)
  case (1 m)
  show ?case
  proof (cases "m < 10")
    case True
    then show ?thesis using "1.prems" by (subst string_of_nat.simps) simp
  next
    case False
    have "k \<noteq> 1" using False "1.prems"(2) by auto
    with "1.prems"(1) obtain j where k: "k = Suc j" "0 < j" by (cases k) auto
    have "m div 10 < 10 ^ j" using "1.prems"(2) k(1) by (simp add: div_less_iff_less_mult mult.commute)
    then have "length (string_of_nat (m div 10)) \<le> j" using "1.IH" False k by simp
    then show ?thesis using False k by (subst string_of_nat.simps) simp
  qed
qed


lemma digit_value_digit_char: "d < 10 \<Longrightarrow> digit_value (digit_char d) = d"
proof -
  assume "d < 10"
  then have "d \<in> {0, 1, 2, 3, 4, 5, 6, 7, 8, 9}" by auto
  then show ?thesis by (auto simp: digit_value_def digit_char_def)
qed

lemma digits_value_snoc: "digits_value (s @ [c]) = 10 * digits_value s + digit_value c"
  by (simp add: digits_value_def)

text \<open>Printing and reading a natural number are inverse.\<close>

lemma digits_value_string_of_nat: "digits_value (string_of_nat n) = n"
proof (induction n rule: string_of_nat.induct)
  case (1 n)
  show ?case
  proof (cases "n < 10")
    case True
    then show ?thesis
      by (subst string_of_nat.simps) (simp add: digits_value_def digit_value_digit_char)
  next
    case False
    then have "digits_value (string_of_nat n) = 10 * (n div 10) + n mod 10"
      using "1.IH" by (subst string_of_nat.simps) (simp add: digits_value_snoc digit_value_digit_char)
    then show ?thesis by simp
  qed
qed

lemma digits_value_zeros: "foldl (\<lambda>n c. 10 * n + digit_value c) 0 (replicate m (CHR ''0'')) = 0"
  by (induction m) (simp_all add: digit_value_def)

lemma digits_value_zpad: "digits_value (zpad w s) = digits_value s"
  by (simp add: digits_value_def zpad_def digits_value_zeros)

lemma zpad_digits: "set s \<subseteq> digit_chars \<Longrightarrow> set (zpad w s) \<subseteq> digit_chars"
  by (auto simp: zpad_def digit_chars_def)

lemma norm2_nonneg: "0 \<le> norm2 p"
  by (simp add: norm2_def)

end
