(* ===== verification/Horizons.thy ===== *)
theory Horizons
  imports Prelude
begin

text \<open>
  The interface of the JPL Horizons service as \<^verbatim>\<open>src/clipperwatch.py\<close> consumes it
  through astroquery (lines 160--199). The service is an external collaborator: it
  is modelled as an oracle, a pair of functions from a query to either a failure
  message or a table of rows, and every request the program makes is recorded, so
  that the order and number of the (blocking, sequential) requests can be stated.
  Only the columns the program reads are modelled.
\<close>

text \<open>One row of \<open>obj.ephemerides(quantities="18,19,20")\<close>: the columns read at
  lines 187, 229--230, 313--314, 334--335, 346 and 372.\<close>

record eph_row =
  row_targetname :: string   \<comment> \<open>column \<open>targetname\<close>\<close>
  datetime_str :: string     \<comment> \<open>column \<open>datetime_str\<close>\<close>
  EclLon :: real             \<comment> \<open>heliocentric ecliptic longitude, degrees\<close>
  EclLat :: real             \<comment> \<open>heliocentric ecliptic latitude, degrees\<close>
  r_au :: real               \<comment> \<open>column \<open>r\<close>: heliocentric range, AU\<close>
  r_rate :: real             \<comment> \<open>heliocentric range rate, km/s\<close>
  delta :: real              \<comment> \<open>observer range, AU\<close>
  delta_rate :: real         \<comment> \<open>observer range rate, km/s\<close>

text \<open>One row of \<open>obj.elements()\<close>: the osculating elements read at lines 251--254.\<close>

record elements =
  el_a :: real       \<comment> \<open>column \<open>a\<close>: semi-major axis, AU\<close>
  el_e :: real       \<comment> \<open>column \<open>e\<close>: eccentricity\<close>
  el_w :: real       \<comment> \<open>column \<open>w\<close>: argument of periapsis, degrees\<close>
  el_Omega :: real   \<comment> \<open>column \<open>Omega\<close>: longitude of the ascending node, degrees\<close>

text \<open>The arguments of \<open>Horizons(id=..., location=..., epochs=...)\<close>; the epochs are
  \<open>(start, stop, step)\<close> when given (lines 166--177).\<close>

record query =
  q_id :: string
  q_location :: string
  q_epochs :: "(string \<times> string \<times> string) option"

text \<open>A request sent to the service: \<open>obj.ephemerides(...)\<close> or \<open>obj.elements()\<close>.\<close>

datatype request = EphemeridesReq query | ElementsReq query

text \<open>The service: each request either fails with a message or returns a table.\<close>

record provider =
  eph_service :: "query \<Rightarrow> string + eph_row list"
  elem_service :: "query \<Rightarrow> string + elements list"

text \<open>A provider that answers every request with a non-empty table.\<close>

definition provider_total :: "provider \<Rightarrow> bool" where
  "provider_total P \<longleftrightarrow>
     (\<forall>q. \<exists>rows. eph_service P q = Inr rows \<and> rows \<noteq> []) \<and>
     (\<forall>q. \<exists>els. elem_service P q = Inr els \<and> els \<noteq> [])"

end
