(* ===== verification/Dates.thy ===== *)
theory Dates
  imports Prelude
begin

text \<open>
  Calendar dates as \<^verbatim>\<open>src/clipperwatch.py\<close> uses them: the launch dates of the
  catalog (\<open>date(2024, 10, 15)\<close>, lines 25--102), \<open>date.today()\<close>, the subtraction
  \<open>(date.today() - obj["launch_date"]).days\<close> of \<open>GetMissionDays\<close> (line 355) and
  \<open>isoformat()\<close> for the since-launch query (lines 164--165). Their meaning is that of
  CPython's \<^verbatim>\<open>datetime\<close> module, whose helpers (\<open>_is_leap\<close>,
  \<open>_days_before_year\<close>, \<open>_days_before_month\<close>, \<open>_ymd2ord\<close>) are translated here;
  the lemmas show that the ordinal counts days: the ordinal of the next calendar day is
  one more, so a launch date \<open>n\<close> days before today gives mission day \<open>n\<close>.
\<close>

section \<open>Definitions\<close>

record date =
  year :: int
  month :: int
  day :: int

definition is_leap :: "int \<Rightarrow> bool" where
  "is_leap y \<longleftrightarrow> y mod 4 = 0 \<and> (y mod 100 \<noteq> 0 \<or> y mod 400 = 0)"

text \<open>\<open>_DAYS_IN_MONTH\<close> and \<open>_DAYS_BEFORE_MONTH\<close>, with CPython's unused entry \<open>-1\<close>
  at index 0.\<close>

definition DAYS_IN_MONTH :: "int list" where
  "DAYS_IN_MONTH = [-1, 31, 28, 31, 30, 31, 30, 31, 31, 30, 31, 30, 31]"

definition DAYS_BEFORE_MONTH :: "int list" where
  "DAYS_BEFORE_MONTH = [-1, 0, 31, 59, 90, 120, 151, 181, 212, 243, 273, 304, 334]"

definition days_in_month :: "int \<Rightarrow> int \<Rightarrow> int" where
  "days_in_month y m = (if m = 2 \<and> is_leap y then 29 else DAYS_IN_MONTH ! nat m)"

definition days_before_year :: "int \<Rightarrow> int" where
  "days_before_year y = (let y' = y - 1 in y' * 365 + y' div 4 - y' div 100 + y' div 400)"

definition days_before_month :: "int \<Rightarrow> int \<Rightarrow> int" where
  "days_before_month y m = DAYS_BEFORE_MONTH ! nat m + (if m > 2 \<and> is_leap y then 1 else 0)"

text \<open>\<open>date.toordinal()\<close>, CPython's \<open>_ymd2ord\<close>: 1 for 0001-01-01.\<close>

definition toordinal :: "date \<Rightarrow> int" where
  "toordinal d = days_before_year (year d) + days_before_month (year d) (month d) + day d"

text \<open>\<open>(d1 - d2).days\<close>: the difference of the ordinals.\<close>

definition date_diff_days :: "date \<Rightarrow> date \<Rightarrow> int" where
  "date_diff_days d1 d2 = toordinal d1 - toordinal d2"

text \<open>The dates the \<open>date\<close> constructor accepts (\<open>MINYEAR = 1\<close>, \<open>MAXYEAR = 9999\<close>).\<close>

definition valid_date :: "date \<Rightarrow> bool" where
  "valid_date d \<longleftrightarrow> 1 \<le> year d \<and> year d \<le> 9999 \<and> 1 \<le> month d \<and> month d \<le> 12 \<and>
     1 \<le> day d \<and> day d \<le> days_in_month (year d) (month d)"

text \<open>\<open>"%0Nd" % i\<close>: at least \<open>N\<close> characters, zero padded after the sign.\<close>

definition fmt_0d :: "nat \<Rightarrow> int \<Rightarrow> string" where
  "fmt_0d w i =
     (if i < 0 then ''-'' @ zpad (w - 1) (string_of_nat (nat (- i))) else zpad w (string_of_nat (nat i)))"

text \<open>\<open>date.isoformat()\<close>: \<open>"%04d-%02d-%02d" % (year, month, day)\<close>.\<close>

definition isoformat :: "date \<Rightarrow> string" where
  "isoformat d = fmt_0d 4 (year d) @ ''-'' @ fmt_0d 2 (month d) @ ''-'' @ fmt_0d 2 (day d)"

text \<open>The calendar successor of a date; used to state what the ordinal means.\<close>

definition next_day :: "date \<Rightarrow> date" where
  "next_day d =
     (if day d < days_in_month (year d) (month d) then d\<lparr>day := day d + 1\<rparr>
      else if month d < 12 then \<lparr>year = year d, month = month d + 1, day = 1\<rparr>
      else \<lparr>year = year d + 1, month = 1, day = 1\<rparr>)"

section \<open>Lemmas\<close>

lemma div_step_int:
  fixes y k :: int
  assumes k: "0 < k"
  shows "y div k - (y - 1) div k = (if y mod k = 0 then 1 else 0)"
proof -
  let ?q = "y div k" and ?r = "y mod k"
  have y: "y = ?r + ?q * k" by simp
  have r: "0 \<le> ?r" "?r < k" using k by simp_all
  show ?thesis
  proof (cases "?r = 0")
    case True
    then have eq: "y - 1 = (k - 1) + (?q - 1) * k" using y by (simp add: algebra_simps)
    have "(y - 1) div k = ((k - 1) + (?q - 1) * k) div k" by (subst eq) (rule refl)
    also have "\<dots> = (?q - 1) + (k - 1) div k" using k by (simp add: div_mult_self1)
    also have "(k - 1) div k = 0" using k by (simp add: div_pos_pos_trivial)
    finally show ?thesis using True by simp
  next
    case False
    then have eq: "y - 1 = (?r - 1) + ?q * k" using y by (simp add: algebra_simps)
    have "(y - 1) div k = ((?r - 1) + ?q * k) div k" by (subst eq) (rule refl)
    also have "\<dots> = ?q + (?r - 1) div k" using k by (simp add: div_mult_self1)
    also have "(?r - 1) div k = 0" using r False by (simp add: div_pos_pos_trivial)
    finally show ?thesis using False by simp
  qed
qed

lemma leap_count:
  fixes y :: int
  shows "(if y mod 4 = 0 then 1 else 0) - (if y mod 100 = 0 then 1 else 0) +
         (if y mod 400 = 0 then 1 else 0) = (if is_leap y then 1 else (0::int))"
proof -
  have a: "y mod 400 = 0 \<Longrightarrow> y mod 100 = 0"
    using dvd_trans [of 100 400 y] by (simp add: dvd_eq_mod_eq_0)
  have b: "y mod 100 = 0 \<Longrightarrow> y mod 4 = 0"
    using dvd_trans [of 4 100 y] by (simp add: dvd_eq_mod_eq_0)
  show ?thesis
    unfolding is_leap_def
    by (cases "y mod 4 = 0"; cases "y mod 100 = 0"; cases "y mod 400 = 0") (simp_all add: a b)
qed

lemma days_before_year_succ:
  "days_before_year (y + 1) = days_before_year y + (if is_leap y then 366 else 365)"
proof -
  have "days_before_year (y + 1) - days_before_year y =
        365 + (y div 4 - (y - 1) div 4) - (y div 100 - (y - 1) div 100) +
        (y div 400 - (y - 1) div 400)"
    by (simp add: days_before_year_def Let_def algebra_simps)
  also have "\<dots> = 365 + ((if y mod 4 = 0 then 1 else 0) - (if y mod 100 = 0 then 1 else 0) +
        (if y mod 400 = 0 then 1 else 0))"
    by (simp only: div_step_int zero_less_numeral)
  also have "\<dots> = 365 + (if is_leap y then 1 else 0)"
    by (simp only: leap_count)
  finally show ?thesis by (cases "is_leap y") simp_all
qed

lemma days_before_month_succ:
  assumes "1 \<le> m" "m < 12"
  shows "days_before_month y (m + 1) = days_before_month y m + days_in_month y m"
proof -
  have "m = 1 \<or> m = 2 \<or> m = 3 \<or> m = 4 \<or> m = 5 \<or> m = 6 \<or> m = 7 \<or> m = 8 \<or> m = 9 \<or>
      m = 10 \<or> m = 11"
    using assms by presburger
  then show ?thesis
    by (elim disjE) (simp_all add: days_before_month_def days_in_month_def
        DAYS_BEFORE_MONTH_def DAYS_IN_MONTH_def)
qed

lemma days_in_year_end:
  "days_before_month y 12 + days_in_month y 12 = (if is_leap y then 366 else 365)"
  by (simp add: days_before_month_def days_in_month_def DAYS_BEFORE_MONTH_def DAYS_IN_MONTH_def)

lemma days_in_month_pos: "1 \<le> m \<Longrightarrow> m \<le> 12 \<Longrightarrow> 28 \<le> days_in_month y m"
proof -
  assume "1 \<le> m" "m \<le> 12"
  then have "m = 1 \<or> m = 2 \<or> m = 3 \<or> m = 4 \<or> m = 5 \<or> m = 6 \<or> m = 7 \<or> m = 8 \<or> m = 9 \<or>
      m = 10 \<or> m = 11 \<or> m = 12"
    by presburger
  then show ?thesis by (elim disjE) (simp_all add: days_in_month_def DAYS_IN_MONTH_def)
qed

lemma toordinal_next_day:
  assumes "valid_date d"
  shows "toordinal (next_day d) = toordinal d + 1"
proof -
  consider (same_month) "day d < days_in_month (year d) (month d)"
    | (next_month) "\<not> day d < days_in_month (year d) (month d)" "month d < 12"
    | (next_year) "\<not> day d < days_in_month (year d) (month d)" "\<not> month d < 12"
    by blast
  then show ?thesis
  proof cases
    case same_month
    then show ?thesis by (simp add: next_day_def toordinal_def)
  next
    case next_month
    with assms have "day d = days_in_month (year d) (month d)" "1 \<le> month d"
      by (auto simp: valid_date_def)
    with next_month show ?thesis
      by (simp add: next_day_def toordinal_def days_before_month_succ)
  next
    case next_year
    with assms have "day d = days_in_month (year d) (month d)" "month d = 12"
      by (auto simp: valid_date_def)
    with next_year show ?thesis
      using days_in_year_end [of "year d"]
      by (simp add: next_day_def toordinal_def days_before_year_succ days_before_month_def
          DAYS_BEFORE_MONTH_def)
  qed
qed

lemma next_day_year_mono: "year d \<le> year (next_day d)"
  by (simp add: next_day_def)

lemma next_day_valid:
  assumes "valid_date d" "year (next_day d) \<le> 9999"
  shows "valid_date (next_day d)"
proof -
  have "28 \<le> days_in_month (year d) (month d + 1)" if "month d < 12"
    using assms(1) that by (intro days_in_month_pos) (auto simp: valid_date_def)
  moreover have "28 \<le> days_in_month (year d + 1) 1"
    by (rule days_in_month_pos) simp_all
  ultimately show ?thesis
    using assms by (auto simp: valid_date_def next_day_def)
qed

lemma funpow_next_day_year_mono: "year d \<le> year ((next_day ^^ n) d)"
  by (induction n) (auto intro: order_trans next_day_year_mono)

lemma toordinal_funpow_next_day:
  assumes "valid_date d" "year ((next_day ^^ n) d) \<le> 9999"
  shows "valid_date ((next_day ^^ n) d) \<and> toordinal ((next_day ^^ n) d) = toordinal d + int n"
  using assms(2)
proof (induction n)
  case 0
  then show ?case using assms(1) by simp
next
  case (Suc n)
  have "year ((next_day ^^ n) d) \<le> 9999"
    using Suc.prems next_day_year_mono [of "(next_day ^^ n) d"] by simp
  then have IH: "valid_date ((next_day ^^ n) d)"
      "toordinal ((next_day ^^ n) d) = toordinal d + int n"
    using Suc.IH by auto
  then show ?case
    using Suc.prems by (simp add: next_day_valid toordinal_next_day)
qed

lemma year_funpow_next_day_le: "year ((next_day ^^ n) d) \<le> year d + int n"
proof (induction n)
  case 0
  then show ?case by simp
next
  case (Suc n)
  have "year (next_day ((next_day ^^ n) d)) \<le> year ((next_day ^^ n) d) + 1"
    by (simp add: next_day_def)
  then show ?case using Suc.IH by simp
qed

end
