(* ===== verification/World.thy ===== *)
theory World
  imports Horizons Dates
begin

text \<open>
  The state of a run of \<^verbatim>\<open>src/clipperwatch.py\<close>. The module globals are the list
  \<open>targets\<close> of dictionaries (lines 10--104) and \<open>targetSpacecraft\<close> (line 138),
  which aliases one of those dictionaries: it is modelled as the index of that
  dictionary in \<open>targets\<close>, so that an update through either name is one update of
  the list. Each dictionary has its literal keys as record fields and the keys that
  \<open>GetAstroData\<close> adds at run time (\<open>targetname\<close>, \<open>eph<observer>\<close>,
  \<open>ephSinceLaunch<observer>\<close>, \<open>el\<close>) in a string-keyed map. The effects of the run
  are part of the state: the requests sent to the ephemeris service, in order; the
  lines printed; the artists added to the matplotlib axes, in draw order; and the
  figure saved or shown at the end. The typing \<open>world_wt\<close> says which kind of value
  each run-time key holds.
\<close>

section \<open>Definitions\<close>

text \<open>The values \<open>GetAstroData\<close> stores in a target dictionary.\<close>

datatype entry =
    TargetName string          \<comment> \<open>\<open>target["targetname"]\<close>\<close>
  | EphRow eph_row             \<comment> \<open>\<open>target["eph" + observer] = eph[0]\<close>\<close>
  | EphTable "eph_row list"    \<comment> \<open>\<open>target["ephSinceLaunch" + observer] = eph\<close>\<close>
  | ElRow elements             \<comment> \<open>\<open>target["el"] = obj.elements()[0]\<close>\<close>

text \<open>One dictionary of \<open>targets\<close>; \<open>launch_date\<close> is present only in the spacecraft
  entries, and the field \<open>size\<close> is renamed \<open>marker_size\<close>.\<close>

record target =
  name :: string
  color :: string
  marker_size :: int
  isSpacecraft :: bool
  launch_date :: "date option"
  attrs :: "string \<rightharpoonup> entry"

text \<open>The artists the program adds to the axes (lines 202--382), with the data that
  depends on the computation; styling constants are left out.\<close>

datatype artist =
    AxesLimits real real                       \<comment> \<open>\<open>ax.set_xlim(-x, x)\<close>, \<open>ax.set_ylim(-y, y)\<close> (404--405)\<close>
  | StarField "point list" "real list"         \<comment> \<open>\<open>PlotStars\<close>: positions and sizes (208--216)\<close>
  | SunMarker                                  \<comment> \<open>line 221\<close>
  | PlanetMarker string string int point       \<comment> \<open>label, colour, size, position (240--247)\<close>
  | OrbitLine "point list"                     \<comment> \<open>line 280\<close>
  | CraftMarker string point                   \<comment> \<open>label, position (284--294)\<close>
  | CraftLabel string point                    \<comment> \<open>name at \<open>(x + 0.2, y + 0.2)\<close> (295--302)\<close>
  | TailLine "point list"                      \<comment> \<open>line 328\<close>
  | TitleText string                           \<comment> \<open>line 361\<close>
  | LegendBox                                  \<comment> \<open>line 362\<close>
  | StatusText string                          \<comment> \<open>lines 380--382\<close>

text \<open>What becomes of the finished figure: \<open>plt.savefig(filename)\<close> or
  \<open>plt.show()\<close> (lines 385--391).\<close>

datatype figure_out = SavedTo string | ShownWindow

record world =
  targets :: "target list"
  targetSpacecraft :: "nat option"
  requests :: "request list"
  stdout :: "string list"
  artists :: "artist list"
  figures :: "figure_out list"
  np_drawn :: nat                     \<comment> \<open>doubles taken so far from \<open>np.random\<close>'s generator\<close>

type_synonym 'a run = "(world, 'a) prog"

text \<open>\<open>print(s)\<close>, a request to the service, and \<open>ax.scatter\<close>/\<open>ax.plot\<close>/\<open>ax.text\<close>.\<close>

definition print_line :: "string \<Rightarrow> unit run" where
  "print_line s = modify (\<lambda>w. w\<lparr>stdout := stdout w @ [s]\<rparr>)"

definition send :: "request \<Rightarrow> unit run" where
  "send rq = modify (\<lambda>w. w\<lparr>requests := requests w @ [rq]\<rparr>)"

definition draw :: "artist \<Rightarrow> unit run" where
  "draw a = modify (\<lambda>w. w\<lparr>artists := artists w @ [a]\<rparr>)"

definition emit_figure :: "figure_out \<Rightarrow> unit run" where
  "emit_figure f = modify (\<lambda>w. w\<lparr>figures := figures w @ [f]\<rparr>)"

text \<open>Reading the dictionary at index \<open>i\<close> of \<open>targets\<close>, and \<open>target[k] = v\<close> on it.\<close>

definition get_target :: "nat \<Rightarrow> target run" where
  "get_target i = (\<lambda>w. if i < length (targets w) then (Inr (targets w ! i), w) else (Inl IndexError, w))"

definition set_field :: "nat \<Rightarrow> string \<Rightarrow> entry \<Rightarrow> unit run" where
  "set_field i k v =
     modify (\<lambda>w. w\<lparr>targets := (targets w)[i := (targets w ! i)\<lparr>attrs := (attrs (targets w ! i))(k \<mapsto> v)\<rparr>]\<rparr>)"

text \<open>The typing of the run-time keys: \<open>targetname\<close> holds the name, \<open>el\<close> a row of
  elements, \<open>ephSinceLaunch<observer>\<close> a table and any other \<open>eph<observer>\<close> one
  row. A world is well typed when every dictionary respects it.\<close>

definition entry_fits :: "string \<Rightarrow> entry \<Rightarrow> bool" where
  "entry_fits k v =
     (case v of
        TargetName _ \<Rightarrow> k = ''targetname''
      | EphRow _ \<Rightarrow> take 3 k = ''eph'' \<and> take 14 k \<noteq> ''ephSinceLaunch''
      | EphTable _ \<Rightarrow> take 14 k = ''ephSinceLaunch''
      | ElRow _ \<Rightarrow> k = ''el'')"

definition target_wt :: "target \<Rightarrow> bool" where
  "target_wt t \<longleftrightarrow> (\<forall>k v. attrs t k = Some v \<longrightarrow> entry_fits k v)"

definition world_wt :: "world \<Rightarrow> bool" where
  "world_wt w \<longleftrightarrow> (\<forall>t \<in> set (targets w). target_wt t)"

section \<open>Lemmas\<close>

lemma preserves_get_target [frame_intros]: "preserves f (get_target i)"
  by (simp add: preserves_def get_target_def)

lemma preserves_effects [frame_intros]:
  "preserves stdout (send rq)" "preserves stdout (draw a)" "preserves stdout (set_field i k v)"
  "preserves stdout (emit_figure fo)"
  "preserves figures (send rq)" "preserves figures (draw a)" "preserves figures (set_field i k v)"
  "preserves figures (print_line s)"
  by (simp_all add: preserves_def send_def draw_def set_field_def emit_figure_def print_line_def
      prog_simps)

lemmas effect_defs = print_line_def send_def draw_def set_field_def emit_figure_def

lemma get_target_ok [simp]:
  "i < length (targets w) \<Longrightarrow> get_target i w = (Inr (targets w ! i), w)"
  by (simp add: get_target_def)

lemma set_field_length [simp]:
  "length (targets (snd (set_field i k v w))) = length (targets w)"
  by (simp add: set_field_def modify_def)

lemma set_field_nth:
  "i < length (targets w) \<Longrightarrow>
   targets (snd (set_field i k v w)) ! j =
     (if j = i then (targets w ! i)\<lparr>attrs := (attrs (targets w ! i))(k \<mapsto> v)\<rparr> else targets w ! j)"
  by (simp add: set_field_def modify_def)

lemma world_wt_effects [inv_intros]:
  "invariant world_wt (print_line s)" "invariant world_wt (send rq)" "invariant world_wt (draw a)"
  "invariant world_wt (emit_figure f)" "invariant world_wt (get_target i)"
  by (simp_all add: invariant_def world_wt_def effect_defs get_target_def prog_simps)

lemma target_wt_upd: "target_wt t \<Longrightarrow> entry_fits k v \<Longrightarrow> target_wt (t\<lparr>attrs := (attrs t)(k \<mapsto> v)\<rparr>)"
  by (simp add: target_wt_def)

lemma set_field_wt [inv_intros]: "entry_fits k v \<Longrightarrow> invariant world_wt (set_field i k v)"
  unfolding invariant_def
proof (intro allI impI)
  fix s
  assume fits: "entry_fits k v" and wt: "world_wt s"
  show "world_wt (snd (set_field i k v s))"
  proof (cases "i < length (targets s)")
    case True
    then have "target_wt (targets s ! i)" using wt nth_mem unfolding world_wt_def by blast
    then have "target_wt ((targets s ! i)\<lparr>attrs := (attrs (targets s ! i))(k \<mapsto> v)\<rparr>)"
      using fits by (rule target_wt_upd)
    then show ?thesis
      using wt set_update_subset_insert [of "targets s" i]
      by (auto simp: world_wt_def set_field_def prog_simps)
  next
    case False
    then show ?thesis using wt by (simp add: world_wt_def set_field_def prog_simps list_update_beyond)
  qed
qed

lemma world_wt_modify_sel: "world_wt (w\<lparr>targetSpacecraft := x\<rparr>) = world_wt w"
  by (simp add: world_wt_def)

lemma target_wt_fits: "target_wt t \<Longrightarrow> attrs t k = Some v \<Longrightarrow> entry_fits k v"
  by (simp add: target_wt_def)

end
