(* ===== verification/Catalog.thy ===== *)
theory Catalog
  imports World
begin

text \<open>
  The body catalog of \<^verbatim>\<open>src/clipperwatch.py\<close> and the selection of the tracked
  spacecraft: the \<open>targets\<close> table (lines 10--104), \<open>MapNameToJplId\<close> (107--135),
  \<open>FindTargetSpacecraft\<close> (141--146), \<open>GetRandomSpacecraft\<close> (148--156) and
  \<open>ListSpacecraft\<close> (415--420). The random draw \<open>random.randrange(count)\<close> is an
  input of the model, a function from the bound to the number drawn.
\<close>

section \<open>Definitions\<close>

definition planet :: "string \<Rightarrow> string \<Rightarrow> int \<Rightarrow> target" where
  "planet n c s =
     \<lparr>name = n, color = c, marker_size = s, isSpacecraft = False, launch_date = None,
      attrs = Map.empty\<rparr>"

definition craft :: "string \<Rightarrow> int \<Rightarrow> int \<Rightarrow> int \<Rightarrow> target" where
  "craft n y m d =
     \<lparr>name = n, color = ''#E27B58'', marker_size = 40, isSpacecraft = True,
      launch_date = Some \<lparr>year = y, month = m, day = d\<rparr>, attrs = Map.empty\<rparr>"

text \<open>The table as written in the source; Uranus, Neptune and Pluto are commented out
  there and absent here.\<close>

definition targets_init :: "target list" where
  "targets_init =
     [planet ''Mercury'' ''#A5A5A5'' 25,
      planet ''Venus'' ''#E3BB76'' 45,
      planet ''Earth'' ''#2271B3'' 50,
      planet ''Mars'' ''#E27B58'' 40,
      planet ''Jupiter'' ''#D39C7E'' 120,
      planet ''Saturn'' ''#C5AB6E'' 100,
      craft ''Europa Clipper'' 2024 10 15,
      craft ''Lucy'' 2021 10 17,
      craft ''Escapade Blue'' 2025 11 14,
      craft ''Escapade Gold'' 2025 11 14,
      craft ''Parker'' 2018 8 13,
      craft ''Psyche'' 2023 10 14,
      craft ''Juice'' 2023 4 15,
      craft ''Osiris'' 2016 9 9,
      craft ''Voyager 1'' 1977 9 7,
      craft ''Voyager 2'' 1977 8 21,
      craft ''New Horizons'' 2006 1 20,
      craft ''Juno'' 2011 8 6]"

text \<open>The dictionary \<open>idMap\<close> of \<open>MapNameToJplId\<close>, in its source order.\<close>

definition idMap :: "(string \<times> string) list" where
  "idMap =
     [(''Sun'', ''10''), (''Mercury'', ''199''), (''Venus'', ''299''), (''Earth'', ''399''),
      (''Mars'', ''499''), (''Jupiter'', ''599''), (''Europa'', ''502''), (''Saturn'', ''699''),
      (''Uranus'', ''799''), (''Neptune'', ''899''), (''Pluto'', ''999''),
      (''Europa Clipper'', ''2024-182A''), (''Lucy'', ''2021-093A''),
      (''Escapade Blue'', ''2025-260A''), (''Escapade Gold'', ''2025-260B''),
      (''Parker'', ''2018-065A''), (''Juice'', ''2023-053A''), (''Psyche'', ''2023-157A''),
      (''Juno'', ''2011-040A''), (''Osiris'', ''2016-055A''), (''Voyager 1'', ''1977-084A''),
      (''Voyager 2'', ''1977-076A''), (''New Horizons'', ''2006-001A'')]"

definition MapNameToJplId :: "string \<Rightarrow> string result" where
  "MapNameToJplId nm = (case map_of idMap nm of None \<Rightarrow> Inl (KeyError nm) | Some i \<Rightarrow> Inr i)"

text \<open>\<open>next((target for target in targets if target["name"] == name), None)\<close>, as
  the position of the dictionary found.\<close>

fun first_index :: "('a \<Rightarrow> bool) \<Rightarrow> 'a list \<Rightarrow> nat option" where
  "first_index P [] = None"
| "first_index P (x # xs) = (if P x then Some 0 else map_option Suc (first_index P xs))"

definition FindTargetSpacecraft :: "string \<Rightarrow> nat option run" where
  "FindTargetSpacecraft nm =
     bindP (gets targets) (\<lambda>ts.
       (let found = first_index (\<lambda>t. name t = nm) ts
        in bindP (modify (\<lambda>w. w\<lparr>targetSpacecraft := found\<rparr>)) (\<lambda>_. ret found)))"

text \<open>The generator \<open>(target for target in targets if target["isSpacecraft"] is True)\<close>
  with each dictionary's position, so that the dictionary selected is known by identity.\<close>

definition spacecraft_enum :: "target list \<Rightarrow> (nat \<times> target) list" where
  "spacecraft_enum ts = filter (\<lambda>(k, t). isSpacecraft t) (zip [0..<length ts] ts)"

text \<open>The loop \<open>for i, target in enumerate(...): if i == n: ...; return\<close>.\<close>

fun pick_loop :: "nat \<Rightarrow> nat \<Rightarrow> (nat \<times> target) list \<Rightarrow> nat option" where
  "pick_loop n i [] = None"
| "pick_loop n i ((k, t) # rest) = (if i = n then Some k else pick_loop n (Suc i) rest)"

definition GetRandomSpacecraft :: "(nat \<Rightarrow> nat) \<Rightarrow> nat option run" where
  "GetRandomSpacecraft randrange =
     bindP (gets targets) (\<lambda>ts.
       (let count = length (filter isSpacecraft ts)
        in if count = 0 then raise ValueError
           else (case pick_loop (randrange count) 0 (spacecraft_enum ts) of
                   None \<Rightarrow> ret None
                 | Some k \<Rightarrow>
                     bindP (print_line (''Selected '' @ name (ts ! k) @ ''!'')) (\<lambda>_.
                     bindP (modify (\<lambda>w. w\<lparr>targetSpacecraft := Some k\<rparr>)) (\<lambda>_. ret (Some k))))))"

definition ListSpacecraft :: "unit run" where
  "ListSpacecraft =
     bindP (print_line ''Listing spacecraft...'') (\<lambda>_.
     bindP (gets targets) (\<lambda>ts.
     bindP (forP ts (\<lambda>t. if isSpacecraft t then print_line (name t) else ret ())) (\<lambda>_.
     raise (SystemExit 0))))"

text \<open>The module state after import: the table, no selection, nothing sent, printed or
  drawn yet.\<close>

definition init_world :: world where
  "init_world = \<lparr>targets = targets_init, targetSpacecraft = None, requests = [], stdout = [],
     artists = [], figures = [], np_drawn = 0\<rparr>"

text \<open>The positions of the spacecraft entries, in catalog order.\<close>

definition spacecraft_indices :: "target list \<Rightarrow> nat list" where
  "spacecraft_indices ts = filter (\<lambda>k. isSpacecraft (ts ! k)) [0..<length ts]"

section \<open>Lemmas\<close>

lemma first_index_Some:
  "first_index P xs = Some i \<Longrightarrow> i < length xs \<and> P (xs ! i) \<and> (\<forall>j < i. \<not> P (xs ! j))"
proof (induction xs arbitrary: i)
  case Nil
  then show ?case by simp
next
  case (Cons x xs)
  then show ?case by (auto split: if_splits simp: less_Suc_eq_0_disj)
qed

lemma first_index_None: "first_index P xs = None \<longleftrightarrow> (\<forall>x \<in> set xs. \<not> P x)"
  by (induction xs) auto

lemma filter_upt_nth_append:
  "filter (\<lambda>k. P ((xs @ ys) ! k)) [0..<length xs] = filter (\<lambda>k. P (xs ! k)) [0..<length xs]"
  by (rule filter_cong) (simp_all add: nth_append)

lemma spacecraft_indices_snoc:
  "spacecraft_indices (xs @ [x]) =
     spacecraft_indices xs @ (if isSpacecraft x then [length xs] else [])"
  by (simp add: spacecraft_indices_def filter_upt_nth_append)

lemma map_fst_spacecraft_enum: "map fst (spacecraft_enum ts) = spacecraft_indices ts"
proof (induction ts rule: rev_induct)
  case Nil
  then show ?case by (simp add: spacecraft_enum_def spacecraft_indices_def)
next
  case (snoc x xs)
  then show ?case by (simp add: spacecraft_enum_def spacecraft_indices_snoc)
qed

lemma length_spacecraft_indices: "length (spacecraft_indices ts) = length (filter isSpacecraft ts)"
proof (induction ts rule: rev_induct)
  case Nil
  then show ?case by (simp add: spacecraft_indices_def)
next
  case (snoc x xs)
  then show ?case by (simp add: spacecraft_indices_snoc)
qed

lemma length_spacecraft_enum: "length (spacecraft_enum ts) = length (filter isSpacecraft ts)"
  using arg_cong [OF map_fst_spacecraft_enum, of length] by (simp add: length_spacecraft_indices)

lemma pick_loop_nth:
  "i \<le> n \<Longrightarrow> pick_loop n i xs = (if n - i < length xs then Some (fst (xs ! (n - i))) else None)"
proof (induction xs arbitrary: i)
  case Nil
  then show ?case by simp
next
  case (Cons x xs)
  obtain k t where x: "x = (k, t)" by (cases x)
  show ?case
  proof (cases "i = n")
    case True
    then show ?thesis using x by simp
  next
    case False
    with Cons.prems have "Suc i \<le> n" by simp
    moreover from this have "n - i = Suc (n - Suc i)" by simp
    ultimately show ?thesis using Cons.IH x False by simp
  qed
qed

lemma spacecraft_indices_spec:
  "distinct (spacecraft_indices ts) \<and>
   set (spacecraft_indices ts) = {k. k < length ts \<and> isSpacecraft (ts ! k)}"
  by (auto simp: spacecraft_indices_def)

lemma forP_print_filter:
  "forP ts (\<lambda>t. if isSpacecraft t then print_line (name t) else ret ()) w =
     (Inr (), w\<lparr>stdout := stdout w @ map name (filter isSpacecraft ts)\<rparr>)"
  by (induction ts arbitrary: w) (auto simp: print_line_def prog_simps)

lemmas catalog_defs = targets_init_def planet_def craft_def

lemma GetRandomSpacecraft_run:
  assumes "randrange (length (filter isSpacecraft (targets w))) < length (filter isSpacecraft (targets w))"
  shows "GetRandomSpacecraft randrange w =
      (let k = spacecraft_indices (targets w) ! randrange (length (filter isSpacecraft (targets w)))
       in (Inr (Some k), w\<lparr>stdout := stdout w @ [''Selected '' @ name (targets w ! k) @ ''!''],
                           targetSpacecraft := Some k\<rparr>)) \<and>
    isSpacecraft (targets w ! (spacecraft_indices (targets w) !
      randrange (length (filter isSpacecraft (targets w)))))"
proof -
  let ?ts = "targets w"
  let ?n = "randrange (length (filter isSpacecraft ?ts))"
  have n: "?n < length (spacecraft_indices ?ts)"
    using assms by (simp add: length_spacecraft_indices)
  then have "pick_loop ?n 0 (spacecraft_enum ?ts) = Some (spacecraft_indices ?ts ! ?n)"
    by (simp add: pick_loop_nth length_spacecraft_indices flip: map_fst_spacecraft_enum)
  moreover have "length (filter isSpacecraft ?ts) \<noteq> 0" using assms by linarith
  moreover have "spacecraft_indices ?ts ! ?n \<in> set (spacecraft_indices ?ts)"
    using n by (rule nth_mem)
  ultimately show ?thesis
    using spacecraft_indices_spec [of ?ts]
    by (simp add: GetRandomSpacecraft_def prog_simps print_line_def Let_def)
qed

lemma targets_init_ids: "\<forall>t \<in> set targets_init. \<exists>tid. MapNameToJplId (name t) = Inr tid"
  by (simp add: catalog_defs MapNameToJplId_def idMap_def)

lemma targets_init_launch:
  "k < length targets_init \<Longrightarrow> isSpacecraft (targets_init ! k) \<Longrightarrow> \<exists>ld. launch_date (targets_init ! k) = Some ld"
proof -
  assume "k < length targets_init" "isSpacecraft (targets_init ! k)"
  then have "targets_init ! k \<in> set targets_init" "isSpacecraft (targets_init ! k)" by simp_all
  moreover have "\<forall>t \<in> set targets_init. isSpacecraft t \<longrightarrow> launch_date t \<noteq> None"
    by (simp add: catalog_defs)
  ultimately show ?thesis by blast
qed

lemma targets_init_distinct: "distinct (map name targets_init)"
  by (simp add: catalog_defs)

section \<open>Properties of the catalog and of the selection\<close>

text \<open>C6: \<open>FindTargetSpacecraft\<close> sets \<open>targetSpacecraft\<close> to the first dictionary
  with the given name and returns it, or sets and returns \<open>None\<close> when no entry has
  that name. Planets are entries too: the search is not restricted to spacecraft.\<close>

theorem FindTargetSpacecraft_spec:
  "\<exists>r. FindTargetSpacecraft nm w = (Inr r, w\<lparr>targetSpacecraft := r\<rparr>) \<and>
       (r = None \<longleftrightarrow> nm \<notin> set (map name (targets w))) \<and>
       (\<forall>i. r = Some i \<longrightarrow> i < length (targets w) \<and> name (targets w ! i) = nm \<and>
              (\<forall>j < i. name (targets w ! j) \<noteq> nm))"
proof -
  let ?r = "first_index (\<lambda>t. name t = nm) (targets w)"
  have run: "FindTargetSpacecraft nm w = (Inr ?r, w\<lparr>targetSpacecraft := ?r\<rparr>)"
    by (simp add: FindTargetSpacecraft_def prog_simps Let_def)
  have none: "?r = None \<longleftrightarrow> nm \<notin> set (map name (targets w))"
    unfolding first_index_None by auto
  have some: "\<forall>i. ?r = Some i \<longrightarrow> i < length (targets w) \<and> name (targets w ! i) = nm \<and>
      (\<forall>j < i. name (targets w ! j) \<noteq> nm)"
    using first_index_Some [of "\<lambda>t. name t = nm" "targets w"] by simp
  show ?thesis by (intro exI [of _ ?r] conjI run none some)
qed

lemma FindTargetSpacecraft_witness:
  "fst (FindTargetSpacecraft ''Earth'' \<lparr>targets = targets_init, targetSpacecraft = None,
     requests = [], stdout = [], artists = [], figures = [], np_drawn = 0\<rparr>) = Inr (Some 2)"
proof -
  let ?w = "\<lparr>targets = targets_init, targetSpacecraft = None, requests = [], stdout = [],
     artists = [], figures = [], np_drawn = 0\<rparr>"
  obtain r where r: "FindTargetSpacecraft ''Earth'' ?w = (Inr r, ?w\<lparr>targetSpacecraft := r\<rparr>)"
    and some: "\<forall>i. r = Some i \<longrightarrow> i < length (targets ?w) \<and> name (targets ?w ! i) = ''Earth'' \<and>
        (\<forall>j < i. name (targets ?w ! j) \<noteq> ''Earth'')"
    and none: "r = None \<longleftrightarrow> ''Earth'' \<notin> set (map name (targets ?w))"
    using FindTargetSpacecraft_spec [of "''Earth''" ?w] by blast
  have "r \<noteq> None" using none by (simp add: catalog_defs)
  then obtain i where i: "r = Some i" by blast
  have "i = 2"
  proof (rule ccontr)
    assume "i \<noteq> 2"
    then consider "i < 2" | "2 < i" by linarith
    then show False
    proof cases
      case 1
      then have "i = 0 \<or> i = 1" by linarith
      then show False using some i by (auto simp: catalog_defs)
    next
      case 2
      then show False using some i by (fastforce simp: catalog_defs)
    qed
  qed
  then show ?thesis using r i by simp
qed

text \<open>C7: with a draw \<open>n\<close> in \<open>[0, count)\<close>, \<open>GetRandomSpacecraft\<close> prints the
  selection, points \<open>targetSpacecraft\<close> at the \<open>n\<close>-th spacecraft entry in catalog
  order and returns it; the entry selected is a spacecraft.\<close>

theorem GetRandomSpacecraft_selects:
  assumes "randrange (length (filter isSpacecraft (targets w))) < length (filter isSpacecraft (targets w))"
  shows "GetRandomSpacecraft randrange w =
      (let k = spacecraft_indices (targets w) ! randrange (length (filter isSpacecraft (targets w)))
       in (Inr (Some k), w\<lparr>stdout := stdout w @ [''Selected '' @ name (targets w ! k) @ ''!''],
                           targetSpacecraft := Some k\<rparr>)) \<and>
    isSpacecraft (targets w ! (spacecraft_indices (targets w) !
      randrange (length (filter isSpacecraft (targets w)))))"
  using assms by (rule GetRandomSpacecraft_run)

lemma GetRandomSpacecraft_selects_witness:
  "fst (GetRandomSpacecraft (\<lambda>c. c - 1) \<lparr>targets = targets_init, targetSpacecraft = None,
     requests = [], stdout = [], artists = [], figures = [], np_drawn = 0\<rparr>) = Inr (Some 17)"
  using GetRandomSpacecraft_selects [of "\<lambda>c. c - 1" "\<lparr>targets = targets_init,
    targetSpacecraft = None, requests = [], stdout = [], artists = [], figures = [], np_drawn = 0\<rparr>"]
  by (simp add: catalog_defs spacecraft_indices_def Let_def)

text \<open>C8: the draw is uniform over the spacecraft: the selection loop maps the
  possible draws \<open>{0, ..., count - 1}\<close> one to one onto the positions of the
  spacecraft entries, so every spacecraft is selected by exactly one draw.\<close>

theorem pick_loop_bij:
  "bij_betw (\<lambda>n. the (pick_loop n 0 (spacecraft_enum ts)))
     {..<length (filter isSpacecraft ts)} {k. k < length ts \<and> isSpacecraft (ts ! k)}"
proof -
  have eq: "\<And>n. n < length (filter isSpacecraft ts) \<Longrightarrow>
      the (pick_loop n 0 (spacecraft_enum ts)) = spacecraft_indices ts ! n"
    by (simp add: pick_loop_nth length_spacecraft_enum flip: map_fst_spacecraft_enum)
  have "bij_betw (\<lambda>n. spacecraft_indices ts ! n) {..<length (spacecraft_indices ts)}
          (set (spacecraft_indices ts))"
    using spacecraft_indices_spec [of ts] by (simp add: bij_betw_nth lessThan_atLeast0)
  then have "bij_betw (\<lambda>n. spacecraft_indices ts ! n) {..<length (filter isSpacecraft ts)}
          {k. k < length ts \<and> isSpacecraft (ts ! k)}"
    using spacecraft_indices_spec [of ts] by (simp add: length_spacecraft_indices)
  then show ?thesis
    by (rule bij_betw_cong [THEN iffD1, rotated]) (simp add: eq)
qed

text \<open>With no spacecraft in the table the draw \<open>random.randrange(0)\<close> raises
  \<open>ValueError\<close>.\<close>

lemma GetRandomSpacecraft_empty:
  "filter isSpacecraft (targets w) = [] \<Longrightarrow> GetRandomSpacecraft randrange w = (Inl ValueError, w)"
  by (simp add: GetRandomSpacecraft_def prog_simps)

text \<open>C9: \<open>--list\<close> prints the heading and the names of the spacecraft entries in
  catalog order, then exits with status 0.\<close>

theorem ListSpacecraft_output:
  "ListSpacecraft w =
     (Inl (SystemExit 0),
      w\<lparr>stdout := stdout w @ ''Listing spacecraft...'' # map name (filter isSpacecraft (targets w))\<rparr>)"
  by (simp add: ListSpacecraft_def prog_simps print_line_def forP_print_filter)

end
