(* ===== verification/Astro.thy ===== *)
theory Astro
  imports Catalog
begin

text \<open>
  The ephemeris fetch \<open>GetAstroData\<close> of \<^verbatim>\<open>src/clipperwatch.py\<close> (lines 160--199).
  It builds a Horizons query for a target and an observer (optionally the weekly
  series since launch), sends it, and stores the answer in the target's dictionary
  under \<open>"eph" + observer\<close> or \<open>"ephSinceLaunch" + observer\<close>, together with the
  cleaned display name and, for planets, the first row of the osculating elements
  (a second request). Every exception inside the \<open>try\<close> is caught, printed and turned
  into \<open>exit(1)\<close>. The environment of a run (the service, the current date and the
  random draw) is the record \<open>env\<close>.
\<close>

section \<open>Definitions\<close>

record env =
  provider :: provider
  today :: date                   \<comment> \<open>\<open>date.today()\<close>\<close>
  randrange :: "nat \<Rightarrow> nat"        \<comment> \<open>\<open>random.randrange\<close>\<close>
  np_random :: "nat \<Rightarrow> real"       \<comment> \<open>the \<open>n\<close>-th double of \<open>np.random\<close>'s global generator\<close>

text \<open>A failure of the service, raised from \<open>ephemerides()\<close> or \<open>elements()\<close>.\<close>

definition provider_result :: "string + 'a \<Rightarrow> 'a result" where
  "provider_result r = (case r of Inl msg \<Rightarrow> Inl (ProviderError msg) | Inr x \<Rightarrow> Inr x)"

text \<open>\<open>target["launch_date"]\<close>: a \<open>KeyError\<close> for a planet.\<close>

definition get_launch_date :: "target \<Rightarrow> date result" where
  "get_launch_date t = (case launch_date t of None \<Rightarrow> Inl (KeyError ''launch_date'') | Some d \<Rightarrow> Inr d)"

text \<open>The dictionary key under which the answer is stored (lines 189 and 192).\<close>

definition astro_key :: "string \<Rightarrow> bool \<Rightarrow> string" where
  "astro_key observer getDataSinceLaunch =
     (if getDataSinceLaunch then ''ephSinceLaunch'' else ''eph'') @ observer"

text \<open>The query of lines 162--177, with its evaluation order: the observer's id, then
  (for the series) \<open>stop\<close>, \<open>start\<close> and the target's id.\<close>

definition horizons_query :: "date \<Rightarrow> target \<Rightarrow> string \<Rightarrow> bool \<Rightarrow> query result" where
  "horizons_query today_date target observer getDataSinceLaunch =
     ebind (MapNameToJplId observer) (\<lambda>oid.
       (let observerLocation = ''500@'' @ oid
        in if getDataSinceLaunch then
             (let stop = isoformat today_date
              in ebind (get_launch_date target) (\<lambda>ld.
                   (let start = isoformat ld
                    in ebind (MapNameToJplId (name target)) (\<lambda>tid.
                         Inr \<lparr>q_id = tid, q_location = observerLocation,
                              q_epochs = Some (start, stop, ''7d'')\<rparr>))))
           else ebind (MapNameToJplId (name target)) (\<lambda>tid.
                  Inr \<lparr>q_id = tid, q_location = observerLocation, q_epochs = None\<rparr>)))"

text \<open>The body of the \<open>try\<close> (lines 162--196) on the dictionary at index \<open>i\<close>.\<close>

definition astro_body :: "env \<Rightarrow> nat \<Rightarrow> string \<Rightarrow> bool \<Rightarrow> unit run" where
  "astro_body E i observer getDataSinceLaunch =
     bindP (get_target i) (\<lambda>target.
     bindP (liftR (horizons_query (today E) target observer getDataSinceLaunch)) (\<lambda>q.
     bindP (send (EphemeridesReq q)) (\<lambda>_.
     bindP (liftR (provider_result (eph_service (provider E) q))) (\<lambda>eph.
     bindP (liftR (py_first eph)) (\<lambda>row0.
     bindP (set_field i ''targetname'' (TargetName (split_first CHR ''('' (row_targetname row0)))) (\<lambda>_.
     bindP (if getDataSinceLaunch then set_field i (astro_key observer True) (EphTable eph)
            else set_field i (astro_key observer False) (EphRow row0)) (\<lambda>_.
     if \<not> isSpacecraft target then
       bindP (send (ElementsReq q)) (\<lambda>_.
       bindP (liftR (provider_result (elem_service (provider E) q))) (\<lambda>els.
       bindP (liftR (py_first els)) (\<lambda>el0.
       set_field i ''el'' (ElRow el0))))
     else ret ())))))))"

text \<open>\<open>except Exception as e: print(f"JPL Get error: {e}"); exit(1)\<close>.\<close>

definition GetAstroData :: "env \<Rightarrow> nat \<Rightarrow> string \<Rightarrow> bool \<Rightarrow> unit run" where
  "GetAstroData E i observer getDataSinceLaunch =
     catch (astro_body E i observer getDataSinceLaunch) (\<lambda>e.
       bindP (print_line (''JPL Get error: '' @ error_text e)) (\<lambda>_. raise (SystemExit 1)))"

text \<open>What a successful fetch stores in the dictionary: the abstract specification of
  \<open>GetAstroData\<close>, given the tables the service answered.\<close>

definition astro_store :: "target \<Rightarrow> string \<Rightarrow> bool \<Rightarrow> eph_row list \<Rightarrow> elements list \<Rightarrow> target" where
  "astro_store t observer sl rows els =
     t\<lparr>attrs := (\<lambda>k. if k = ''el'' \<and> \<not> isSpacecraft t then Some (ElRow (hd els))
                     else if k = astro_key observer sl then
                       Some (if sl then EphTable rows else EphRow (hd rows))
                     else if k = ''targetname'' then
                       Some (TargetName (split_first CHR ''('' (row_targetname (hd rows))))
                     else attrs t k)\<rparr>"

text \<open>The requests a successful fetch sends.\<close>

definition astro_requests :: "target \<Rightarrow> query \<Rightarrow> request list" where
  "astro_requests t q = EphemeridesReq q # (if isSpacecraft t then [] else [ElementsReq q])"

text \<open>A concrete environment for the witnesses: a service that answers every query
  with one row, on 2025-01-23, and a draw that always picks the first entry.\<close>

definition sample_row :: eph_row where
  "sample_row =
     \<lparr>row_targetname = ''Europa Clipper (spacecraft) (-159)'', datetime_str = ''2025-Jan-23 00:00'',
      EclLon = 90, EclLat = 0, r_au = 1.5, r_rate = 2, delta = 1, delta_rate = 2.5\<rparr>"

definition sample_elements :: elements where
  "sample_elements = \<lparr>el_a = 1, el_e = 0.0167, el_w = 114.2, el_Omega = 348.7\<rparr>"

definition sample_env :: env where
  "sample_env =
     \<lparr>provider = \<lparr>eph_service = (\<lambda>q. Inr [sample_row]), elem_service = (\<lambda>q. Inr [sample_elements])\<rparr>,
      today = \<lparr>year = 2025, month = 1, day = 23\<rparr>, randrange = (\<lambda>c. 0),
      np_random = (\<lambda>n. 1 / 2)\<rparr>"

section \<open>Lemmas\<close>

lemma provider_result_simps [simp]:
  "provider_result (Inl msg) = Inl (ProviderError msg)" "provider_result (Inr x) = Inr x"
  by (simp_all add: provider_result_def)

lemma astro_key_ne_targetname: "astro_key observer sl \<noteq> ''targetname''"
  by (simp add: astro_key_def)

lemma astro_key_ne_el: "astro_key observer sl \<noteq> ''el''"
  by (simp add: astro_key_def)

lemma targetname_ne_el: "''targetname'' \<noteq> ''el''"
  by simp

text \<open>No observer known to \<open>MapNameToJplId\<close> starts with \<open>SinceLaunch\<close>, so the two
  key families cannot meet.\<close>

lemma idMap_no_SinceLaunch: "\<forall>k \<in> set (map fst idMap). take 11 k \<noteq> ''SinceLaunch''"
  by (simp add: idMap_def)

lemma MapNameToJplId_Inr_key: "MapNameToJplId nm = Inr i \<Longrightarrow> nm \<in> set (map fst idMap)"
  by (auto simp: MapNameToJplId_def split: option.splits intro: map_of_SomeD [THEN imageI [of _ _ fst], simplified])

lemma horizons_query_observer:
  "horizons_query d t observer sl = Inr q \<Longrightarrow> \<exists>oid. MapNameToJplId observer = Inr oid"
  by (cases "MapNameToJplId observer") (simp_all add: horizons_query_def)

lemma astro_store_eq:
  "astro_store t observer sl rows els = t\<lparr>attrs :=
     (let m = (attrs t)(''targetname'' \<mapsto> TargetName (split_first CHR ''('' (row_targetname (hd rows))),
                        astro_key observer sl \<mapsto> (if sl then EphTable rows else EphRow (hd rows)))
      in if isSpacecraft t then m else m(''el'' \<mapsto> ElRow (hd els)))\<rparr>"
  using astro_key_ne_targetname [of observer sl] astro_key_ne_el [of observer sl]
  by (auto simp: astro_store_def Let_def fun_eq_iff)

lemma astro_body_keeps_stdout: "preserves stdout (astro_body E i observer sl)"
  unfolding astro_body_def by (intro frame_intros)

lemma provider_result_eq_Inr [simp]: "provider_result r = Inr x \<longleftrightarrow> r = Inr x"
  by (cases r) simp_all

lemma py_first_eq_Inr [simp]: "py_first xs = Inr x \<longleftrightarrow> (\<exists>ys. xs = x # ys)"
  by (cases xs) simp_all

lemma GetAstroData_caught:
  assumes "astro_body E i observer sl w = (Inl e, w')"
  shows "GetAstroData E i observer sl w =
           (Inl (SystemExit 1), w'\<lparr>stdout := stdout w @ [''JPL Get error: '' @ error_text e]\<rparr>)"
proof -
  have "stdout w' = stdout w"
    using astro_body_keeps_stdout assms by (rule preserves_D)
  then show ?thesis using assms by (simp add: GetAstroData_def prog_simps print_line_def)
qed

lemma GetAstroData_success_inv:
  assumes "GetAstroData E i observer sl w = (Inr (), w')"
  shows "\<exists>q rows els. i < length (targets w) \<and>
     horizons_query (today E) (targets w ! i) observer sl = Inr q \<and>
     eph_service (provider E) q = Inr rows \<and> rows \<noteq> [] \<and>
     (isSpacecraft (targets w ! i) \<or> (elem_service (provider E) q = Inr els \<and> els \<noteq> []))"
  using assms
  by (auto simp: GetAstroData_def astro_body_def prog_simps get_target_def effect_defs
      split: if_splits sum.splits list.splits prod.splits)

lemma GetAstroData_run:
  assumes "i < length (targets w)"
    and "horizons_query (today E) (targets w ! i) observer sl = Inr q"
    and "eph_service (provider E) q = Inr rows" "rows \<noteq> []"
    and "isSpacecraft (targets w ! i) \<or> (elem_service (provider E) q = Inr els \<and> els \<noteq> [])"
  shows "GetAstroData E i observer sl w =
     (Inr (), w\<lparr>targets := (targets w)[i := astro_store (targets w ! i) observer sl rows els],
               requests := requests w @ astro_requests (targets w ! i) q\<rparr>)"
proof -
  obtain r0 rs where rows: "rows = r0 # rs" using assms(4) by (cases rows) auto
  show ?thesis
  proof (cases "isSpacecraft (targets w ! i)")
    case True
    then show ?thesis
      using assms(1-3) rows
      by (simp add: GetAstroData_def astro_body_def prog_simps effect_defs astro_store_eq
          astro_requests_def Let_def)
  next
    case False
    with assms(5) obtain e0 es where "elem_service (provider E) q = Inr els" "els = e0 # es"
      by (cases els) auto
    with False show ?thesis
      using assms(1-3) rows
      by (simp add: GetAstroData_def astro_body_def prog_simps effect_defs astro_store_eq
          astro_requests_def Let_def)
  qed
qed

lemma GetAstroData_wt:
  assumes "observer \<in> set (map fst idMap)"
  shows "invariant world_wt (GetAstroData E i observer sl)"
proof -
  have "take 11 observer \<noteq> ''SinceLaunch''" using assms idMap_no_SinceLaunch by blast
  then show ?thesis
    unfolding GetAstroData_def astro_body_def
    by (intro inv_intros) (simp_all add: entry_fits_def astro_key_def)
qed

section \<open>Properties of the fetch\<close>

text \<open>C10: \<open>GetAstroData\<close> refines its abstract specification: when the query can be
  built and the service answers with non-empty tables, it returns normally, stores in
  the target's dictionary exactly what \<^const>\<open>astro_store\<close> describes (the cleaned
  name, the first row or the whole series under its key, and for a planet the first
  row of elements), sends the ephemerides request and, for a planet only, the elements
  request, and changes nothing else.\<close>

theorem GetAstroData_refines:
  assumes "i < length (targets w)"
    and "horizons_query (today E) (targets w ! i) observer sl = Inr q"
    and "eph_service (provider E) q = Inr rows" "rows \<noteq> []"
    and "isSpacecraft (targets w ! i) \<or> (elem_service (provider E) q = Inr els \<and> els \<noteq> [])"
  shows "GetAstroData E i observer sl w =
     (Inr (), w\<lparr>targets := (targets w)[i := astro_store (targets w ! i) observer sl rows els],
               requests := requests w @ astro_requests (targets w ! i) q\<rparr>)"
  using assms by (rule GetAstroData_run)

lemma GetAstroData_refines_witness:
  "GetAstroData sample_env 0 ''Sun'' False init_world =
     (Inr (), init_world\<lparr>targets := (targets init_world)[0 :=
        astro_store (targets init_world ! 0) ''Sun'' False [sample_row] [sample_elements]],
        requests := requests init_world @ astro_requests (targets init_world ! 0)
          \<lparr>q_id = ''199'', q_location = ''500@10'', q_epochs = None\<rparr>\<rparr>)"
  by (rule GetAstroData_refines)
    (simp_all add: init_world_def sample_env_def catalog_defs horizons_query_def MapNameToJplId_def
      idMap_def)

text \<open>C11: the only exception that escapes \<open>GetAstroData\<close> is \<open>SystemExit 1\<close>,
  and when it escapes the line \<open>JPL Get error: ...\<close> has been printed: every failure
  of the fetch (unknown name, missing key, service failure, empty table) ends the run.\<close>

theorem GetAstroData_exit:
  assumes "fst (GetAstroData E i observer sl w) = Inl e"
  shows "e = SystemExit 1 \<and>
    (\<exists>e'. stdout (snd (GetAstroData E i observer sl w)) = stdout w @ [''JPL Get error: '' @ error_text e'])"
proof -
  obtain r w' where body: "astro_body E i observer sl w = (r, w')" by fastforce
  show ?thesis
  proof (cases r)
    case (Inl e')
    then show ?thesis using body assms GetAstroData_caught [of E i observer sl w e' w'] by auto
  next
    case (Inr u)
    then show ?thesis using body assms by (simp add: GetAstroData_def prog_simps)
  qed
qed

lemma GetAstroData_exit_witness:
  "fst (GetAstroData sample_env 0 ''Moon'' False init_world) = Inl (SystemExit 1) \<and>
   SystemExit 1 = SystemExit 1 \<and>
   (\<exists>e'. stdout (snd (GetAstroData sample_env 0 ''Moon'' False init_world)) =
          stdout init_world @ [''JPL Get error: '' @ error_text e'])"
proof -
  have "fst (GetAstroData sample_env 0 ''Moon'' False init_world) = Inl (SystemExit 1)"
    by (simp add: GetAstroData_def astro_body_def init_world_def catalog_defs horizons_query_def
        MapNameToJplId_def idMap_def prog_simps print_line_def)
  then show ?thesis using GetAstroData_exit by blast
qed

text \<open>C12: the since-launch fetch of a planet (an entry without \<open>launch_date\<close>)
  fails with \<open>KeyError('launch_date')\<close> inside the \<open>try\<close>: the run prints
  \<open>JPL Get error: 'launch_date'\<close> and exits with status 1, before any request is
  sent. This is what happens when \<open>--spacecraft\<close> names a planet.\<close>

theorem GetAstroData_planet_since_launch:
  assumes "i < length (targets w)" "launch_date (targets w ! i) = None"
    and "MapNameToJplId observer = Inr oid"
  shows "GetAstroData E i observer True w =
           (Inl (SystemExit 1), w\<lparr>stdout := stdout w @ [''JPL Get error: '' @ error_text (KeyError ''launch_date'')]\<rparr>)"
proof -
  have "astro_body E i observer True w = (Inl (KeyError ''launch_date''), w)"
    using assms by (simp add: astro_body_def horizons_query_def get_launch_date_def prog_simps Let_def)
  then show ?thesis by (rule GetAstroData_caught)
qed

lemma GetAstroData_planet_since_launch_witness:
  "GetAstroData sample_env 2 ''Sun'' True init_world =
     (Inl (SystemExit 1), init_world\<lparr>stdout := stdout init_world @
        [''JPL Get error: '' @ error_text (KeyError ''launch_date'')]\<rparr>)"
  by (rule GetAstroData_planet_since_launch)
    (simp_all add: init_world_def catalog_defs MapNameToJplId_def idMap_def)

text \<open>C13: the keys \<open>"eph" + observer\<close> and \<open>"ephSinceLaunch" + observer\<close> under
  which \<open>GetAstroData\<close> stores its answers are distinct for distinct (observer,
  series) pairs among the names \<open>MapNameToJplId\<close> accepts.\<close>

theorem astro_key_inj:
  assumes "o1 \<in> set (map fst idMap)" "o2 \<in> set (map fst idMap)"
  shows "astro_key o1 b1 = astro_key o2 b2 \<longleftrightarrow> o1 = o2 \<and> b1 = b2"
proof -
  have no: "''SinceLaunch'' @ ob \<notin> set (map fst idMap)" for ob
  proof
    assume "''SinceLaunch'' @ ob \<in> set (map fst idMap)"
    with idMap_no_SinceLaunch have "take 11 (''SinceLaunch'' @ ob) \<noteq> ''SinceLaunch''" by blast
    then show False by simp
  qed
  show ?thesis
  proof (cases "b1 = b2")
    case True
    then show ?thesis by (simp add: astro_key_def)
  next
    case False
    have "astro_key o1 b1 \<noteq> astro_key o2 b2"
    proof
      assume eq: "astro_key o1 b1 = astro_key o2 b2"
      show False
      proof (cases b1)
        case True
        with False eq have "o2 = ''SinceLaunch'' @ o1" by (simp add: astro_key_def)
        with no [of o1] assms(2) show False by simp
      next
        case b1: False
        with False eq have "o1 = ''SinceLaunch'' @ o2" by (simp add: astro_key_def)
        with no [of o2] assms(1) show False by simp
      qed
    qed
    with False show ?thesis by simp
  qed
qed

lemma astro_key_inj_witness:
  "astro_key ''Sun'' True \<noteq> astro_key ''Sun'' False"
proof -
  have "astro_key ''Sun'' True = astro_key ''Sun'' False \<longleftrightarrow> ''Sun'' = ''Sun'' \<and> True = False"
    by (rule astro_key_inj) (simp_all add: idMap_def)
  then show ?thesis by simp
qed

text \<open>C14: a successful fetch for one observer and mode leaves the answer stored for
  any other observer or mode untouched (so the later since-launch and Earth/Europa
  fetches keep the \<open>ephSun\<close> row the status bar reads), leaves the other
  dictionaries as they were, and prints and draws nothing.\<close>

theorem GetAstroData_frame:
  assumes run: "GetAstroData E i observer sl w = (Inr (), w')"
    and obs: "observer \<in> set (map fst idMap)" "observer' \<in> set (map fst idMap)"
    and other: "(observer', sl') \<noteq> (observer, sl)"
  shows "attrs (targets w' ! i) (astro_key observer' sl') = attrs (targets w ! i) (astro_key observer' sl') \<and>
    length (targets w') = length (targets w) \<and>
    (\<forall>j. j \<noteq> i \<longrightarrow> targets w' ! j = targets w ! j) \<and>
    stdout w' = stdout w \<and> artists w' = artists w \<and> targetSpacecraft w' = targetSpacecraft w"
proof -
  obtain q rows els where i: "i < length (targets w)"
    and hq: "horizons_query (today E) (targets w ! i) observer sl = Inr q"
    and rows: "eph_service (provider E) q = Inr rows" "rows \<noteq> []"
    and els: "isSpacecraft (targets w ! i) \<or> (elem_service (provider E) q = Inr els \<and> els \<noteq> [])"
    using GetAstroData_success_inv [OF run] by blast
  have w': "w' = w\<lparr>targets := (targets w)[i := astro_store (targets w ! i) observer sl rows els],
               requests := requests w @ astro_requests (targets w ! i) q\<rparr>"
    using GetAstroData_run [OF i hq rows els] run by simp
  have "astro_key observer' sl' \<noteq> astro_key observer sl"
    using astro_key_inj [OF obs(2,1)] other by simp
  then show ?thesis
    using i astro_key_ne_targetname [of observer' sl'] astro_key_ne_el [of observer' sl']
    by (simp add: w' astro_store_def)
qed

lemma GetAstroData_frame_witness:
  "attrs (targets (snd (GetAstroData sample_env 6 ''Sun'' True init_world)) ! 6) (astro_key ''Sun'' False) =
   attrs (targets init_world ! 6) (astro_key ''Sun'' False)"
proof -
  let ?w' = "snd (GetAstroData sample_env 6 ''Sun'' True init_world)"
  have "fst (GetAstroData sample_env 6 ''Sun'' True init_world) = Inr ()"
    by (simp add: GetAstroData_def astro_body_def init_world_def catalog_defs horizons_query_def
        get_launch_date_def MapNameToJplId_def idMap_def sample_env_def prog_simps effect_defs)
  then have run: "GetAstroData sample_env 6 ''Sun'' True init_world = (Inr (), ?w')"
    by (metis prod.collapse)
  have obs: "''Sun'' \<in> set (map fst idMap)" by (simp add: idMap_def)
  show ?thesis using GetAstroData_frame [where sl' = False, OF run obs obs] by simp
qed

end
