(* ===== verification/Telemetry.thy ===== *)
theory Telemetry
  imports Astro
begin

text \<open>
  The Telemetry Formatter of \<^verbatim>\<open>src/clipperwatch.py\<close>: \<open>GetDistSpeedFrom\<close>
  (lines 332--342), \<open>GetSignalDelay\<close> (345--351) and \<open>GetMissionDays\<close> (354--356),
  which read the samples \<open>GetAstroData\<close> stored in a target's dictionary and format
  them. Python's fixed-point formatting \<open>f"{x:.kf}"\<close> is modelled on the exact value:
  the value is scaled by \<open>10^k\<close> and rounded half to even, as CPython rounds the exact
  binary value it is given. Astropy's conversion of AU to km uses the IAU 2012 value
  149597870.7 km, and the speed of light is 299792.458 km/s; a \<open>Quantity\<close> formats
  its value followed by its unit.
\<close>

section \<open>Definitions\<close>

definition round_half_even :: "real \<Rightarrow> int" where
  "round_half_even x =
     (let f = \<lfloor>x\<rfloor>; d = x - of_int f
      in if d < 1 / 2 then f else if 1 / 2 < d then f + 1 else if even f then f else f + 1)"

text \<open>The number of units of \<open>10^-k\<close> that \<open>format(x, ".kf")\<close> prints: \<open>|x|\<close>
  scaled by \<open>10^k\<close> and rounded half to even.\<close>

definition fixed_units :: "nat \<Rightarrow> real \<Rightarrow> nat" where
  "fixed_units k x = nat (round_half_even (\<bar>x\<bar> * 10 ^ k))"

text \<open>\<open>format(x, ".kf")\<close>: the sign of \<open>x\<close>, the integer part and \<open>k\<close> decimals.\<close>

definition fmt_fixed :: "nat \<Rightarrow> real \<Rightarrow> string" where
  "fmt_fixed k x =
     (let n = fixed_units k x
      in (if x < 0 then ''-'' else []) @ string_of_nat (n div 10 ^ k) @
         (if k = 0 then [] else ''.'' @ zpad k (string_of_nat (n mod 10 ^ k))))"

definition AU_KM :: real where
  "AU_KM = 149597870.7"

definition C_KM_S :: real where
  "C_KM_S = 299792.458"

text \<open>\<open>obj[ephKey]\<close> where the stored value is one ephemeris row; any other value
  under such a key cannot occur (the keys are distinct, \<open>astro_key_inj\<close>).\<close>

definition get_row :: "target \<Rightarrow> string \<Rightarrow> eph_row result" where
  "get_row t k =
     ebind (dict_get (attrs t) k) (\<lambda>v. case v of EphRow r \<Rightarrow> Inr r | _ \<Rightarrow> Inl TypeError)"

text \<open>The formatting part of \<open>GetDistSpeedFrom\<close> (lines 336--341).\<close>

definition dist_speed_message :: "string \<Rightarrow> real \<Rightarrow> real \<Rightarrow> string" where
  "dist_speed_message observer dist_au speed =
     (let motion = (if speed > 0 then ''moving away'' else ''moving closer'');
          speed' = \<bar>speed\<bar>
      in ''Distance to '' @ observer @ '': '' @ fmt_fixed 5 dist_au @ '' AU and '' @ motion @
         '' @ '' @ fmt_fixed 5 speed' @ '' Km/s'')"

definition GetDistSpeedFrom :: "target \<Rightarrow> string \<Rightarrow> string result" where
  "GetDistSpeedFrom obj observer =
     ebind (get_row obj (''eph'' @ observer)) (\<lambda>row.
       Inr (dist_speed_message observer (delta row) (delta_rate row)))"

text \<open>One-way light time in seconds for an Earth range in AU (lines 346--349).\<close>

definition light_time :: "real \<Rightarrow> real" where
  "light_time distEarthAu = (distEarthAu * AU_KM) / C_KM_S"

definition GetSignalDelay :: "target \<Rightarrow> string result" where
  "GetSignalDelay obj =
     ebind (get_row obj ''ephEarth'') (\<lambda>row.
       Inr (''Signal Delay: '' @ fmt_fixed 3 (light_time (delta row)) @ '' s''))"

definition GetMissionDays :: "date \<Rightarrow> target \<Rightarrow> string result" where
  "GetMissionDays today_date obj =
     ebind (get_launch_date obj) (\<lambda>ld.
       Inr (''Mission day: '' @ string_of_int (date_diff_days today_date ld)))"

section \<open>Lemmas\<close>

lemmas fmt_eval = fmt_fixed_def fixed_units_def round_half_even_def zpad_def py_simps digit_char_def

lemma round_half_even_floor: "\<lfloor>x\<rfloor> \<le> round_half_even x \<and> round_half_even x \<le> \<lfloor>x\<rfloor> + 1"
  by (simp add: round_half_even_def Let_def)

lemma round_half_even_error: "\<bar>of_int (round_half_even x) - x\<bar> \<le> 1 / 2"
proof -
  let ?f = "\<lfloor>x\<rfloor>"
  have f: "of_int ?f \<le> x" "x < of_int ?f + 1" by linarith+
  show ?thesis
    using f by (auto simp: round_half_even_def Let_def abs_le_iff)
qed

lemma round_half_even_mono:
  assumes "x \<le> y"
  shows "round_half_even x \<le> round_half_even y"
proof (cases "\<lfloor>x\<rfloor> < \<lfloor>y\<rfloor>")
  case True
  then show ?thesis
    using round_half_even_floor [of x] round_half_even_floor [of y] by linarith
next
  case False
  with assms have eq: "\<lfloor>x\<rfloor> = \<lfloor>y\<rfloor>" using floor_mono [OF assms] by linarith
  have "x - of_int \<lfloor>x\<rfloor> \<le> y - of_int \<lfloor>y\<rfloor>" using assms eq by simp
  then show ?thesis using eq by (auto simp: round_half_even_def Let_def)
qed

lemma round_half_even_nonneg: "0 \<le> x \<Longrightarrow> 0 \<le> round_half_even x"
  using round_half_even_floor [of x] by linarith

lemma get_row_EphRow: "attrs t k = Some (EphRow r) \<Longrightarrow> get_row t k = Inr r"
  by (simp add: get_row_def dict_get_def)

lemma get_row_None: "attrs t k = None \<Longrightarrow> get_row t k = Inl (KeyError k)"
  by (simp add: get_row_def dict_get_def)

lemma fixed_units_error:
  "\<bar>real (fixed_units k x) / 10 ^ k - \<bar>x\<bar>\<bar> \<le> 1 / (2 * 10 ^ k)"
proof -
  let ?y = "\<bar>x\<bar> * 10 ^ k"
  have nn: "0 \<le> round_half_even ?y" by (rule round_half_even_nonneg) simp
  have "real (fixed_units k x) = of_int (round_half_even ?y)"
    using nn by (simp add: fixed_units_def)
  moreover have "\<bar>of_int (round_half_even ?y) - ?y\<bar> \<le> 1 / 2" by (rule round_half_even_error)
  ultimately have "\<bar>real (fixed_units k x) - ?y\<bar> \<le> 1 / 2" by simp
  then have "\<bar>real (fixed_units k x) - ?y\<bar> / 10 ^ k \<le> (1 / 2) / 10 ^ k"
    by (rule divide_right_mono) simp
  moreover have "(real (fixed_units k x) - ?y) / 10 ^ k = real (fixed_units k x) / 10 ^ k - \<bar>x\<bar>"
    by (simp add: diff_divide_distrib)
  then have "\<bar>real (fixed_units k x) - ?y\<bar> / 10 ^ k = \<bar>real (fixed_units k x) / 10 ^ k - \<bar>x\<bar>\<bar>"
    by (metis abs_divide abs_of_pos zero_less_numeral zero_less_power)
  ultimately show ?thesis by simp
qed

lemma round_half_even_eqI:
  assumes "\<bar>x - of_int n\<bar> < 1 / 2"
  shows "round_half_even x = n"
proof -
  have x: "of_int n - 1 / 2 < x" "x < of_int n + 1 / 2"
    using assms unfolding abs_less_iff by linarith+
  then have "\<lfloor>x\<rfloor> \<le> n" "n - 1 \<le> \<lfloor>x\<rfloor>"
    by (simp_all add: floor_le_iff le_floor_iff)
  then consider "\<lfloor>x\<rfloor> = n" | "\<lfloor>x\<rfloor> = n - 1" by linarith
  then show ?thesis
  proof cases
    case 1
    then show ?thesis using x by (simp add: round_half_even_def Let_def)
  next
    case 2
    then show ?thesis using x by (simp add: round_half_even_def Let_def)
  qed
qed

lemma fmt_fixed_eqI:
  assumes "0 \<le> x" "0 < k" "\<bar>x * 10 ^ k - real n\<bar> < 1 / 2"
  shows "fmt_fixed k x = string_of_nat (n div 10 ^ k) @ ''.'' @ zpad k (string_of_nat (n mod 10 ^ k))"
proof -
  have "round_half_even (x * 10 ^ k) = int n"
    by (rule round_half_even_eqI) (use assms(3) in simp)
  then show ?thesis using assms(1,2) by (simp add: fmt_fixed_def fixed_units_def)
qed

lemma light_time_1: "\<bar>light_time 1 * 10 ^ 3 - real 499005\<bar> < 1 / 2"
  by (simp add: light_time_def AU_KM_def C_KM_S_def abs_less_iff)

lemma light_time_52: "\<bar>light_time 5.2 * 10 ^ 3 - real 2594825\<bar> < 1 / 2"
  by (simp add: light_time_def AU_KM_def C_KM_S_def abs_less_iff)

text \<open>The speed text of the samples \<open>+2.5\<close> and \<open>-2.5\<close> km/s.\<close>

lemma dist_speed_message_example:
  "dist_speed_message ''Sun'' 1 2.5 = ''Distance to Sun: 1.00000 AU and moving away @ 2.50000 Km/s''"
  "dist_speed_message ''Sun'' 1 (-2.5) = ''Distance to Sun: 1.00000 AU and moving closer @ 2.50000 Km/s''"
  by (simp_all add: dist_speed_message_def fmt_eval)

section \<open>Properties\<close>

text \<open>C15: the direction label of \<open>GetDistSpeedFrom\<close> follows the sign of the range
  rate and the speed is printed as its magnitude: two samples that differ only in the
  sign of a positive rate give the same text but for \<open>moving away\<close> and
  \<open>moving closer\<close>.\<close>

theorem GetDistSpeedFrom_sign:
  assumes "attrs t (''eph'' @ observer) = Some (EphRow r)"
    and "attrs t' (''eph'' @ observer) = Some (EphRow (r\<lparr>delta_rate := - delta_rate r\<rparr>))"
    and "0 < delta_rate r"
  shows "\<exists>pre post. GetDistSpeedFrom t observer = Inr (pre @ ''moving away'' @ post) \<and>
                   GetDistSpeedFrom t' observer = Inr (pre @ ''moving closer'' @ post)"
proof (intro exI conjI)
  let ?pre = "''Distance to '' @ observer @ '': '' @ fmt_fixed 5 (delta r) @ '' AU and ''"
  let ?post = "'' @ '' @ fmt_fixed 5 (delta_rate r) @ '' Km/s''"
  show "GetDistSpeedFrom t observer = Inr (?pre @ ''moving away'' @ ?post)"
    using assms(1,3) by (simp add: GetDistSpeedFrom_def get_row_EphRow dist_speed_message_def Let_def)
  show "GetDistSpeedFrom t' observer = Inr (?pre @ ''moving closer'' @ ?post)"
    using assms(2,3) by (simp add: GetDistSpeedFrom_def get_row_EphRow dist_speed_message_def Let_def)
qed

lemma GetDistSpeedFrom_sign_witness:
  "\<exists>pre post.
     GetDistSpeedFrom (planet ''Earth'' ''#2271B3'' 50\<lparr>attrs := [''ephSun'' \<mapsto> EphRow sample_row]\<rparr>) ''Sun'' =
       Inr (pre @ ''moving away'' @ post) \<and>
     GetDistSpeedFrom (planet ''Earth'' ''#2271B3'' 50\<lparr>attrs := [''ephSun'' \<mapsto>
       EphRow (sample_row\<lparr>delta_rate := - delta_rate sample_row\<rparr>)]\<rparr>) ''Sun'' =
       Inr (pre @ ''moving closer'' @ post)"
  by (rule GetDistSpeedFrom_sign [where r = sample_row]) (simp_all add: sample_row_def)

text \<open>C16: the signal delay is the one-way light time, printed in seconds with three
  decimals: 1 AU gives \<open>499.005 s\<close> and 5.2 AU (about Jupiter's distance) gives
  \<open>2594.825 s\<close>.\<close>

theorem GetSignalDelay_values:
  assumes "attrs t ''ephEarth'' = Some (EphRow r)"
  shows "(delta r = 1 \<longrightarrow> GetSignalDelay t = Inr ''Signal Delay: 499.005 s'') \<and>
         (delta r = 5.2 \<longrightarrow> GetSignalDelay t = Inr ''Signal Delay: 2594.825 s'')"
proof -
  have "0 \<le> light_time 1" "0 \<le> light_time 5.2"
    by (simp_all add: light_time_def AU_KM_def C_KM_S_def)
  then have "fmt_fixed 3 (light_time 1) = ''499.005''" "fmt_fixed 3 (light_time 5.2) = ''2594.825''"
    using fmt_fixed_eqI [OF _ _ light_time_1] fmt_fixed_eqI [OF _ _ light_time_52]
    by (simp_all add: py_simps digit_char_def zpad_def)
  note fmt = this
  show ?thesis
  proof (intro conjI impI)
    assume "delta r = 1"
    then show "GetSignalDelay t = Inr ''Signal Delay: 499.005 s''"
      using assms fmt by (simp add: GetSignalDelay_def get_row_EphRow)
  next
    assume d: "delta r = 5.2"
    show "GetSignalDelay t = Inr ''Signal Delay: 2594.825 s''"
      using assms fmt by (simp add: GetSignalDelay_def get_row_EphRow d)
  qed
qed

lemma GetSignalDelay_values_witness:
  "GetSignalDelay (craft ''Juno'' 2011 8 6\<lparr>attrs := [''ephEarth'' \<mapsto> EphRow sample_row]\<rparr>) =
     Inr ''Signal Delay: 499.005 s''"
  using GetSignalDelay_values [of "craft ''Juno'' 2011 8 6\<lparr>attrs := [''ephEarth'' \<mapsto> EphRow sample_row]\<rparr>"
      sample_row]
  by (simp add: sample_row_def)

text \<open>C17: the printed signal delay never decreases when the Earth range grows: the
  number of milliseconds shown is monotone in the range.\<close>

theorem signal_delay_monotone:
  assumes "0 \<le> d1" "d1 \<le> d2"
  shows "fixed_units 3 (light_time d1) \<le> fixed_units 3 (light_time d2)"
proof -
  have "light_time d1 \<le> light_time d2" "0 \<le> light_time d1"
    using assms by (simp_all add: light_time_def AU_KM_def C_KM_S_def divide_right_mono)
  then have "\<bar>light_time d1\<bar> * 10 ^ 3 \<le> \<bar>light_time d2\<bar> * 10 ^ 3" by simp
  then show ?thesis
    unfolding fixed_units_def by (intro nat_mono round_half_even_mono)
qed

lemma signal_delay_monotone_witness:
  "fixed_units 3 (light_time 1) \<le> fixed_units 3 (light_time 5.2)"
  by (rule signal_delay_monotone) simp_all

text \<open>C18: \<open>f"{x:.kf}"\<close> for \<open>k > 0\<close> prints a minus sign exactly when \<open>x < 0\<close>,
  a non-empty run of decimal digits, a point and exactly \<open>k\<close> digits, and the number
  those digits denote differs from \<open>|x|\<close> by at most half a unit of the last place.\<close>

theorem fmt_fixed_spec:
  assumes "0 < k"
  shows "\<exists>ip fp. fmt_fixed k x = (if x < 0 then ''-'' else []) @ ip @ ''.'' @ fp \<and>
     ip \<noteq> [] \<and> length fp = k \<and> set ip \<subseteq> digit_chars \<and> set fp \<subseteq> digit_chars \<and>
     \<bar>real (digits_value ip) + real (digits_value fp) / 10 ^ k - \<bar>x\<bar>\<bar> \<le> 1 / (2 * 10 ^ k)"
proof -
  let ?n = "fixed_units k x"
  let ?ip = "string_of_nat (?n div 10 ^ k)" and ?fp = "zpad k (string_of_nat (?n mod 10 ^ k))"
  have eq: "fmt_fixed k x = (if x < 0 then ''-'' else []) @ ?ip @ ''.'' @ ?fp"
    using assms by (simp add: fmt_fixed_def Let_def)
  have "length (string_of_nat (?n mod 10 ^ k)) \<le> k"
    using assms by (intro length_string_of_nat_le) simp_all
  then have len: "length ?fp = k" by (simp add: length_zpad)
  have dig: "set ?ip \<subseteq> digit_chars" "set ?fp \<subseteq> digit_chars"
    by (simp_all add: string_of_nat_digits zpad_digits)
  have "?n = ?n div 10 ^ k * 10 ^ k + ?n mod 10 ^ k" by (rule div_mult_mod_eq [symmetric])
  then have "real ?n = real (?n div 10 ^ k) * 10 ^ k + real (?n mod 10 ^ k)"
    by (metis of_nat_add of_nat_mult of_nat_numeral of_nat_power)
  then have "real (digits_value ?ip) + real (digits_value ?fp) / 10 ^ k = real ?n / 10 ^ k"
    by (simp add: digits_value_string_of_nat digits_value_zpad field_simps)
  then have val: "\<bar>real (digits_value ?ip) + real (digits_value ?fp) / 10 ^ k - \<bar>x\<bar>\<bar> \<le> 1 / (2 * 10 ^ k)"
    using fixed_units_error [of k x] by simp
  show ?thesis using eq len dig val string_of_nat_nonempty by blast
qed

lemma fmt_fixed_spec_witness:
  "\<exists>ip fp. fmt_fixed 5 (-2.5) = (if (-2.5::real) < 0 then ''-'' else []) @ ip @ ''.'' @ fp \<and>
     ip \<noteq> [] \<and> length fp = 5 \<and> set ip \<subseteq> digit_chars \<and> set fp \<subseteq> digit_chars \<and>
     \<bar>real (digits_value ip) + real (digits_value fp) / 10 ^ 5 - \<bar>-2.5\<bar>\<bar> \<le> 1 / (2 * 10 ^ 5)"
  by (rule fmt_fixed_spec) simp

text \<open>C19: a telemetry line whose sample was never fetched fails with a \<open>KeyError\<close>
  naming the missing key (the spec's \<open>MissingTelemetryContext\<close>), never with a
  default value; \<open>GetMissionDays\<close> of a planet fails on \<open>launch_date\<close>.\<close>

theorem telemetry_missing_context:
  "(attrs t (''eph'' @ observer) = None \<longrightarrow>
      GetDistSpeedFrom t observer = Inl (KeyError (''eph'' @ observer))) \<and>
   (attrs t ''ephEarth'' = None \<longrightarrow> GetSignalDelay t = Inl (KeyError ''ephEarth'')) \<and>
   (launch_date t = None \<longrightarrow> GetMissionDays d t = Inl (KeyError ''launch_date''))"
  by (simp add: GetDistSpeedFrom_def GetSignalDelay_def GetMissionDays_def get_row_None
      get_launch_date_def)

lemma telemetry_missing_context_witness:
  "GetDistSpeedFrom (targets init_world ! 6) ''Earth'' = Inl (KeyError ''ephEarth'') \<and>
   GetSignalDelay (targets init_world ! 6) = Inl (KeyError ''ephEarth'') \<and>
   GetMissionDays (today sample_env) (targets init_world ! 2) = Inl (KeyError ''launch_date'')"
  using telemetry_missing_context [of "targets init_world ! 6" "''Earth''"]
    telemetry_missing_context [of "targets init_world ! 2" _ "today sample_env"]
  by (simp add: init_world_def catalog_defs)

text \<open>C20: the mission day count is the number of calendar days since launch: for a
  launch date \<open>n\<close> days before today, \<open>GetMissionDays\<close> prints \<open>n\<close>.\<close>

theorem GetMissionDays_count:
  assumes "launch_date t = Some ld" "valid_date ld" "year ((next_day ^^ n) ld) \<le> 9999"
  shows "GetMissionDays ((next_day ^^ n) ld) t = Inr (''Mission day: '' @ string_of_nat n)"
  using toordinal_funpow_next_day [OF assms(2,3)] assms(1)
  by (simp add: GetMissionDays_def get_launch_date_def date_diff_days_def string_of_int_def)

lemma GetMissionDays_count_witness:
  "GetMissionDays ((next_day ^^ 100) \<lparr>year = 2024, month = 10, day = 15\<rparr>) (targets init_world ! 6) =
     Inr (''Mission day: 100'')"
proof -
  let ?ld = "\<lparr>year = 2024, month = 10, day = 15\<rparr> :: date"
  have "year ((next_day ^^ 100) ?ld) \<le> 9999"
    using year_funpow_next_day_le [of 100 ?ld] by simp
  moreover have "valid_date ?ld"
    by (simp add: valid_date_def days_in_month_def DAYS_IN_MONTH_def is_leap_def)
  moreover have "launch_date (targets init_world ! 6) = Some ?ld"
    by (simp add: init_world_def catalog_defs)
  ultimately show ?thesis
    using GetMissionDays_count [of "targets init_world ! 6" ?ld 100]
    by (simp add: py_simps digit_char_def)
qed

end
