(* ===== verification/Geometry.thy ===== *)
theory Geometry
  imports Horizons
begin

text \<open>
  The geometric core of \<^verbatim>\<open>src/clipperwatch.py\<close>: the Coordinate Projector
  (lines 232--236 in \<open>PlotTargets\<close>, repeated at lines 316--320 in
  \<open>PlotSpacecraftTail\<close>), the Orbit Path Reconstructor (lines 251--277) and the
  Trajectory Builder (the loop of lines 309--326). NumPy's vectorised arithmetic is
  applied element by element, so each array expression is modelled as a \<open>map\<close> of
  the scalar expression over the sample list. Floating point is modelled by the reals:
  the theorems state the exact geometry that the floating-point code approximates.
\<close>

section \<open>Definitions\<close>

text \<open>\<open>np.radians\<close>.\<close>

definition radians :: "real \<Rightarrow> real" where
  "radians deg = deg * pi / 180"

text \<open>Polar to Cartesian: \<open>x = r * cos(t)\<close>, \<open>y = r * sin(t)\<close>.\<close>

definition polar :: "real \<Rightarrow> real \<Rightarrow> point" where
  "polar rho t = (rho * cos t, rho * sin t)"

text \<open>The Coordinate Projector: longitude in degrees and range in AU to scene
  coordinates (lines 229--236).\<close>

definition project :: "real \<Rightarrow> real \<Rightarrow> point" where
  "project lon rng = (let angle_rad = radians lon in polar rng angle_rad)"

text \<open>\<open>np.linspace(start, stop, num)\<close> with its default \<open>endpoint=True\<close>: \<open>num\<close>
  equally spaced values, the last one set to \<open>stop\<close> exactly.\<close>

definition linspace :: "real \<Rightarrow> real \<Rightarrow> nat \<Rightarrow> real list" where
  "linspace start stop num =
     (if num = 0 then []
      else if num = 1 then [start]
      else (let step = (stop - start) / real (num - 1)
            in map (\<lambda>i. start + real i * step) [0..<num - 1] @ [stop]))"

text \<open>The polar conic equation with the Sun at the focus (line 263).\<close>

definition conic_radius :: "real \<Rightarrow> real \<Rightarrow> real \<Rightarrow> real" where
  "conic_radius a ec theta = (a * (1 - ec ^ 2)) / (1 + ec * cos theta)"

text \<open>The two-dimensional rotation matrix (lines 276--277).\<close>

definition rotate :: "real \<Rightarrow> point \<Rightarrow> point" where
  "rotate phi p = (fst p * cos phi - snd p * sin phi, fst p * sin phi + snd p * cos phi)"

text \<open>The number of orbit samples, hard-coded at line 259.\<close>

definition orbit_samples :: nat where
  "orbit_samples = 360"

text \<open>One orbit point: radius from the conic, Cartesian, then the single combined
  rotation by \<open>w + Omega\<close> (lines 263--277).\<close>

definition orbit_point :: "elements \<Rightarrow> real \<Rightarrow> point" where
  "orbit_point el theta =
     (let r = conic_radius (el_a el) (el_e el) theta;
          total_rotation = radians (el_w el + el_Omega el)
      in rotate total_rotation (polar r theta))"

text \<open>The Orbit Path Reconstructor (lines 251--277): the rotated points in the order of
  \<open>theta\<close>.\<close>

definition orbit_path :: "elements \<Rightarrow> point list" where
  "orbit_path el = map (orbit_point el) (linspace 0 (2 * pi) orbit_samples)"

text \<open>The Trajectory Builder: the loop of \<open>PlotSpacecraftTail\<close> (lines 309--326),
  appending one projected coordinate per weekly sample to \<open>x_list\<close> and \<open>y_list\<close>;
  the polyline drawn is the pairing of the two arrays.\<close>

fun tail_loop :: "eph_row list \<Rightarrow> real list \<Rightarrow> real list \<Rightarrow> real list \<times> real list" where
  "tail_loop [] x_list y_list = (x_list, y_list)"
| "tail_loop (week # weeks) x_list y_list =
     (let (x, y) = project (EclLon week) (r_au week)
      in tail_loop weeks (x_list @ [x]) (y_list @ [y]))"

definition build_trajectory :: "eph_row list \<Rightarrow> point list" where
  "build_trajectory rows = (let (x_array, y_array) = tail_loop rows [] [] in zip x_array y_array)"

text \<open>The second focus of the reconstructed ellipse: the Sun is at the origin, the
  other focus at distance \<open>2ae\<close> on the far side of the periapsis direction.\<close>

definition other_focus :: "elements \<Rightarrow> point" where
  "other_focus el = rotate (radians (el_w el + el_Omega el)) (- 2 * el_a el * el_e el, 0)"

section \<open>Lemmas\<close>

named_theorems geom_simps "unfolding rules of the geometric definitions"

declare polar_def [geom_simps] project_def [geom_simps] rotate_def [geom_simps]
  radians_def [geom_simps] norm2_def [geom_simps] dist2_def [geom_simps]

lemma norm2_polar [simp]: "norm2 (polar rho t) = rho ^ 2"
  by (simp add: polar_def norm2_def power_mult_distrib flip: distrib_left)

lemma norm2_rotate [simp]: "norm2 (rotate phi p) = norm2 p"
proof -
  have "cos phi * cos phi + sin phi * sin phi = 1" by (rule sin_cos_squared_add3)
  then show ?thesis
    unfolding rotate_def norm2_def power2_eq_square fst_conv snd_conv by algebra
qed

lemma dist2_rotate [simp]: "dist2 (rotate phi p) (rotate phi q) = dist2 p q"
proof -
  have "cos phi * cos phi + sin phi * sin phi = 1" by (rule sin_cos_squared_add3)
  then show ?thesis
    unfolding rotate_def dist2_def power2_eq_square fst_conv snd_conv by algebra
qed

lemma rotate_zero [simp]: "rotate 0 p = p"
  by (simp add: rotate_def)

lemma rotate_add: "rotate a (rotate b p) = rotate (a + b) p"
  by (simp add: rotate_def cos_add sin_add algebra_simps)

lemma rotate_polar: "rotate phi (polar rho t) = polar rho (t + phi)"
  by (simp add: rotate_def polar_def cos_add sin_add algebra_simps)

lemma length_linspace [simp]: "length (linspace start stop num) = num"
  by (simp add: linspace_def Let_def)

lemma linspace_nth:
  assumes "i < num"
  shows "linspace start stop num ! i = start + real i * (stop - start) / real (num - 1)"
proof (cases "num = 1")
  case True
  with assms show ?thesis by (simp add: linspace_def)
next
  case False
  with assms have n2: "2 \<le> num" by linarith
  show ?thesis
  proof (cases "i < num - 1")
    case True
    with n2 show ?thesis by (simp add: linspace_def Let_def nth_append)
  next
    case False
    with assms have "i = num - 1" by linarith
    moreover have "real (num - 1) \<noteq> 0" using n2 by simp
    ultimately show ?thesis using n2 by (simp add: linspace_def Let_def nth_append)
  qed
qed

lemma linspace_first: "0 < num \<Longrightarrow> hd (linspace start stop num) = start"
  by (simp add: linspace_def Let_def hd_map upt_conv_Cons)

lemma linspace_last: "2 \<le> num \<Longrightarrow> last (linspace start stop num) = stop"
  by (simp add: linspace_def Let_def)

lemma linspace_nonempty: "0 < num \<Longrightarrow> linspace start stop num \<noteq> []"
  using length_linspace [of start stop num] by (metis less_not_refl list.size(3))

lemma tail_loop_eq:
  "tail_loop rows xs ys =
     (xs @ map (\<lambda>w. fst (project (EclLon w) (r_au w))) rows,
      ys @ map (\<lambda>w. snd (project (EclLon w) (r_au w))) rows)"
  by (induction rows arbitrary: xs ys) (simp_all add: split_beta)

lemma polar_two_pi: "polar rho (2 * pi) = polar rho 0"
  by (simp add: polar_def)

lemma orbit_point_eq:
  "orbit_point el t =
     rotate (radians (el_w el + el_Omega el)) (polar (conic_radius (el_a el) (el_e el) t) t)"
  by (simp add: orbit_point_def)

lemma orbit_path_memE:
  assumes "p \<in> set (orbit_path el)"
  obtains t where "p = orbit_point el t"
  using assms by (auto simp: orbit_path_def)

lemma norm2_orbit_point: "norm2 (orbit_point el t) = (conic_radius (el_a el) (el_e el) t) ^ 2"
  by (simp add: orbit_point_eq)

text \<open>For an ellipse (\<open>0 \<le> e < 1\<close>) the denominator of the conic equation is
  positive, so the radius is positive and at most the apoapsis distance \<open>a (1 + e)\<close>.\<close>

lemma conic_denominator_pos:
  fixes ec t :: real
  assumes "0 \<le> ec" "ec < 1"
  shows "0 < 1 + ec * cos t"
proof -
  have "- 1 \<le> cos t" by (rule cos_ge_minus_one)
  then have "- ec \<le> ec * cos t" using assms(1)
    by (metis mult.commute mult_left_mono mult_minus1_right)
  then show ?thesis using assms(2) by linarith
qed

lemma conic_radius_times:
  assumes "0 \<le> ec" "ec < 1"
  shows "conic_radius a ec t * (1 + ec * cos t) = a * (1 - ec ^ 2)"
  using conic_denominator_pos [OF assms, of t] by (simp add: conic_radius_def)

lemma conic_radius_bounds:
  assumes "0 < a" "0 \<le> ec" "ec < 1"
  shows "0 < conic_radius a ec t \<and> conic_radius a ec t \<le> a * (1 + ec)"
proof -
  let ?D = "1 + ec * cos t"
  have D: "0 < ?D" using conic_denominator_pos [OF assms(2,3)] .
  have "ec ^ 2 < 1" using assms(2,3) by (simp add: abs_square_less_1)
  then have num: "0 < a * (1 - ec ^ 2)" using assms(1) by simp
  have "1 - ec \<le> ?D"
  proof -
    have "- ec \<le> ec * cos t" using assms(2)
      by (metis cos_ge_minus_one mult.commute mult_left_mono mult_minus1_right)
    then show ?thesis by linarith
  qed
  then have "a * (1 - ec ^ 2) / ?D \<le> a * (1 - ec ^ 2) / (1 - ec)"
    using num assms(3) by (intro divide_left_mono) (auto intro: mult_pos_pos)
  also have "\<dots> = a * (1 + ec)"
    using assms(3) by (simp add: power2_eq_square field_simps)
  finally show ?thesis
    using num D by (simp add: conic_radius_def)
qed

text \<open>The distance from the Sun to the second focus and the point at true anomaly
  \<open>t\<close>, before the rotation: the ellipse property in the frame of the periapsis.\<close>

lemma focus_dist:
  assumes "rho * (1 + ec * cos t) = a * (1 - ec ^ 2)"
  shows "dist2 (polar rho t) (- 2 * a * ec, 0) = (2 * a - rho) ^ 2"
proof -
  have "cos t * cos t + sin t * sin t = 1" by (rule sin_cos_squared_add3)
  with assms show ?thesis
    unfolding polar_def dist2_def power2_eq_square fst_conv snd_conv by algebra
qed

lemma radians_add_360: "radians (lon + 360) = radians lon + 2 * pi"
  by (simp add: radians_def field_simps)

lemma conic_radius_two_pi: "conic_radius a ec (2 * pi) = conic_radius a ec 0"
  by (simp add: conic_radius_def)

lemma orbit_point_two_pi: "orbit_point el (2 * pi) = orbit_point el 0"
  by (simp add: orbit_point_eq conic_radius_two_pi polar_two_pi)

section \<open>Properties of the projector, the orbit reconstructor and the trajectory builder\<close>

text \<open>C2: the Coordinate Projector places a body at its heliocentric range from the
  origin (the Sun): for a non-negative range \<open>r\<close>, the projected point of
  \<open>(lon, r)\<close> is at Euclidean distance \<open>r\<close> from the origin.\<close>

theorem project_distance:
  assumes "0 \<le> rng"
  shows "sqrt (norm2 (project lon rng)) = rng"
  using assms by (simp add: project_def)

lemma project_distance_witness: "sqrt (norm2 (project 90 (5.2::real))) = 5.2"
  using project_distance [of "5.2" 90] by simp

text \<open>The projector depends on the longitude only modulo a full turn.\<close>

lemma project_periodic: "project (lon + 360) rng = project lon rng"
  by (simp add: project_def Let_def radians_add_360 polar_def cos_periodic sin_periodic)

text \<open>C1: the reconstructed orbit is a closed polyline: its first and last points
  (true anomaly 0 and 2\<pi>) coincide, for any elements, and it has 360 points.\<close>

theorem orbit_path_closed:
  "length (orbit_path el) = 360 \<and> hd (orbit_path el) = last (orbit_path el)"
proof -
  have ne: "linspace 0 (2 * pi) orbit_samples \<noteq> []"
    by (simp add: linspace_nonempty orbit_samples_def)
  have "hd (orbit_path el) = orbit_point el 0"
    using ne by (simp add: orbit_path_def hd_map linspace_first orbit_samples_def)
  moreover have "last (orbit_path el) = orbit_point el (2 * pi)"
    using ne by (simp add: orbit_path_def last_map linspace_last orbit_samples_def)
  ultimately show ?thesis
    by (simp add: orbit_point_two_pi orbit_path_def orbit_samples_def)
qed

text \<open>C4: for eccentricity 0 the reconstructed orbit is a circle of radius \<open>a\<close>
  around the Sun, whatever the periapsis and node angles.\<close>

theorem orbit_path_circle:
  assumes "el_e el = 0" "0 \<le> el_a el" "p \<in> set (orbit_path el)"
  shows "sqrt (norm2 p) = el_a el"
proof -
  obtain t where "p = orbit_point el t" using assms(3) by (rule orbit_path_memE)
  then show ?thesis using assms(1,2) by (simp add: norm2_orbit_point conic_radius_def)
qed

lemma orbit_path_circle_witness:
  "sqrt (norm2 (hd (orbit_path \<lparr>el_a = 1, el_e = 0, el_w = 30, el_Omega = 45\<rparr>))) = 1"
proof -
  let ?el = "\<lparr>el_a = 1, el_e = 0, el_w = 30, el_Omega = 45\<rparr> :: elements"
  have "orbit_path ?el \<noteq> []"
    using orbit_path_closed [of ?el] by (metis list.size(3) zero_neq_numeral)
  then have "hd (orbit_path ?el) \<in> set (orbit_path ?el)" by (rule hd_in_set)
  then show ?thesis using orbit_path_circle [of ?el] by simp
qed

text \<open>C5: for an elliptic orbit (\<open>a > 0\<close>, \<open>0 \<le> e < 1\<close>) the Sun sits at a
  focus of the reconstructed curve: every point's distances to the Sun and to the
  second focus sum to \<open>2a\<close>, the defining property of the ellipse with major axis
  \<open>2a\<close> whose foci are the Sun and \<^const>\<open>other_focus\<close>.\<close>

theorem orbit_path_ellipse:
  assumes "0 < el_a el" "0 \<le> el_e el" "el_e el < 1" "p \<in> set (orbit_path el)"
  shows "sqrt (norm2 p) + sqrt (dist2 p (other_focus el)) = 2 * el_a el"
proof -
  obtain t where p: "p = orbit_point el t" using assms(4) by (rule orbit_path_memE)
  let ?r = "conic_radius (el_a el) (el_e el) t"
  have r: "0 < ?r" "?r \<le> el_a el * (1 + el_e el)"
    using conic_radius_bounds [OF assms(1-3)] by auto
  have "el_a el * (1 + el_e el) < 2 * el_a el" using assms(1,3) by simp
  with r have le: "?r \<le> 2 * el_a el" by linarith
  have "sqrt (norm2 p) = ?r" using p r(1) by (simp add: norm2_orbit_point)
  moreover have "dist2 p (other_focus el) = dist2 (polar ?r t) (- 2 * el_a el * el_e el, 0)"
    using p by (simp only: orbit_point_eq other_focus_def dist2_rotate)
  moreover have "dist2 (polar ?r t) (- 2 * el_a el * el_e el, 0) = (2 * el_a el - ?r) ^ 2"
    by (rule focus_dist [OF conic_radius_times [OF assms(2,3)]])
  ultimately show ?thesis using le by simp
qed

lemma orbit_path_ellipse_witness:
  "sqrt (norm2 (hd (orbit_path \<lparr>el_a = 2, el_e = 1/2, el_w = 10, el_Omega = 20\<rparr>))) +
   sqrt (dist2 (hd (orbit_path \<lparr>el_a = 2, el_e = 1/2, el_w = 10, el_Omega = 20\<rparr>))
     (other_focus \<lparr>el_a = 2, el_e = 1/2, el_w = 10, el_Omega = 20\<rparr>)) = 4"
proof -
  let ?el = "\<lparr>el_a = 2, el_e = 1/2, el_w = 10, el_Omega = 20\<rparr> :: elements"
  have "orbit_path ?el \<noteq> []"
    using orbit_path_closed [of ?el] by (metis list.size(3) zero_neq_numeral)
  then have "hd (orbit_path ?el) \<in> set (orbit_path ?el)" by (rule hd_in_set)
  then show ?thesis using orbit_path_ellipse [of ?el] by simp
qed

text \<open>The first point of the orbit is the periapsis, at distance \<open>a (1 - e)\<close> in
  the direction of the combined angle \<open>w + Omega\<close>.\<close>

lemma orbit_path_periapsis:
  assumes "1 + el_e el \<noteq> 0"
  shows "hd (orbit_path el) = polar (el_a el * (1 - el_e el)) (radians (el_w el + el_Omega el))"
proof -
  have ne: "linspace 0 (2 * pi) orbit_samples \<noteq> []"
    by (simp add: linspace_nonempty orbit_samples_def)
  have "conic_radius (el_a el) (el_e el) 0 = el_a el * (1 - el_e el)"
    using assms by (simp add: conic_radius_def power2_eq_square field_simps)
  then show ?thesis
    using ne by (simp add: orbit_path_def hd_map linspace_first orbit_samples_def
        orbit_point_eq rotate_polar)
qed

text \<open>C3: the Trajectory Builder's loop produces exactly one point per sample, in the
  order of the samples: it equals the projection mapped over the sample list.\<close>

theorem build_trajectory_eq_map:
  "build_trajectory rows = map (\<lambda>w. project (EclLon w) (r_au w)) rows"
  by (simp add: build_trajectory_def tail_loop_eq zip_map_map zip_same_conv_map)

end
