(* ===== verification/Pipeline.thy ===== *)
theory Pipeline
  imports Telemetry Geometry
begin

text \<open>
  The scene composition of \<^verbatim>\<open>src/clipperwatch.py\<close> and the program's entry point:
  \<open>PlotStars\<close> (lines 202--216), \<open>PlotTargets\<close> (219--302), \<open>PlotSpacecraftTail\<close>
  (305--329), \<open>PlotTitleLegendStatusBar\<close> (359--382), \<open>PrintOrSave\<close> (385--391),
  \<open>Plot\<close> (394--412) and \<open>main\<close> (423--473). Each is a computation on the program
  state \<^typ>\<open>world\<close>; the fetches are \<^const>\<open>GetAstroData\<close>, the geometry is that of
  theory \<open>Geometry\<close> and the telemetry lines those of theory \<open>Telemetry\<close>.
  Matplotlib calls that only style the figure are left out; the calls that add data
  to the axes are \<^typ>\<open>artist\<close>s, and the end of \<open>Plot\<close> is a \<^typ>\<open>figure_out\<close>.
\<close>

section \<open>Definitions\<close>

text \<open>\<open>np.random.uniform(low, high, n)\<close>: the next \<open>n\<close> doubles \<open>u\<close> of the global
  generator, each scaled to \<open>low + (high - low) * u\<close> (numpy's \<open>RandomState.uniform\<close>).
  The generator is the input stream \<open>np_random\<close>; the state counts the doubles taken.\<close>

definition uniform_draws :: "env \<Rightarrow> real \<Rightarrow> real \<Rightarrow> nat \<Rightarrow> nat \<Rightarrow> real list" where
  "uniform_draws E low high n k = map (\<lambda>i. low + (high - low) * np_random E (k + i)) [0..<n]"

definition np_uniform :: "env \<Rightarrow> real \<Rightarrow> real \<Rightarrow> nat \<Rightarrow> real list run" where
  "np_uniform E low high n =
     (\<lambda>w. (Inr (uniform_draws E low high n (np_drawn w)), w\<lparr>np_drawn := np_drawn w + n\<rparr>))"

text \<open>\<open>PlotStars\<close> (lines 202--216): 800 stars in one scatter call, at positions drawn
  uniformly in the given limits and with sizes drawn in \<open>[0.1, 3.0)\<close>.\<close>

definition num_stars :: nat where
  "num_stars = 800"

definition PlotStars :: "env \<Rightarrow> real \<Rightarrow> real \<Rightarrow> unit run" where
  "PlotStars E xlimit ylimit =
     bindP (np_uniform E (- xlimit) xlimit num_stars) (\<lambda>star_x.
     bindP (np_uniform E (- ylimit) ylimit num_stars) (\<lambda>star_y.
     bindP (np_uniform E (1 / 10) 3 num_stars) (\<lambda>star_sizes.
     draw (StarField (zip star_x star_y) star_sizes))))"

text \<open>The scatter that \<open>PlotStars\<close> draws when \<open>k\<close> doubles have been taken before it.\<close>

abbreviation star_field :: "env \<Rightarrow> real \<Rightarrow> real \<Rightarrow> nat \<Rightarrow> artist" where
  "star_field E xl yl k \<equiv>
     StarField (zip (uniform_draws E (- xl) xl num_stars k) (uniform_draws E (- yl) yl num_stars (k + num_stars)))
       (uniform_draws E (1 / 10) 3 num_stars (k + 2 * num_stars))"

text \<open>Reads of the other entries that \<open>GetAstroData\<close> stores. A value of another
  kind under these keys cannot occur: it would be a \<open>TypeError\<close> in Python.\<close>

definition get_targetname :: "target \<Rightarrow> string result" where
  "get_targetname t =
     ebind (dict_get (attrs t) ''targetname'') (\<lambda>v. case v of TargetName s \<Rightarrow> Inr s | _ \<Rightarrow> Inl TypeError)"

definition get_el :: "target \<Rightarrow> elements result" where
  "get_el t = ebind (dict_get (attrs t) ''el'') (\<lambda>v. case v of ElRow e \<Rightarrow> Inr e | _ \<Rightarrow> Inl TypeError)"

definition get_table :: "target \<Rightarrow> string \<Rightarrow> eph_row list result" where
  "get_table t k = ebind (dict_get (attrs t) k) (\<lambda>v. case v of EphTable rs \<Rightarrow> Inr rs | _ \<Rightarrow> Inl TypeError)"

text \<open>\<open>if obj["isSpacecraft"] and obj != targetSpacecraft: continue\<close> (lines 224--225).
  The comparison is Python's dictionary equality, a comparison of values, between
  the dictionary of the loop and the one \<open>targetSpacecraft\<close> refers to; \<open>obj != None\<close>
  holds for every dictionary.\<close>

definition skip_target :: "target \<Rightarrow> world \<Rightarrow> bool" where
  "skip_target obj w \<longleftrightarrow>
     isSpacecraft obj \<and> (case targetSpacecraft w of None \<Rightarrow> True | Some k \<Rightarrow> obj \<noteq> targets w ! k)"

text \<open>The planet branch (lines 238--280): a marker labelled with the resolved name,
  then the orbit reconstructed from the stored elements.\<close>

definition plot_planet :: "target \<Rightarrow> point \<Rightarrow> unit run" where
  "plot_planet obj p =
     bindP (liftR (get_targetname obj)) (\<lambda>tn.
     bindP (draw (PlanetMarker tn (color obj) (marker_size obj) p)) (\<lambda>_.
     bindP (liftR (get_el obj)) (\<lambda>el.
     draw (OrbitLine (orbit_path el)))))"

text \<open>The spacecraft branch (lines 282--302): a marker, and the name written at
  \<open>(x + 0.2, y + 0.2)\<close>.\<close>

definition plot_craft :: "target \<Rightarrow> point \<Rightarrow> unit run" where
  "plot_craft obj p =
     bindP (liftR (get_targetname obj)) (\<lambda>tn.
     bindP (draw (CraftMarker tn p)) (\<lambda>_.
     draw (CraftLabel (name obj) (fst p + 0.2, snd p + 0.2))))"

text \<open>One iteration of the loop of \<open>PlotTargets\<close> on the dictionary at index \<open>i\<close>.\<close>

definition plot_target :: "env \<Rightarrow> nat \<Rightarrow> unit run" where
  "plot_target E i =
     bindP (get_target i) (\<lambda>obj.
     bindP (gets (skip_target obj)) (\<lambda>skip.
     if skip then ret ()
     else
       bindP (GetAstroData E i ''Sun'' False) (\<lambda>_.
       bindP (get_target i) (\<lambda>obj.
       bindP (liftR (get_row obj ''ephSun'')) (\<lambda>eph.
       (let p = project (EclLon eph) (r_au eph)
        in if \<not> isSpacecraft obj then plot_planet obj p else plot_craft obj p))))))"

definition PlotTargets :: "env \<Rightarrow> unit run" where
  "PlotTargets E =
     bindP (draw SunMarker) (\<lambda>_.
     bindP (gets (\<lambda>w. length (targets w))) (\<lambda>n.
     forP [0..<n] (plot_target E)))"

text \<open>\<open>PlotSpacecraftTail\<close>. With no selection, \<open>GetAstroData(None, "Sun", True)\<close>
  fails at \<open>target["launch_date"]\<close> inside its \<open>try\<close> with a \<open>TypeError\<close>, which
  is printed and ends the run.\<close>

definition PlotSpacecraftTail :: "env \<Rightarrow> unit run" where
  "PlotSpacecraftTail E =
     bindP (gets targetSpacecraft) (\<lambda>sel.
       case sel of
         None \<Rightarrow> bindP (print_line (''JPL Get error: '' @ error_text TypeError)) (\<lambda>_. raise (SystemExit 1))
       | Some k \<Rightarrow>
           bindP (GetAstroData E k ''Sun'' True) (\<lambda>_.
           bindP (get_target k) (\<lambda>obj.
           bindP (liftR (get_table obj (''ephSinceLaunch'' @ ''Sun''))) (\<lambda>rows.
           draw (TailLine (build_trajectory rows))))))"

text \<open>The triple-quoted f-string of lines 369--378: each field on a line of its own,
  indented by four spaces, after a leading newline and before a final indented line.\<close>

definition status_lines :: "string list \<Rightarrow> string" where
  "status_lines ls = concat (map (\<lambda>l. CHR 0x0A # ''    '' @ l) ls) @ CHR 0x0A # ''    ''"

text \<open>The fields are evaluated from left to right; the first that raises ends the
  evaluation with its exception.\<close>

definition status_message :: "date \<Rightarrow> target \<Rightarrow> string result" where
  "status_message today_date obj =
     ebind (get_row obj ''ephSun'') (\<lambda>sun.
     ebind (GetMissionDays today_date obj) (\<lambda>md.
     ebind (GetSignalDelay obj) (\<lambda>sd.
     ebind (GetDistSpeedFrom obj ''Sun'') (\<lambda>ds.
     ebind (GetDistSpeedFrom obj ''Earth'') (\<lambda>de.
     ebind (GetDistSpeedFrom obj ''Europa'') (\<lambda>du.
     Inr (status_lines [name obj, ''System Status: Nominal'', ''Epoch: '' @ datetime_str sun,
                        md, sd, ds, de, du])))))))"

text \<open>A field of the status text whose sample is absent: the launch date, or an entry
  of the dictionary.\<close>

definition missing_field :: "target \<Rightarrow> string \<Rightarrow> bool" where
  "missing_field t k = (if k = ''launch_date'' then launch_date t = None else attrs t k = None)"

text \<open>\<open>PlotTitleLegendStatusBar\<close>: \<open>targetSpacecraft['name']\<close> raises \<open>TypeError\<close>
  when nothing is selected.\<close>

definition PlotTitleLegendStatusBar :: "env \<Rightarrow> unit run" where
  "PlotTitleLegendStatusBar E =
     bindP (gets targetSpacecraft) (\<lambda>sel.
       case sel of
         None \<Rightarrow> raise TypeError
       | Some k \<Rightarrow>
           bindP (get_target k) (\<lambda>obj.
           bindP (draw (TitleText (name obj @ '' Mission Status''))) (\<lambda>_.
           bindP (draw LegendBox) (\<lambda>_.
           bindP (GetAstroData E k ''Earth'' False) (\<lambda>_.
           bindP (GetAstroData E k ''Europa'' False) (\<lambda>_.
           bindP (get_target k) (\<lambda>obj.
           bindP (liftR (status_message (today E) obj)) (\<lambda>msg.
           draw (StatusText msg)))))))))"

definition PrintOrSave :: "bool \<Rightarrow> string \<Rightarrow> unit run" where
  "PrintOrSave save_on_disk filename =
     (if save_on_disk then
        bindP (emit_figure (SavedTo filename)) (\<lambda>_. print_line ''Image saved.'')
      else emit_figure ShownWindow)"

text \<open>\<open>Plot\<close> (lines 394--412): the 16:9 axes limits, then the four drawing stages
  and the output.\<close>

definition xlimit :: real where
  "xlimit = 16"

definition ylimit :: real where
  "ylimit = 9"

definition Plot :: "env \<Rightarrow> bool \<Rightarrow> string \<Rightarrow> unit run" where
  "Plot E save_on_disk filename =
     bindP (draw (AxesLimits xlimit ylimit)) (\<lambda>_.
     bindP (PlotStars E xlimit ylimit) (\<lambda>_.
     bindP (PlotTargets E) (\<lambda>_.
     bindP (PlotSpacecraftTail E) (\<lambda>_.
     bindP (PlotTitleLegendStatusBar E) (\<lambda>_.
     PrintOrSave save_on_disk filename)))))"

text \<open>The star scatter lies in the view \<open>[-xl, xl) \<times> [-yl, yl)\<close>: 800 positions
  there and 800 sizes in \<open>[0.1, 3)\<close>. Other artists are not constrained.\<close>

definition stars_within :: "real \<Rightarrow> real \<Rightarrow> artist \<Rightarrow> bool" where
  "stars_within xl yl a =
     (case a of
        StarField ps ss \<Rightarrow> length ps = num_stars \<and> length ss = num_stars \<and>
          list_all (\<lambda>(x, y). - xl \<le> x \<and> x < xl \<and> - yl \<le> y \<and> y < yl) ps \<and>
          list_all (\<lambda>s. 1 / 10 \<le> s \<and> s < 3) ss
      | _ \<Rightarrow> True)"

text \<open>The parsed command line (lines 424--455), with argparse's defaults.\<close>

record args =
  arg_save :: bool
  arg_output :: string
  arg_list :: bool
  arg_spacecraft :: string
  arg_random :: bool

definition default_args :: args where
  "default_args = \<lparr>arg_save = False, arg_output = ''clipper_watch.png'', arg_list = False,
     arg_spacecraft = ''Europa Clipper'', arg_random = False\<rparr>"

text \<open>The selection step of \<open>main\<close> (lines 462--466).\<close>

definition select_spacecraft :: "env \<Rightarrow> args \<Rightarrow> unit run" where
  "select_spacecraft E a =
     (if arg_random a then bindP (GetRandomSpacecraft (randrange E)) (\<lambda>_. ret ())
      else bindP (FindTargetSpacecraft (arg_spacecraft a)) (\<lambda>found.
             if found = None then
               bindP (print_line (''Spacecraft '' @ arg_spacecraft a @ '' not found!'')) (\<lambda>_.
               raise (SystemExit 1))
             else ret ()))"

definition main :: "env \<Rightarrow> args \<Rightarrow> unit run" where
  "main E a =
     bindP (print_line ''Starting ClipperWatch...'') (\<lambda>_.
     bindP (if arg_list a then ListSpacecraft else ret ()) (\<lambda>_.
     bindP (select_spacecraft E a) (\<lambda>_.
     bindP (if arg_save a then print_line (''Mode: Save to disk -> '' @ arg_output a)
            else print_line ''Mode: Interactive Window'') (\<lambda>_.
     Plot E (arg_save a) (arg_output a)))))"

text \<open>The indices of the dictionaries that the loop of \<open>PlotTargets\<close> fetches and
  draws: every planet, and the selected spacecraft.\<close>

definition plotted_indices :: "target list \<Rightarrow> nat option \<Rightarrow> nat list" where
  "plotted_indices ts sel = filter (\<lambda>i. \<not> isSpacecraft (ts ! i) \<or> sel = Some i) [0..<length ts]"

text \<open>The part of the state that the fetches and the drawing leave alone: the name,
  kind and launch date of each dictionary, and the selection.\<close>

definition catalog_view :: "world \<Rightarrow> (string \<times> bool \<times> date option) list \<times> nat option" where
  "catalog_view w = (map (\<lambda>t. (name t, isSpacecraft t, launch_date t)) (targets w), targetSpacecraft w)"

text \<open>The lines of a text, as \<open>str.split("\n")\<close> gives them: the pieces between
  the separators, the empty ones included.\<close>

fun split_on :: "char \<Rightarrow> string \<Rightarrow> string list" where
  "split_on c [] = [[]]"
| "split_on c (x # xs) =
     (if x = c then [] # split_on c xs
      else (case split_on c xs of [] \<Rightarrow> [[x]] | l # ls \<Rightarrow> (x # l) # ls))"

text \<open>The Horizons identifiers of the dictionaries that the loop of \<open>PlotTargets\<close>
  fetches when Europa Clipper is selected, in catalog order.\<close>

definition sun_ids :: "string list" where
  "sun_ids = [''199'', ''299'', ''399'', ''499'', ''599'', ''699'', ''2024-182A'']"

section \<open>Lemmas\<close>

subsection \<open>The star field\<close>

lemma PlotStars_run:
  "PlotStars E xl yl w =
     (Inr (), w\<lparr>np_drawn := np_drawn w + 3 * num_stars,
        artists := artists w @ [star_field E xl yl (np_drawn w)]\<rparr>)"
  by (simp add: PlotStars_def np_uniform_def draw_def prog_simps mult_2 add.assoc)

lemma preserves_np_uniform [frame_intros]:
  "preserves stdout (np_uniform E l h n)" "preserves figures (np_uniform E l h n)"
  "preserves artists (np_uniform E l h n)" "preserves requests (np_uniform E l h n)"
  "preserves targets (np_uniform E l h n)" "preserves targetSpacecraft (np_uniform E l h n)"
  by (simp_all add: preserves_def np_uniform_def)

lemma world_wt_np_uniform [inv_intros]: "invariant world_wt (np_uniform E l h n)"
  by (simp add: invariant_def world_wt_def np_uniform_def)

text \<open>A uniform draw from a generator whose doubles lie in \<open>[0, 1)\<close> lies in
  \<open>[low, high)\<close>.\<close>

lemma uniform_draws_bounds:
  assumes u: "\<forall>i. 0 \<le> np_random E i \<and> np_random E i < 1" and lh: "low < high"
    and x: "x \<in> set (uniform_draws E low high n k)"
  shows "low \<le> x \<and> x < high"
proof -
  obtain i where x_eq: "x = low + (high - low) * np_random E (k + i)"
    using x by (auto simp: uniform_draws_def)
  have "0 \<le> (high - low) * np_random E (k + i)" using u lh by simp
  moreover have "(high - low) * np_random E (k + i) < high - low"
    using u lh mult_strict_left_mono [of "np_random E (k + i)" 1 "high - low"] by simp
  ultimately show ?thesis using x_eq by simp
qed

lemma length_uniform_draws [simp]: "length (uniform_draws E low high n k) = n"
  by (simp add: uniform_draws_def)

lemma artists_inv [inv_intros]:
  "Q a \<Longrightarrow> invariant (\<lambda>w. list_all Q (artists w)) (draw a)"
  "invariant (\<lambda>w. list_all Q (artists w)) (print_line s)"
  "invariant (\<lambda>w. list_all Q (artists w)) (send rq)"
  "invariant (\<lambda>w. list_all Q (artists w)) (emit_figure f)"
  "invariant (\<lambda>w. list_all Q (artists w)) (set_field i k v)"
  "invariant (\<lambda>w. list_all Q (artists w)) (get_target i)"
  "invariant (\<lambda>w. list_all Q (artists w)) (np_uniform E l h n)"
  by (simp_all add: invariant_def effect_defs get_target_def np_uniform_def prog_simps)

lemma PlotStars_within:
  assumes u: "\<forall>i. 0 \<le> np_random E i \<and> np_random E i < 1" and xl: "0 < xl" and yl: "0 < yl"
  shows "invariant (\<lambda>w. list_all (stars_within xl yl) (artists w)) (PlotStars E xl yl)"
proof -
  have "stars_within xl yl (star_field E xl yl k)" for k
  proof -
    let ?xs = "uniform_draws E (- xl) xl num_stars k" and ?ys = "uniform_draws E (- yl) yl num_stars (k + num_stars)"
    have "- xl \<le> x \<and> x < xl \<and> - yl \<le> y \<and> y < yl" if "(x, y) \<in> set (zip ?xs ?ys)" for x y
      using uniform_draws_bounds [OF u _ set_zip_leftD [OF that]] uniform_draws_bounds [OF u _ set_zip_rightD [OF that]]
        xl yl by simp
    then have "list_all (\<lambda>(x, y). - xl \<le> x \<and> x < xl \<and> - yl \<le> y \<and> y < yl) (zip ?xs ?ys)"
      by (auto simp: list_all_iff)
    moreover have "list_all (\<lambda>s. 1 / 10 \<le> s \<and> s < 3) (uniform_draws E (1 / 10) 3 num_stars (k + 2 * num_stars))"
      using uniform_draws_bounds [OF u, of "1 / 10" 3] by (auto simp: list_all_iff)
    ultimately show ?thesis by (simp add: stars_within_def)
  qed
  then show ?thesis by (simp add: invariant_def PlotStars_run)
qed

subsection \<open>Queries and stored entries\<close>

lemma horizons_query_same_name:
  assumes "name t = name t'" "launch_date t = launch_date t'"
  shows "horizons_query d t observer sl = horizons_query d t' observer sl"
proof -
  have l: "get_launch_date t = get_launch_date t'" using assms(2) by (simp add: get_launch_date_def)
  show ?thesis unfolding horizons_query_def l assms(1) by (rule refl)
qed

lemma skip_target_iff:
  assumes "distinct (map name (targets w))" "i < length (targets w)"
    and "\<forall>k. targetSpacecraft w = Some k \<longrightarrow> k < length (targets w)"
  shows "skip_target (targets w ! i) w \<longleftrightarrow> isSpacecraft (targets w ! i) \<and> targetSpacecraft w \<noteq> Some i"
proof (cases "targetSpacecraft w")
  case None
  then show ?thesis by (simp add: skip_target_def)
next
  case (Some k)
  then have k: "k < length (targets w)" using assms(3) by simp
  have "targets w ! i = targets w ! k \<longleftrightarrow> i = k"
  proof
    assume "targets w ! i = targets w ! k"
    then have "map name (targets w) ! i = map name (targets w) ! k" using assms(2) k by simp
    then show "i = k"
      using nth_eq_iff_index_eq [of "map name (targets w)" i k] assms(1,2) k by simp
  qed simp
  then show ?thesis using Some by (auto simp: skip_target_def)
qed

lemma astro_store_attrs:
  "attrs (astro_store t observer sl rows els) (astro_key observer sl) =
     Some (if sl then EphTable rows else EphRow (hd rows))"
  "attrs (astro_store t observer sl rows els) ''targetname'' =
     Some (TargetName (split_first CHR ''('' (row_targetname (hd rows))))"
  "\<not> isSpacecraft t \<Longrightarrow> attrs (astro_store t observer sl rows els) ''el'' = Some (ElRow (hd els))"
  "k \<noteq> ''el'' \<Longrightarrow> k \<noteq> astro_key observer sl \<Longrightarrow> k \<noteq> ''targetname'' \<Longrightarrow>
     attrs (astro_store t observer sl rows els) k = attrs t k"
  using astro_key_ne_el [of observer sl] astro_key_ne_targetname [of observer sl]
  by (auto simp: astro_store_def)

lemma astro_store_view [simp]:
  "name (astro_store t observer sl rows els) = name t"
  "isSpacecraft (astro_store t observer sl rows els) = isSpacecraft t"
  "launch_date (astro_store t observer sl rows els) = launch_date t"
  by (simp_all add: astro_store_def)

lemma plot_planet_ok:
  "get_targetname obj = Inr tn \<Longrightarrow> get_el obj = Inr el \<Longrightarrow>
   plot_planet obj p w = (Inr (), w\<lparr>artists := artists w @ [PlanetMarker tn (color obj) (marker_size obj) p,
      OrbitLine (orbit_path el)]\<rparr>)"
  by (simp add: plot_planet_def prog_simps draw_def)

lemma plot_craft_ok:
  "get_targetname obj = Inr tn \<Longrightarrow>
   plot_craft obj p w = (Inr (), w\<lparr>artists := artists w @ [CraftMarker tn p,
      CraftLabel (name obj) (fst p + 0.2, snd p + 0.2)]\<rparr>)"
  by (simp add: plot_craft_def prog_simps draw_def)

lemma get_targetname_astro_store:
  "get_targetname (astro_store t observer sl rows els) =
     Inr (split_first CHR ''('' (row_targetname (hd rows)))"
  by (simp add: get_targetname_def dict_get_def astro_store_attrs)

lemma get_el_astro_store:
  "\<not> isSpacecraft t \<Longrightarrow> get_el (astro_store t observer sl rows els) = Inr (hd els)"
  by (simp add: get_el_def dict_get_def astro_store_attrs)

lemma get_row_astro_store:
  "get_row (astro_store t observer False rows els) (''eph'' @ observer) = Inr (hd rows)"
  using astro_store_attrs(1) [of t observer False rows els]
  by (simp add: get_row_def dict_get_def astro_key_def)

lemma plot_target_step:
  assumes i: "i < length (targets w)" and dist: "distinct (map name (targets w))"
    and sel: "\<forall>k. targetSpacecraft w = Some k \<longrightarrow> k < length (targets w)"
    and prov: "provider_total (provider E)"
    and hq: "i \<in> set (plotted_indices (targets w) (targetSpacecraft w)) \<longrightarrow>
      horizons_query (today E) (targets w ! i) ''Sun'' False = Inr q"
  shows "\<exists>w'. plot_target E i w = (Inr (), w') \<and> catalog_view w' = catalog_view w \<and>
     stdout w' = stdout w \<and> figures w' = figures w \<and>
     requests w' = requests w @ (if i \<in> set (plotted_indices (targets w) (targetSpacecraft w))
                                 then astro_requests (targets w ! i) q else []) \<and>
     (\<forall>j. j \<noteq> i \<longrightarrow> targets w' ! j = targets w ! j) \<and>
     (\<forall>k v. attrs (targets w ! i) k = Some v \<and> k \<noteq> ''ephSun'' \<and> k \<noteq> ''targetname'' \<and> k \<noteq> ''el'' \<longrightarrow>
        attrs (targets w' ! i) k = Some v) \<and>
     (i \<in> set (plotted_indices (targets w) (targetSpacecraft w)) \<longrightarrow>
        (\<exists>r. attrs (targets w' ! i) ''ephSun'' = Some (EphRow r)))"
proof -
  let ?t = "targets w ! i"
  have skip: "skip_target ?t w \<longleftrightarrow> isSpacecraft ?t \<and> targetSpacecraft w \<noteq> Some i"
    using dist i sel by (rule skip_target_iff)
  have mem: "i \<in> set (plotted_indices (targets w) (targetSpacecraft w)) \<longleftrightarrow>
      \<not> (isSpacecraft ?t \<and> targetSpacecraft w \<noteq> Some i)"
    using i by (auto simp: plotted_indices_def)
  show ?thesis
  proof (cases "isSpacecraft ?t \<and> targetSpacecraft w \<noteq> Some i")
    case True
    then show ?thesis using i skip mem by (simp add: plot_target_def prog_simps)
  next
    case False
    obtain rows els where rows: "eph_service (provider E) q = Inr rows" "rows \<noteq> []"
      and els: "elem_service (provider E) q = Inr els" "els \<noteq> []"
      using prov unfolding provider_total_def by blast
    let ?t' = "astro_store ?t ''Sun'' False rows els"
    let ?w1 = "w\<lparr>targets := (targets w)[i := ?t'], requests := requests w @ astro_requests ?t q\<rparr>"
    have "horizons_query (today E) (targets w ! i) ''Sun'' False = Inr q" using hq mem False by simp
    then have ga: "GetAstroData E i ''Sun'' False w = (Inr (), ?w1)"
      using GetAstroData_run [OF i _ rows] els by simp
    have row: "get_row ?t' ''ephSun'' = Inr (hd rows)"
      using get_row_astro_store [of ?t "''Sun''" rows els] by simp
    let ?p = "project (EclLon (hd rows)) (r_au (hd rows))"
    obtain w' where run: "(if \<not> isSpacecraft ?t' then plot_planet ?t' ?p else plot_craft ?t' ?p) ?w1 = (Inr (), w')"
      and w': "targets w' = targets ?w1" "requests w' = requests ?w1" "stdout w' = stdout w"
        "figures w' = figures w" "targetSpacecraft w' = targetSpacecraft w"
      using plot_planet_ok [OF get_targetname_astro_store get_el_astro_store, of ?t "''Sun''" False rows els]
        plot_craft_ok [OF get_targetname_astro_store, of ?t "''Sun''" False rows els]
      by (cases "isSpacecraft ?t") auto
    have pt: "plot_target E i w = (Inr (), w')"
      using i skip False ga row run by (simp add: plot_target_def prog_simps Let_def)
    have view: "catalog_view w' = catalog_view w"
      using w'(1,5) i by (simp add: catalog_view_def map_update list_update_same_conv)
    have keys: "attrs ?t' k = Some v" if "attrs ?t k = Some v" "k \<noteq> ''ephSun''" "k \<noteq> ''targetname''"
      "k \<noteq> ''el''" for k v
      using that astro_store_attrs(4) [of k "''Sun''" False ?t rows els] by (simp add: astro_key_def)
    have sun: "attrs ?t' ''ephSun'' = Some (EphRow (hd rows))"
      using astro_store_attrs(1) [of ?t "''Sun''" False rows els] by (simp add: astro_key_def)
    show ?thesis
      using pt view w' mem False i keys sun by auto
  qed
qed


lemma catalog_view_eqD:
  assumes v: "catalog_view w' = catalog_view w"
  shows "length (targets w') = length (targets w)" (is ?len)
    and "targetSpacecraft w' = targetSpacecraft w"
    and "i < length (targets w) \<Longrightarrow> name (targets w' ! i) = name (targets w ! i) \<and>
           isSpacecraft (targets w' ! i) = isSpacecraft (targets w ! i) \<and>
           launch_date (targets w' ! i) = launch_date (targets w ! i)"
    and "map name (targets w') = map name (targets w)"
    and "plotted_indices (targets w') (targetSpacecraft w') = plotted_indices (targets w) (targetSpacecraft w)"
proof -
  let ?f = "\<lambda>t. (name t, isSpacecraft t, launch_date t)"
  have m: "map ?f (targets w') = map ?f (targets w)" and s: "targetSpacecraft w' = targetSpacecraft w"
    using v by (simp_all add: catalog_view_def)
  show len: ?len using map_eq_imp_length_eq [OF m] .
  show "targetSpacecraft w' = targetSpacecraft w" by (rule s)
  have nth: "?f (targets w' ! i) = ?f (targets w ! i)" if "i < length (targets w)" for i
    using arg_cong [OF m, of "\<lambda>xs. xs ! i"] that len by simp
  then show "i < length (targets w) \<Longrightarrow> name (targets w' ! i) = name (targets w ! i) \<and>
           isSpacecraft (targets w' ! i) = isSpacecraft (targets w ! i) \<and>
           launch_date (targets w' ! i) = launch_date (targets w ! i)" by simp
  show "map name (targets w') = map name (targets w)"
    using arg_cong [OF m, of "map fst"] by (simp add: comp_def)
  show "plotted_indices (targets w') (targetSpacecraft w') = plotted_indices (targets w) (targetSpacecraft w)"
    unfolding plotted_indices_def using len nth s by (intro filter_cong) auto
qed

lemma astro_requests_same_kind:
  "isSpacecraft t = isSpacecraft t' \<Longrightarrow> astro_requests t q = astro_requests t' q"
  by (simp add: astro_requests_def)

lemma forP_plot_target:
  assumes "distinct (map name (targets w))"
    and "\<forall>k. targetSpacecraft w = Some k \<longrightarrow> k < length (targets w)"
    and prov: "provider_total (provider E)"
    and "\<forall>i \<in> set is. i < length (targets w)" "distinct is"
    and "\<forall>i \<in> set is. i \<in> set (plotted_indices (targets w) (targetSpacecraft w)) \<longrightarrow>
      horizons_query (today E) (targets w ! i) ''Sun'' False = Inr (qs i)"
  shows "\<exists>w'. forP is (plot_target E) w = (Inr (), w') \<and> catalog_view w' = catalog_view w \<and>
     stdout w' = stdout w \<and> figures w' = figures w \<and>
     requests w' = requests w @ concat (map (\<lambda>i.
        if i \<in> set (plotted_indices (targets w) (targetSpacecraft w))
        then astro_requests (targets w ! i) (qs i) else []) is) \<and>
     (\<forall>j. j \<notin> set is \<longrightarrow> targets w' ! j = targets w ! j) \<and>
     (\<forall>i \<in> set is. i \<in> set (plotted_indices (targets w) (targetSpacecraft w)) \<longrightarrow>
        (\<exists>r. attrs (targets w' ! i) ''ephSun'' = Some (EphRow r)))"
  using assms(1,2,4-6)
proof (induction "is" arbitrary: w)
  case Nil
  then show ?case by (simp add: prog_simps)
next
  case (Cons x xs)
  obtain w1 where step: "plot_target E x w = (Inr (), w1)" and v1: "catalog_view w1 = catalog_view w"
    and o1: "stdout w1 = stdout w" "figures w1 = figures w"
    and r1: "requests w1 = requests w @ (if x \<in> set (plotted_indices (targets w) (targetSpacecraft w))
                                 then astro_requests (targets w ! x) (qs x) else [])"
    and f1: "\<forall>j. j \<noteq> x \<longrightarrow> targets w1 ! j = targets w ! j"
    and s1: "x \<in> set (plotted_indices (targets w) (targetSpacecraft w)) \<longrightarrow>
        (\<exists>r. attrs (targets w1 ! x) ''ephSun'' = Some (EphRow r))"
    using plot_target_step [of x w E "qs x"] Cons.prems prov by auto
  note eq = catalog_view_eqD [OF v1]
  have hq1: "\<forall>i \<in> set xs. i \<in> set (plotted_indices (targets w1) (targetSpacecraft w1)) \<longrightarrow>
      horizons_query (today E) (targets w1 ! i) ''Sun'' False = Inr (qs i)"
  proof (intro ballI impI)
    fix i
    assume "i \<in> set xs" "i \<in> set (plotted_indices (targets w1) (targetSpacecraft w1))"
    then have "i < length (targets w)" "horizons_query (today E) (targets w ! i) ''Sun'' False = Inr (qs i)"
      using Cons.prems(3,5) eq(5) by simp_all
    then show "horizons_query (today E) (targets w1 ! i) ''Sun'' False = Inr (qs i)"
      using eq(3) [of i] horizons_query_same_name [of "targets w1 ! i" "targets w ! i"] by auto
  qed
  have p1: "distinct (map name (targets w1))" using Cons.prems(1) eq(4) by simp
  have p2: "\<forall>k. targetSpacecraft w1 = Some k \<longrightarrow> k < length (targets w1)"
    using Cons.prems(2) eq(1,2) by simp
  have p3: "\<forall>i \<in> set xs. i < length (targets w1)" using Cons.prems(3) eq(1) by simp
  have p4: "distinct xs" using Cons.prems(4) by simp
  obtain w2 where run2: "forP xs (plot_target E) w1 = (Inr (), w2)" and v2: "catalog_view w2 = catalog_view w1"
    and o2: "stdout w2 = stdout w1" "figures w2 = figures w1"
    and r2: "requests w2 = requests w1 @ concat (map (\<lambda>i.
        if i \<in> set (plotted_indices (targets w1) (targetSpacecraft w1))
        then astro_requests (targets w1 ! i) (qs i) else []) xs)"
    and f2: "\<forall>j. j \<notin> set xs \<longrightarrow> targets w2 ! j = targets w1 ! j"
    and s2: "\<forall>i \<in> set xs. i \<in> set (plotted_indices (targets w1) (targetSpacecraft w1)) \<longrightarrow>
        (\<exists>r. attrs (targets w2 ! i) ''ephSun'' = Some (EphRow r))"
    using Cons.IH [OF p1 p2 p3 p4 hq1] by blast
  have req: "map (\<lambda>i. if i \<in> set (plotted_indices (targets w1) (targetSpacecraft w1))
        then astro_requests (targets w1 ! i) (qs i) else []) xs =
      map (\<lambda>i. if i \<in> set (plotted_indices (targets w) (targetSpacecraft w))
        then astro_requests (targets w ! i) (qs i) else []) xs"
  proof (rule map_cong [OF refl])
    fix i
    assume "i \<in> set xs"
    then have "i < length (targets w)" using Cons.prems(3) by simp
    then show "(if i \<in> set (plotted_indices (targets w1) (targetSpacecraft w1))
        then astro_requests (targets w1 ! i) (qs i) else []) =
      (if i \<in> set (plotted_indices (targets w) (targetSpacecraft w))
        then astro_requests (targets w ! i) (qs i) else [])"
      using eq(3) [of i] eq(5) astro_requests_same_kind [of "targets w1 ! i" "targets w ! i"] by simp
  qed
  have x: "x \<notin> set xs" using Cons.prems(4) by simp
  have run: "forP (x # xs) (plot_target E) w = (Inr (), w2)" using step run2 by simp
  have keep: "\<forall>j. j \<notin> set (x # xs) \<longrightarrow> targets w2 ! j = targets w ! j" using f1 f2 by simp
  have sx: "x \<in> set (plotted_indices (targets w) (targetSpacecraft w)) \<longrightarrow>
        (\<exists>r. attrs (targets w2 ! x) ''ephSun'' = Some (EphRow r))" using s1 f2 x by simp
  have sxs: "\<forall>i \<in> set xs. i \<in> set (plotted_indices (targets w) (targetSpacecraft w)) \<longrightarrow>
        (\<exists>r. attrs (targets w2 ! i) ''ephSun'' = Some (EphRow r))" using s2 eq(5) by simp
  show ?case
  proof (intro exI conjI)
    show "forP (x # xs) (plot_target E) w = (Inr (), w2)" by (rule run)
    show "catalog_view w2 = catalog_view w" using v1 v2 by simp
    show "stdout w2 = stdout w" "figures w2 = figures w" using o1 o2 by simp_all
    show "requests w2 = requests w @ concat (map (\<lambda>i.
        if i \<in> set (plotted_indices (targets w) (targetSpacecraft w))
        then astro_requests (targets w ! i) (qs i) else []) (x # xs))"
      using r1 r2 req by simp
    show "\<forall>j. j \<notin> set (x # xs) \<longrightarrow> targets w2 ! j = targets w ! j" by (rule keep)
    show "\<forall>i \<in> set (x # xs). i \<in> set (plotted_indices (targets w) (targetSpacecraft w)) \<longrightarrow>
        (\<exists>r. attrs (targets w2 ! i) ''ephSun'' = Some (EphRow r))" using sx sxs by simp
  qed
qed

lemma concat_map_if_filter:
  "concat (map (\<lambda>x. if P x then f x else []) xs) = concat (map f (filter P xs))"
  by (induction xs) simp_all

lemma filter_mem_plotted:
  "filter (\<lambda>i. i \<in> set (plotted_indices ts sel)) [0..<length ts] = plotted_indices ts sel"
  unfolding plotted_indices_def by (rule filter_cong) auto

lemma PlotTargets_run:
  assumes "distinct (map name (targets w))"
    and "\<forall>k. targetSpacecraft w = Some k \<longrightarrow> k < length (targets w)"
    and "provider_total (provider E)"
    and "\<forall>i \<in> set (plotted_indices (targets w) (targetSpacecraft w)).
      horizons_query (today E) (targets w ! i) ''Sun'' False = Inr (qs i)"
  shows "\<exists>w'. PlotTargets E w = (Inr (), w') \<and>
     requests w' = requests w @
       concat (map (\<lambda>i. astro_requests (targets w ! i) (qs i)) (plotted_indices (targets w) (targetSpacecraft w))) \<and>
     stdout w' = stdout w \<and> figures w' = figures w \<and> catalog_view w' = catalog_view w \<and>
     (\<forall>i \<in> set (plotted_indices (targets w) (targetSpacecraft w)).
        \<exists>r. attrs (targets w' ! i) ''ephSun'' = Some (EphRow r))"
proof -
  let ?w0 = "w\<lparr>artists := artists w @ [SunMarker]\<rparr>"
  have v0: "catalog_view ?w0 = catalog_view w" by (simp add: catalog_view_def)
  have t0: "targets ?w0 = targets w" "targetSpacecraft ?w0 = targetSpacecraft w"
    "stdout ?w0 = stdout w" "requests ?w0 = requests w" "figures ?w0 = figures w" by simp_all
  obtain w' where run: "forP [0..<length (targets w)] (plot_target E) ?w0 = (Inr (), w')"
    and v: "catalog_view w' = catalog_view ?w0" and o: "stdout w' = stdout w" "figures w' = figures w"
    and sun: "\<forall>i \<in> set [0..<length (targets w)]. i \<in> set (plotted_indices (targets w) (targetSpacecraft w)) \<longrightarrow>
        (\<exists>r. attrs (targets w' ! i) ''ephSun'' = Some (EphRow r))"
    and r: "requests w' = requests w @ concat (map (\<lambda>i.
        if i \<in> set (plotted_indices (targets w) (targetSpacecraft w))
        then astro_requests (targets w ! i) (qs i) else []) [0..<length (targets w)])"
    using forP_plot_target [of ?w0 E "[0..<length (targets w)]" qs, unfolded t0] assms by auto
  have "PlotTargets E w = (Inr (), w')"
    using run by (simp add: PlotTargets_def draw_def prog_simps)
  then show ?thesis
  proof (intro exI conjI)
    show "\<forall>i \<in> set (plotted_indices (targets w) (targetSpacecraft w)).
        \<exists>r. attrs (targets w' ! i) ''ephSun'' = Some (EphRow r)"
      using sun by (simp add: plotted_indices_def)
  qed (use r o v v0 in \<open>simp_all add: concat_map_if_filter filter_mem_plotted\<close>)
qed

lemma split_on_append:
  "c \<notin> set xs \<Longrightarrow> split_on c (xs @ c # ys) = xs # split_on c ys"
  by (induction xs) auto

lemma split_on_no_sep: "c \<notin> set xs \<Longrightarrow> split_on c xs = [xs]"
  by (induction xs) auto

lemma provider_total_sample_env: "provider_total (provider sample_env)"
  by (simp add: provider_total_def sample_env_def)

lemma GetAstroData_total:
  assumes "i < length (targets w)" "horizons_query (today E) (targets w ! i) observer sl = Inr q"
    and "provider_total (provider E)"
  shows "\<exists>rows els. rows \<noteq> [] \<and> GetAstroData E i observer sl w =
     (Inr (), w\<lparr>targets := (targets w)[i := astro_store (targets w ! i) observer sl rows els],
               requests := requests w @ astro_requests (targets w ! i) q\<rparr>)"
proof -
  obtain rows els where "eph_service (provider E) q = Inr rows" "rows \<noteq> []"
    "elem_service (provider E) q = Inr els" "els \<noteq> []"
    using assms(3) unfolding provider_total_def by blast
  then show ?thesis using GetAstroData_run [OF assms(1,2)] by blast
qed

lemma status_message_ok:
  assumes "attrs t ''ephSun'' = Some (EphRow rs)" "attrs t ''ephEarth'' = Some (EphRow re)"
    and "attrs t ''ephEuropa'' = Some (EphRow ru)" "launch_date t = Some ld"
  shows "status_message d t =
    Inr (status_lines [name t, ''System Status: Nominal'', ''Epoch: '' @ datetime_str rs,
      ''Mission day: '' @ string_of_int (date_diff_days d ld),
      ''Signal Delay: '' @ fmt_fixed 3 (light_time (delta re)) @ '' s'',
      dist_speed_message ''Sun'' (delta rs) (delta_rate rs),
      dist_speed_message ''Earth'' (delta re) (delta_rate re),
      dist_speed_message ''Europa'' (delta ru) (delta_rate ru)])"
  using assms
  by (simp add: status_message_def GetMissionDays_def GetSignalDelay_def GetDistSpeedFrom_def
      get_row_EphRow get_launch_date_def)

lemma PlotSpacecraftTail_ok:
  assumes "targetSpacecraft w = Some k" "k < length (targets w)"
    and "horizons_query (today E) (targets w ! k) ''Sun'' True = Inr q" "provider_total (provider E)"
  shows "\<exists>rows els. PlotSpacecraftTail E w =
     (Inr (), w\<lparr>targets := (targets w)[k := astro_store (targets w ! k) ''Sun'' True rows els],
               requests := requests w @ astro_requests (targets w ! k) q,
               artists := artists w @ [TailLine (build_trajectory rows)]\<rparr>)"
proof -
  obtain rows els where ga: "GetAstroData E k ''Sun'' True w =
     (Inr (), w\<lparr>targets := (targets w)[k := astro_store (targets w ! k) ''Sun'' True rows els],
               requests := requests w @ astro_requests (targets w ! k) q\<rparr>)"
    using GetAstroData_total [OF assms(2,3,4)] by blast
  have "get_table (astro_store (targets w ! k) ''Sun'' True rows els) (''ephSinceLaunch'' @ ''Sun'') = Inr rows"
    using astro_store_attrs(1) [of "targets w ! k" "''Sun''" True rows els]
    by (simp add: get_table_def dict_get_def astro_key_def)
  then show ?thesis
    using assms(1,2) ga by (auto simp: PlotSpacecraftTail_def prog_simps draw_def)
qed

lemma PlotTitleLegendStatusBar_ok:
  assumes sel: "targetSpacecraft w = Some k" "k < length (targets w)"
    and qe: "horizons_query (today E) (targets w ! k) ''Earth'' False = Inr qe"
    and qu: "horizons_query (today E) (targets w ! k) ''Europa'' False = Inr qu"
    and prov: "provider_total (provider E)"
    and sun: "attrs (targets w ! k) ''ephSun'' = Some (EphRow rs)"
    and ld: "launch_date (targets w ! k) = Some ld"
  shows "\<exists>w' msg. PlotTitleLegendStatusBar E w = (Inr (), w') \<and>
     stdout w' = stdout w \<and> figures w' = figures w \<and> targetSpacecraft w' = targetSpacecraft w \<and>
     requests w' = requests w @ astro_requests (targets w ! k) qe @ astro_requests (targets w ! k) qu \<and>
     artists w' = artists w @ [TitleText (name (targets w ! k) @ '' Mission Status''), LegendBox, StatusText msg]"
proof -
  let ?t = "targets w ! k"
  let ?w0 = "w\<lparr>artists := artists w @ [TitleText (name ?t @ '' Mission Status''), LegendBox]\<rparr>"
  obtain rows1 els1 where r1: "rows1 \<noteq> []" and g1: "GetAstroData E k ''Earth'' False ?w0 =
     (Inr (), ?w0\<lparr>targets := (targets w)[k := astro_store ?t ''Earth'' False rows1 els1],
               requests := requests w @ astro_requests ?t qe\<rparr>)"
    using GetAstroData_total [of k ?w0 E "''Earth''" False qe] sel qe prov by auto
  let ?t1 = "astro_store ?t ''Earth'' False rows1 els1"
  let ?w1 = "?w0\<lparr>targets := (targets w)[k := ?t1], requests := requests w @ astro_requests ?t qe\<rparr>"
  obtain rows2 els2 where r2: "rows2 \<noteq> []" and g2: "GetAstroData E k ''Europa'' False ?w1 =
     (Inr (), ?w1\<lparr>targets := (targets w)[k := astro_store ?t1 ''Europa'' False rows2 els2],
               requests := requests w @ astro_requests ?t qe @ astro_requests ?t1 qu\<rparr>)"
    using GetAstroData_total [of k ?w1 E "''Europa''" False qu] sel qu prov
      horizons_query_same_name [of ?t1 ?t] by auto
  let ?t2 = "astro_store ?t1 ''Europa'' False rows2 els2"
  have a2: "attrs ?t2 ''ephSun'' = Some (EphRow rs)" "attrs ?t2 ''ephEarth'' = Some (EphRow (hd rows1))"
    "attrs ?t2 ''ephEuropa'' = Some (EphRow (hd rows2))" "launch_date ?t2 = Some ld"
    using sun ld astro_store_attrs(1) [of ?t "''Earth''" False rows1 els1]
      astro_store_attrs(4) [where t = ?t and observer = "''Earth''" and sl = False and rows = rows1 and els = els1]
      astro_store_attrs(1) [of ?t1 "''Europa''" False rows2 els2]
      astro_store_attrs(4) [where t = ?t1 and observer = "''Europa''" and sl = False and rows = rows2 and els = els2]
    by (simp_all add: astro_key_def)
  obtain msg where msg: "status_message (today E) ?t2 = Inr msg"
    using status_message_ok [OF a2] by blast
  have req: "astro_requests ?t1 qu = astro_requests ?t qu" by (simp add: astro_requests_def)
  show ?thesis
    using sel g1 g2 msg req
    by (simp add: PlotTitleLegendStatusBar_def prog_simps draw_def)
qed


lemma horizons_query_current:
  "MapNameToJplId observer = Inr oid \<Longrightarrow> MapNameToJplId (name t) = Inr tid \<Longrightarrow>
   horizons_query d t observer False = Inr \<lparr>q_id = tid, q_location = ''500@'' @ oid, q_epochs = None\<rparr>"
  by (simp add: horizons_query_def)

lemma horizons_query_series:
  "MapNameToJplId observer = Inr oid \<Longrightarrow> MapNameToJplId (name t) = Inr tid \<Longrightarrow> launch_date t = Some ld \<Longrightarrow>
   horizons_query d t observer True =
     Inr \<lparr>q_id = tid, q_location = ''500@'' @ oid, q_epochs = Some (isoformat ld, isoformat d, ''7d'')\<rparr>"
  by (simp add: horizons_query_def get_launch_date_def)

lemma plotted_init: "plotted_indices targets_init (Some 6) = [0, 1, 2, 3, 4, 5, 6]"
  by (simp add: plotted_indices_def catalog_defs upt_rec)

lemma names_init: "\<forall>i \<in> set [0, 1, 2, 3, 4, 5, 6::nat]. MapNameToJplId (name (targets_init ! i)) = Inr (sun_ids ! i)"
  by (simp add: catalog_defs MapNameToJplId_def idMap_def sun_ids_def)

lemma preserves_figures_stages [frame_intros]:
  "preserves figures ListSpacecraft"
  "preserves figures (FindTargetSpacecraft nm)"
  "preserves figures (GetRandomSpacecraft rr)"
  "preserves figures (GetAstroData E i observer sl)"
  "preserves figures (PlotStars E xl yl)"
  "preserves figures (plot_target E i)"
  by (unfold ListSpacecraft_def FindTargetSpacecraft_def GetRandomSpacecraft_def GetAstroData_def
      astro_body_def PlotStars_def plot_target_def plot_planet_def plot_craft_def Let_def;
      (intro frame_intros; simp))+

lemma preserves_figures_plot [frame_intros]:
  "preserves figures (PlotTargets E)"
  "preserves figures (PlotSpacecraftTail E)"
  "preserves figures (PlotTitleLegendStatusBar E)"
  "preserves figures (select_spacecraft E a)"
  by (unfold PlotTargets_def PlotSpacecraftTail_def PlotTitleLegendStatusBar_def select_spacecraft_def;
      intro frame_intros)+

lemma PrintOrSave_total: "keeps_on_error f (PrintOrSave save_on_disk filename)"
  by (rule keeps_on_error_total) (simp add: PrintOrSave_def emit_figure_def print_line_def prog_simps)

lemma target_wt_get_row:
  assumes "target_wt t" "take 11 observer \<noteq> ''SinceLaunch''"
  shows "get_row t (astro_key observer False) \<noteq> Inl TypeError"
proof (cases "attrs t (astro_key observer False)")
  case None
  then show ?thesis by (simp add: get_row_def dict_get_def)
next
  case (Some v)
  with assms show ?thesis
    by (cases v) (auto dest!: target_wt_fits simp: get_row_def dict_get_def entry_fits_def astro_key_def)
qed

lemma get_row_wt_cases:
  assumes "target_wt t" "take 11 observer \<noteq> ''SinceLaunch''"
  shows "(attrs t (''eph'' @ observer) = None \<and> get_row t (''eph'' @ observer) = Inl (KeyError (''eph'' @ observer))) \<or>
         (attrs t (''eph'' @ observer) \<noteq> None \<and> (\<exists>r. get_row t (''eph'' @ observer) = Inr r))"
proof (cases "attrs t (''eph'' @ observer)")
  case None then show ?thesis by (simp add: get_row_None)
next
  case (Some v)
  have "get_row t (astro_key observer False) \<noteq> Inl TypeError" using assms by (rule target_wt_get_row)
  then show ?thesis using Some
    by (cases v) (auto simp: get_row_def dict_get_def astro_key_def)
qed

lemma target_wt_get_table:
  assumes "target_wt t"
  shows "get_table t (astro_key observer True) \<noteq> Inl TypeError"
proof (cases "attrs t (astro_key observer True)")
  case None
  then show ?thesis by (simp add: get_table_def dict_get_def)
next
  case (Some v)
  with assms show ?thesis
    by (cases v) (auto dest!: target_wt_fits simp: get_table_def dict_get_def entry_fits_def astro_key_def)
qed

lemma target_wt_get_el: "target_wt t \<Longrightarrow> get_el t \<noteq> Inl TypeError"
  by (cases "attrs t ''el''")
    (auto dest!: target_wt_fits simp: get_el_def dict_get_def entry_fits_def split: entry.splits)

lemma target_wt_get_targetname: "target_wt t \<Longrightarrow> get_targetname t \<noteq> Inl TypeError"
  by (cases "attrs t ''targetname''")
    (auto dest!: target_wt_fits simp: get_targetname_def dict_get_def entry_fits_def split: entry.splits)

lemma Plot_ok:
  assumes prov: "provider_total (provider E)"
    and dist: "distinct (map name (targets w))"
    and ids: "\<forall>t \<in> set (targets w). \<exists>tid. MapNameToJplId (name t) = Inr tid"
    and sel: "targetSpacecraft w = Some k" "k < length (targets w)"
    and ld: "launch_date (targets w ! k) = Some ld"
  shows "\<exists>w'. Plot E save_on_disk filename w = (Inr (), w') \<and>
     stdout w' = stdout w @ (if save_on_disk then [''Image saved.''] else []) \<and>
     figures w' = figures w @ [if save_on_disk then SavedTo filename else ShownWindow] \<and>
     targetSpacecraft w' = Some k \<and> (\<exists>msg. last (artists w') = StatusText msg)"
proof -
  have sun: "MapNameToJplId ''Sun'' = Inr ''10''" by (simp add: MapNameToJplId_def idMap_def)
  let ?w0 = "w\<lparr>artists := artists w @ [AxesLimits xlimit ylimit]\<rparr>"
  let ?w1 = "w\<lparr>artists := artists w @ [AxesLimits xlimit ylimit, star_field E xlimit ylimit (np_drawn w)],
              np_drawn := np_drawn w + 3 * num_stars\<rparr>"
  have lim: "draw (AxesLimits xlimit ylimit) w = (Inr (), ?w0)" by (simp add: draw_def prog_simps)
  have stars: "PlotStars E xlimit ylimit ?w0 = (Inr (), ?w1)" by (simp add: PlotStars_run)
  have "\<forall>i. \<exists>q. i < length (targets w) \<longrightarrow> horizons_query (today E) (targets w ! i) ''Sun'' False = Inr q"
    using ids horizons_query_current [OF sun] nth_mem by blast
  then obtain qs where qs: "\<And>i. i < length (targets w) \<Longrightarrow>
      horizons_query (today E) (targets w ! i) ''Sun'' False = Inr (qs i)"
    by metis
  have hq: "\<forall>i \<in> set (plotted_indices (targets ?w1) (targetSpacecraft ?w1)).
      horizons_query (today E) (targets ?w1 ! i) ''Sun'' False = Inr (qs i)"
    using qs by (simp add: plotted_indices_def)
  have d1: "distinct (map name (targets ?w1))" "\<forall>j. targetSpacecraft ?w1 = Some j \<longrightarrow> j < length (targets ?w1)"
    using dist sel by simp_all
  have kp: "k \<in> set (plotted_indices (targets ?w1) (targetSpacecraft ?w1))"
    using sel by (simp add: plotted_indices_def)
  obtain w2 where pt: "PlotTargets E ?w1 = (Inr (), w2)"
    and o2: "stdout w2 = stdout w" "figures w2 = figures w" and v2: "catalog_view w2 = catalog_view ?w1"
    and s2: "\<exists>r. attrs (targets w2 ! k) ''ephSun'' = Some (EphRow r)"
    using PlotTargets_run [OF d1 prov hq] kp by auto
  note eq2 = catalog_view_eqD [OF v2]
  have len2: "k < length (targets w2)" and sel2: "targetSpacecraft w2 = Some k"
    using eq2(1,2) sel by simp_all
  have view: "name (targets w2 ! k) = name (targets w ! k)" "launch_date (targets w2 ! k) = Some ld"
    using eq2(3) [of k] sel ld by simp_all
  obtain tid where tid: "MapNameToJplId (name (targets w ! k)) = Inr tid"
    using ids sel nth_mem by blast
  let ?qt = "\<lparr>q_id = tid, q_location = ''500@'' @ ''10'', q_epochs = Some (isoformat ld, isoformat (today E), ''7d'')\<rparr>"
  have qt: "horizons_query (today E) (targets w2 ! k) ''Sun'' True = Inr ?qt"
    using horizons_query_series [OF sun _ view(2)] tid view(1) by simp
  obtain rows els where tail: "PlotSpacecraftTail E w2 =
     (Inr (), w2\<lparr>targets := (targets w2)[k := astro_store (targets w2 ! k) ''Sun'' True rows els],
               requests := requests w2 @ astro_requests (targets w2 ! k) ?qt,
               artists := artists w2 @ [TailLine (build_trajectory rows)]\<rparr>)"
    using PlotSpacecraftTail_ok [OF sel2 len2 qt prov] by blast
  let ?t3 = "astro_store (targets w2 ! k) ''Sun'' True rows els"
  let ?w3 = "w2\<lparr>targets := (targets w2)[k := ?t3], requests := requests w2 @ astro_requests (targets w2 ! k) ?qt,
               artists := artists w2 @ [TailLine (build_trajectory rows)]\<rparr>"
  obtain rs where sun3: "attrs ?t3 ''ephSun'' = Some (EphRow rs)"
    using s2 astro_store_attrs(4) [where t = "targets w2 ! k" and observer = "''Sun''" and sl = True
      and rows = rows and els = els and k = "''ephSun''"] by (auto simp: astro_key_def)
  have n3: "name ?t3 = name (targets w ! k)" "launch_date ?t3 = Some ld" using view by simp_all
  have earth: "MapNameToJplId ''Earth'' = Inr ''399''" and europa: "MapNameToJplId ''Europa'' = Inr ''502''"
    by (simp_all add: MapNameToJplId_def idMap_def)
  let ?qe = "\<lparr>q_id = tid, q_location = ''500@'' @ ''399'', q_epochs = None\<rparr>"
  let ?qu = "\<lparr>q_id = tid, q_location = ''500@'' @ ''502'', q_epochs = None\<rparr>"
  have qe: "horizons_query (today E) ?t3 ''Earth'' False = Inr ?qe"
    using horizons_query_current [OF earth] n3(1) tid by simp
  have qu: "horizons_query (today E) ?t3 ''Europa'' False = Inr ?qu"
    using horizons_query_current [OF europa] n3(1) tid by simp
  have sel3: "targetSpacecraft ?w3 = Some k" "k < length (targets ?w3)" using sel2 len2 by simp_all
  obtain w4 msg where st: "PlotTitleLegendStatusBar E ?w3 = (Inr (), w4)"
    and o4: "stdout w4 = stdout ?w3" "figures w4 = figures ?w3" "targetSpacecraft w4 = targetSpacecraft ?w3"
    and a4: "artists w4 = artists ?w3 @ [TitleText (name ?t3 @ '' Mission Status''), LegendBox, StatusText msg]"
    using PlotTitleLegendStatusBar_ok [OF sel3, of E ?qe ?qu rs ld] qe qu prov sun3 n3 len2 by auto
  let ?w5 = "if save_on_disk then w4\<lparr>figures := figures w4 @ [SavedTo filename], stdout := stdout w4 @ [''Image saved.'']\<rparr>
             else w4\<lparr>figures := figures w4 @ [ShownWindow]\<rparr>"
  have ps: "PrintOrSave save_on_disk filename w4 = (Inr (), ?w5)"
    by (simp add: PrintOrSave_def emit_figure_def print_line_def prog_simps)
  have run: "Plot E save_on_disk filename w = (Inr (), ?w5)"
    unfolding Plot_def using lim stars pt tail st ps by simp
  show ?thesis
  proof (intro exI conjI)
    show "Plot E save_on_disk filename w = (Inr (), ?w5)" by (rule run)
  qed (use o2 o4 a4 sel2 in \<open>simp_all\<close>)
qed

lemma select_named:
  assumes "\<not> arg_random a" "first_index (\<lambda>t. name t = arg_spacecraft a) (targets w) = Some k"
  shows "select_spacecraft E a w = (Inr (), w\<lparr>targetSpacecraft := Some k\<rparr>)"
  using assms by (simp add: select_spacecraft_def FindTargetSpacecraft_def prog_simps Let_def)

lemma select_random:
  assumes "arg_random a"
    and "randrange E (length (filter isSpacecraft (targets w))) < length (filter isSpacecraft (targets w))"
  shows "\<exists>k. select_spacecraft E a w =
      (Inr (), w\<lparr>stdout := stdout w @ [''Selected '' @ name (targets w ! k) @ ''!''], targetSpacecraft := Some k\<rparr>) \<and>
    k < length (targets w) \<and> isSpacecraft (targets w ! k)"
proof -
  let ?k = "spacecraft_indices (targets w) ! randrange E (length (filter isSpacecraft (targets w)))"
  have r: "GetRandomSpacecraft (randrange E) w =
      (Inr (Some ?k), w\<lparr>stdout := stdout w @ [''Selected '' @ name (targets w ! ?k) @ ''!''],
                           targetSpacecraft := Some ?k\<rparr>)" "isSpacecraft (targets w ! ?k)"
    using GetRandomSpacecraft_run [of "randrange E" w] assms(2) by (simp_all add: Let_def)
  have "?k \<in> set (spacecraft_indices (targets w))"
    using assms(2) by (intro nth_mem) (simp add: length_spacecraft_indices)
  then have "?k < length (targets w)" using spacecraft_indices_spec [of "targets w"] by simp
  then show ?thesis using r assms(1) by (auto simp: select_spacecraft_def prog_simps)
qed

lemma plotted_indices_planet:
  "\<not> isSpacecraft (ts ! k) \<Longrightarrow> plotted_indices ts (Some k) = filter (\<lambda>i. \<not> isSpacecraft (ts ! i)) [0..<length ts]"
  unfolding plotted_indices_def by (rule filter_cong) auto

lemma planets_init: "filter (\<lambda>i. \<not> isSpacecraft (targets_init ! i)) [0..<length targets_init] = [0, 1, 2, 3, 4, 5]"
  by (simp add: catalog_defs upt_rec)

section \<open>Properties of the scene\<close>

text \<open>C22: the loop of \<open>PlotTargets\<close> fetches exactly the planets and the selected
  spacecraft, one dictionary after the other in catalog order, and sends for each its
  ephemerides request followed, for a planet, by its elements request: the requests
  of the run are that sequence, appended to those sent before. It prints nothing and
  leaves the names, kinds, launch dates and the selection as they were.\<close>

theorem PlotTargets_requests:
  assumes "distinct (map name (targets w))"
    and "\<forall>k. targetSpacecraft w = Some k \<longrightarrow> k < length (targets w)"
    and "provider_total (provider E)"
    and "\<forall>i \<in> set (plotted_indices (targets w) (targetSpacecraft w)).
      horizons_query (today E) (targets w ! i) ''Sun'' False = Inr (qs i)"
  shows "\<exists>w'. PlotTargets E w = (Inr (), w') \<and>
     requests w' = requests w @
       concat (map (\<lambda>i. astro_requests (targets w ! i) (qs i)) (plotted_indices (targets w) (targetSpacecraft w))) \<and>
     stdout w' = stdout w \<and> catalog_view w' = catalog_view w"
  using PlotTargets_run [OF assms] by blast

lemma PlotTargets_requests_witness:
  "\<exists>w'. PlotTargets sample_env (init_world\<lparr>targetSpacecraft := Some 6\<rparr>) = (Inr (), w') \<and>
     requests w' =
       concat (map (\<lambda>tid. [EphemeridesReq \<lparr>q_id = tid, q_location = ''500@10'', q_epochs = None\<rparr>,
                             ElementsReq \<lparr>q_id = tid, q_location = ''500@10'', q_epochs = None\<rparr>])
         [''199'', ''299'', ''399'', ''499'', ''599'', ''699'']) @
       [EphemeridesReq \<lparr>q_id = ''2024-182A'', q_location = ''500@10'', q_epochs = None\<rparr>]"
proof -
  let ?w = "init_world\<lparr>targetSpacecraft := Some 6\<rparr>"
  let ?qs = "\<lambda>i. \<lparr>q_id = sun_ids ! i, q_location = ''500@10'', q_epochs = None\<rparr>"
  have sun: "MapNameToJplId ''Sun'' = Inr ''10''" by (simp add: MapNameToJplId_def idMap_def)
  have hq: "\<forall>i \<in> set (plotted_indices (targets ?w) (targetSpacecraft ?w)).
      horizons_query (today sample_env) (targets ?w ! i) ''Sun'' False = Inr (?qs i)"
    using names_init horizons_query_current [OF sun] by (simp add: init_world_def plotted_init)
  have d: "distinct (map name (targets ?w))" "\<forall>k. targetSpacecraft ?w = Some k \<longrightarrow> k < length (targets ?w)"
    by (simp_all add: init_world_def catalog_defs)
  obtain w' where run: "PlotTargets sample_env ?w = (Inr (), w')"
    and req: "requests w' = requests ?w @ concat (map (\<lambda>i. astro_requests (targets ?w ! i) (?qs i))
       (plotted_indices (targets ?w) (targetSpacecraft ?w)))"
    using PlotTargets_requests [OF d provider_total_sample_env hq] by blast
  have "requests w' =
       concat (map (\<lambda>tid. [EphemeridesReq \<lparr>q_id = tid, q_location = ''500@10'', q_epochs = None\<rparr>,
                             ElementsReq \<lparr>q_id = tid, q_location = ''500@10'', q_epochs = None\<rparr>])
         [''199'', ''299'', ''399'', ''499'', ''599'', ''699'']) @
       [EphemeridesReq \<lparr>q_id = ''2024-182A'', q_location = ''500@10'', q_epochs = None\<rparr>]"
    unfolding req by (simp add: init_world_def plotted_init) (simp add: astro_requests_def catalog_defs sun_ids_def)
  then show ?thesis using run by blast
qed

lemma split_on_status_lines:
  assumes "\<forall>l \<in> set ls. CHR 0x0A \<notin> set l"
  shows "split_on (CHR 0x0A) (status_lines ls) = [] # map (\<lambda>l. ''    '' @ l) ls @ [''    '']"
proof -
  have "split_on (CHR 0x0A) (concat (map (\<lambda>l. CHR 0x0A # ''    '' @ l) ls) @ CHR 0x0A # ''    '') =
        [] # map (\<lambda>l. ''    '' @ l) ls @ [''    '']"
    using assms
  proof (induction ls)
    case Nil
    then show ?case by (simp add: split_on_no_sep)
  next
    case (Cons l ls)
    then show ?case by (cases ls) (simp_all add: split_on_append)
  qed
  then show ?thesis by (simp add: status_lines_def)
qed

lemma string_of_nat_no_newline: "CHR 0x0A \<notin> set (string_of_nat n)"
  using string_of_nat_digits [of n] by (auto simp: digit_chars_def)

lemma string_of_int_no_newline: "CHR 0x0A \<notin> set (string_of_int i)"
  by (simp add: string_of_int_def string_of_nat_no_newline)

lemma fmt_fixed_no_newline: "CHR 0x0A \<notin> set (fmt_fixed k x)"
  by (simp add: fmt_fixed_def Let_def zpad_def string_of_nat_no_newline)

lemma dist_speed_message_no_newline:
  "CHR 0x0A \<notin> set observer \<Longrightarrow> CHR 0x0A \<notin> set (dist_speed_message observer d v)"
  by (simp add: dist_speed_message_def Let_def fmt_fixed_no_newline)

text \<open>C25: the status text of \<open>PlotTitleLegendStatusBar\<close> has one line per field of
  the f-string, in its order. When the samples from the Sun, the Earth and Europa and
  the launch date are present (and the name and the epoch contain no newline),
  \<open>status_message\<close> succeeds, and its text split at the newlines is an empty line,
  the name, the status, the epoch, the mission day, the signal delay and the three
  distance lines, each indented by four spaces, and a last line of four spaces.\<close>

theorem status_message_lines:
  assumes "attrs t ''ephSun'' = Some (EphRow rs)" "attrs t ''ephEarth'' = Some (EphRow re)"
    and "attrs t ''ephEuropa'' = Some (EphRow ru)" "launch_date t = Some ld"
    and "CHR 0x0A \<notin> set (name t)" "CHR 0x0A \<notin> set (datetime_str rs)"
  shows "\<exists>msg. status_message d t = Inr msg \<and>
    split_on (CHR 0x0A) msg =
      [[], ''    '' @ name t, ''    System Status: Nominal'', ''    Epoch: '' @ datetime_str rs,
       ''    Mission day: '' @ string_of_int (date_diff_days d ld),
       ''    Signal Delay: '' @ fmt_fixed 3 (light_time (delta re)) @ '' s'',
       ''    '' @ dist_speed_message ''Sun'' (delta rs) (delta_rate rs),
       ''    '' @ dist_speed_message ''Earth'' (delta re) (delta_rate re),
       ''    '' @ dist_speed_message ''Europa'' (delta ru) (delta_rate ru), ''    '']"
proof -
  let ?ls = "[name t, ''System Status: Nominal'', ''Epoch: '' @ datetime_str rs,
      ''Mission day: '' @ string_of_int (date_diff_days d ld),
      ''Signal Delay: '' @ fmt_fixed 3 (light_time (delta re)) @ '' s'',
      dist_speed_message ''Sun'' (delta rs) (delta_rate rs),
      dist_speed_message ''Earth'' (delta re) (delta_rate re),
      dist_speed_message ''Europa'' (delta ru) (delta_rate ru)]"
  have "\<forall>l \<in> set ?ls. CHR 0x0A \<notin> set l"
    using assms(5,6) by (simp add: string_of_int_no_newline fmt_fixed_no_newline
        dist_speed_message_no_newline)
  then have "split_on (CHR 0x0A) (status_lines ?ls) = [] # map (\<lambda>l. ''    '' @ l) ?ls @ [''    '']"
    by (rule split_on_status_lines)
  then show ?thesis using status_message_ok [OF assms(1-4), of d] by simp
qed

lemma status_message_lines_witness:
  "\<exists>msg. status_message (today sample_env) (craft ''Juno'' 2011 8 6\<lparr>attrs := [''ephSun'' \<mapsto> EphRow sample_row,
      ''ephEarth'' \<mapsto> EphRow sample_row, ''ephEuropa'' \<mapsto> EphRow sample_row]\<rparr>) = Inr msg \<and>
    split_on (CHR 0x0A) msg =
      [[], ''    Juno'', ''    System Status: Nominal'', ''    Epoch: 2025-Jan-23 00:00'',
       ''    Mission day: '' @ string_of_int (date_diff_days (today sample_env) \<lparr>year = 2011, month = 8, day = 6\<rparr>),
       ''    Signal Delay: '' @ fmt_fixed 3 (light_time 1) @ '' s'',
       ''    '' @ dist_speed_message ''Sun'' 1 2.5,
       ''    '' @ dist_speed_message ''Earth'' 1 2.5,
       ''    '' @ dist_speed_message ''Europa'' 1 2.5, ''    '']"
  using status_message_lines [where t = "craft ''Juno'' 2011 8 6\<lparr>attrs := [''ephSun'' \<mapsto> EphRow sample_row,
      ''ephEarth'' \<mapsto> EphRow sample_row, ''ephEuropa'' \<mapsto> EphRow sample_row]\<rparr>"
      and rs = sample_row and re = sample_row and ru = sample_row
      and ld = "\<lparr>year = 2011, month = 8, day = 6\<rparr>" and d = "today sample_env"]
  by (simp add: craft_def sample_row_def)

text \<open>C34: the telemetry fields of the status text are evaluated left to right, and the
  first absent sample decides the exception. For a well-typed dictionary, the text is
  produced when the current sample from the Sun, the launch date and the samples from
  the Earth and Europa are all present; otherwise \<open>status_message\<close> raises the
  \<open>KeyError\<close> of the first absent one in that order.\<close>

theorem status_message_first_missing:
  assumes wt: "target_wt t"
  shows "(filter (missing_field t) [''ephSun'', ''launch_date'', ''ephEarth'', ''ephEuropa''] = [] \<longrightarrow>
            (\<exists>msg. status_message d t = Inr msg)) \<and>
         (\<forall>k ks. filter (missing_field t) [''ephSun'', ''launch_date'', ''ephEarth'', ''ephEuropa''] = k # ks \<longrightarrow>
            status_message d t = Inl (KeyError k))"
proof -
  have sun: "take 11 ''Sun'' \<noteq> ''SinceLaunch''" and earth: "take 11 ''Earth'' \<noteq> ''SinceLaunch''"
    and europa: "take 11 ''Europa'' \<noteq> ''SinceLaunch''" by simp_all
  show ?thesis
    using get_row_wt_cases [OF wt sun] get_row_wt_cases [OF wt earth] get_row_wt_cases [OF wt europa]
    by (cases "launch_date t")
      (auto simp: status_message_def GetMissionDays_def get_launch_date_def GetSignalDelay_def
        GetDistSpeedFrom_def missing_field_def)
qed

lemma status_message_first_missing_witness:
  "status_message (today sample_env) (targets_init ! 6) = Inl (KeyError ''ephSun'')"
proof -
  have wt: "target_wt (targets_init ! 6)" by (simp add: target_wt_def catalog_defs)
  have f: "filter (missing_field (targets_init ! 6)) [''ephSun'', ''launch_date'', ''ephEarth'', ''ephEuropa''] =
      [''ephSun'', ''ephEarth'', ''ephEuropa'']"
    by (simp add: missing_field_def catalog_defs)
  show ?thesis using status_message_first_missing [OF wt, of "today sample_env"] f by simp
qed

end
