(* ===== verification/Run.thy ===== *)
theory Run
  imports Pipeline
begin

text \<open>
  Whole runs of \<open>main\<close> (\<^verbatim>\<open>src/clipperwatch.py\<close>, lines 423--473) from the module
  state after import: the default run, which selects Europa Clipper, fetches and draws
  the scene and shows the window; the run with an unknown spacecraft name, which stops
  before any fetch; and every failing run, which never saves nor shows a figure.
\<close>

section \<open>Lemmas\<close>

lemma find_Europa_Clipper: "first_index (\<lambda>t. name t = ''Europa Clipper'') targets_init = Some 6"
  by (simp add: catalog_defs)

lemma main_default_prefix:
  "main E default_args init_world =
     Plot E False ''clipper_watch.png''
       (init_world\<lparr>stdout := [''Starting ClipperWatch...'', ''Mode: Interactive Window''],
                   targetSpacecraft := Some 6\<rparr>)"
  by (simp add: main_def default_args_def select_spacecraft_def FindTargetSpacecraft_def prog_simps
      print_line_def init_world_def find_Europa_Clipper Let_def)

lemma isoformat_clipper_launch: "isoformat \<lparr>year = 2024, month = 10, day = 15\<rparr> = ''2024-10-15''"
  by (simp add: isoformat_def fmt_0d_def zpad_def py_simps digit_char_def)

lemma main_keeps_figures_on_error: "keeps_on_error figures (main E a)"
  unfolding main_def Plot_def
  by (intro keeps_on_error_bindP frame_intros PrintOrSave_total)

text \<open>The catalog's names are distinct, so looking up the name of an entry finds it.\<close>

lemma find_init_index:
  assumes j: "j < length targets_init"
  shows "first_index (\<lambda>t. name t = name (targets_init ! j)) targets_init = Some j"
proof -
  have "\<not> (\<forall>t \<in> set targets_init. name t \<noteq> name (targets_init ! j))" using j nth_mem by blast
  then obtain k where fk: "first_index (\<lambda>t. name t = name (targets_init ! j)) targets_init = Some k"
    by (cases "first_index (\<lambda>t. name t = name (targets_init ! j)) targets_init") (auto simp: first_index_None)
  then have "k < length targets_init" "name (targets_init ! k) = name (targets_init ! j)"
    using first_index_Some by blast+
  then have "k = j" using j targets_init_distinct nth_eq_iff_index_eq [of "map name targets_init" k j] by simp
  then show ?thesis using fk by simp
qed

text \<open>\<open>main\<close> up to \<open>Plot\<close>: the start line, no listing, the selection and the
  mode line.\<close>

lemma main_prefix:
  assumes "\<not> arg_list a" "select_spacecraft E a (init_world\<lparr>stdout := [''Starting ClipperWatch...'']\<rparr>) = (Inr (), w1)"
  shows "main E a init_world =
    Plot E (arg_save a) (arg_output a)
      (w1\<lparr>stdout := stdout w1 @ [if arg_save a then ''Mode: Save to disk -> '' @ arg_output a
                                 else ''Mode: Interactive Window'']\<rparr>)"
proof -
  have "(if arg_save a then print_line (''Mode: Save to disk -> '' @ arg_output a)
         else print_line ''Mode: Interactive Window'') w1 =
        (Inr (), w1\<lparr>stdout := stdout w1 @ [if arg_save a then ''Mode: Save to disk -> '' @ arg_output a
                                 else ''Mode: Interactive Window'']\<rparr>)"
    by (simp add: print_line_def prog_simps)
  then show ?thesis using assms by (simp add: main_def print_line_def prog_simps init_world_def)
qed

text \<open>\<open>Plot\<close> after its first two statements, the axes limits and the stars.\<close>

lemma Plot_stars:
  "Plot E s f w =
     bindP (PlotTargets E) (\<lambda>_. bindP (PlotSpacecraftTail E) (\<lambda>_.
     bindP (PlotTitleLegendStatusBar E) (\<lambda>_. PrintOrSave s f)))
       (w\<lparr>np_drawn := np_drawn w + 3 * num_stars,
          artists := artists w @ [AxesLimits xlimit ylimit, star_field E xlimit ylimit (np_drawn w)]\<rparr>)"
  by (simp add: Plot_def draw_def PlotStars_run bindP_apply modify_apply)

text \<open>\<open>PlotTargets\<close> from a state holding the module's catalog with a selection:
  every fetch is the current ephemerides from the Sun.\<close>

lemma PlotTargets_init:
  assumes prov: "provider_total (provider E)"
    and w: "targets w = targets_init" "targetSpacecraft w = Some k" "k < length targets_init"
  shows "\<exists>w2 qs. PlotTargets E w = (Inr (), w2) \<and>
     requests w2 = requests w @
       concat (map (\<lambda>i. astro_requests (targets_init ! i) (qs i)) (plotted_indices targets_init (Some k))) \<and>
     stdout w2 = stdout w \<and> figures w2 = figures w \<and> catalog_view w2 = catalog_view w"
proof -
  have sun: "MapNameToJplId ''Sun'' = Inr ''10''" by (simp add: MapNameToJplId_def idMap_def)
  have "\<forall>i. \<exists>q. i < length targets_init \<longrightarrow> horizons_query (today E) (targets_init ! i) ''Sun'' False = Inr q"
    using targets_init_ids horizons_query_current [OF sun] nth_mem by blast
  then obtain qs where qs: "\<And>i. i < length targets_init \<Longrightarrow>
      horizons_query (today E) (targets_init ! i) ''Sun'' False = Inr (qs i)"
    by metis
  have hq: "\<forall>i \<in> set (plotted_indices (targets w) (targetSpacecraft w)).
      horizons_query (today E) (targets w ! i) ''Sun'' False = Inr (qs i)"
    using qs w by (simp add: plotted_indices_def)
  have d: "distinct (map name (targets w))" "\<forall>i. targetSpacecraft w = Some i \<longrightarrow> i < length (targets w)"
    using targets_init_distinct w by simp_all
  show ?thesis using PlotTargets_run [OF d prov hq] w by auto
qed

text \<open>A valid choice, random or by name, selects a spacecraft entry of the catalog
  and changes nothing else but the printed lines.\<close>

lemma select_init_spacecraft:
  assumes choice: "if arg_random a then (\<forall>c. 0 < c \<longrightarrow> randrange E c < c)
                   else arg_spacecraft a \<in> set (map name (filter isSpacecraft targets_init))"
  shows "\<exists>k w1. select_spacecraft E a (init_world\<lparr>stdout := [''Starting ClipperWatch...'']\<rparr>) = (Inr (), w1) \<and>
     targets w1 = targets_init \<and> targetSpacecraft w1 = Some k \<and> figures w1 = [] \<and>
     hd (stdout w1) = ''Starting ClipperWatch...'' \<and> stdout w1 \<noteq> [] \<and>
     k < length targets_init \<and> isSpacecraft (targets_init ! k)"
proof (cases "arg_random a")
  let ?w0 = "init_world\<lparr>stdout := [''Starting ClipperWatch...'']\<rparr>"
  case True
  have "length (filter isSpacecraft targets_init) > 0" by (simp add: catalog_defs)
  then have "randrange E (length (filter isSpacecraft (targets ?w0))) < length (filter isSpacecraft (targets ?w0))"
    using choice True by (simp add: init_world_def)
  then obtain k where r: "select_spacecraft E a ?w0 =
    (Inr (), ?w0\<lparr>stdout := stdout ?w0 @ [''Selected '' @ name (targets ?w0 ! k) @ ''!''], targetSpacecraft := Some k\<rparr>)"
    and k: "k < length (targets ?w0)" "isSpacecraft (targets ?w0 ! k)"
    using select_random [OF True] by blast
  show ?thesis
  proof (intro exI [of _ k] exI [of _ "?w0\<lparr>stdout := stdout ?w0 @ [''Selected '' @ name (targets ?w0 ! k) @ ''!''],
      targetSpacecraft := Some k\<rparr>"] conjI)
  qed (use r k in \<open>simp_all add: init_world_def\<close>)
next
  let ?w0 = "init_world\<lparr>stdout := [''Starting ClipperWatch...'']\<rparr>"
  case False
  then obtain j where j: "j < length targets_init" "isSpacecraft (targets_init ! j)"
    "name (targets_init ! j) = arg_spacecraft a"
    using choice by (auto simp: in_set_conv_nth)
  have r: "select_spacecraft E a ?w0 = (Inr (), ?w0\<lparr>targetSpacecraft := Some j\<rparr>)"
    using select_named [OF False, of ?w0 j E] find_init_index [OF j(1)] j(3) by (simp add: init_world_def)
  show ?thesis
  proof (intro exI [of _ j] exI [of _ "?w0\<lparr>targetSpacecraft := Some j\<rparr>"] conjI)
  qed (use r j in \<open>simp_all add: init_world_def\<close>)
qed

section \<open>Properties of whole runs\<close>

text \<open>The default run with a service that answers every request, step by step.\<close>

lemma main_default_sends:
  assumes prov: "provider_total (provider E)"
  shows "\<exists>w'. main E default_args init_world = (Inr (), w') \<and>
     stdout w' = [''Starting ClipperWatch...'', ''Mode: Interactive Window''] \<and>
     figures w' = [ShownWindow] \<and>
     requests w' =
       concat (map (\<lambda>tid. [EphemeridesReq \<lparr>q_id = tid, q_location = ''500@10'', q_epochs = None\<rparr>,
                             ElementsReq \<lparr>q_id = tid, q_location = ''500@10'', q_epochs = None\<rparr>])
         [''199'', ''299'', ''399'', ''499'', ''599'', ''699'']) @
       [EphemeridesReq \<lparr>q_id = ''2024-182A'', q_location = ''500@10'', q_epochs = None\<rparr>,
        EphemeridesReq \<lparr>q_id = ''2024-182A'', q_location = ''500@10'',
          q_epochs = Some (''2024-10-15'', isoformat (today E), ''7d'')\<rparr>,
        EphemeridesReq \<lparr>q_id = ''2024-182A'', q_location = ''500@399'', q_epochs = None\<rparr>,
        EphemeridesReq \<lparr>q_id = ''2024-182A'', q_location = ''500@502'', q_epochs = None\<rparr>] \<and>
     (\<exists>msg. last (artists w') = StatusText msg)"
proof -
  let ?w1 = "init_world\<lparr>stdout := [''Starting ClipperWatch...'', ''Mode: Interactive Window''],
                   targetSpacecraft := Some 6, artists := [AxesLimits xlimit ylimit, star_field E xlimit ylimit 0],
                   np_drawn := 3 * num_stars\<rparr>"
  let ?qs = "\<lambda>i. \<lparr>q_id = sun_ids ! i, q_location = ''500@10'', q_epochs = None\<rparr>"
  have sun: "MapNameToJplId ''Sun'' = Inr ''10''" by (simp add: MapNameToJplId_def idMap_def)
  have hq: "\<forall>i \<in> set (plotted_indices (targets ?w1) (targetSpacecraft ?w1)).
      horizons_query (today E) (targets ?w1 ! i) ''Sun'' False = Inr (?qs i)"
    using names_init horizons_query_current [OF sun] by (simp add: init_world_def plotted_init)
  have d: "distinct (map name (targets ?w1))" "\<forall>k. targetSpacecraft ?w1 = Some k \<longrightarrow> k < length (targets ?w1)"
    by (simp_all add: init_world_def catalog_defs)
  obtain w2 where pt: "PlotTargets E ?w1 = (Inr (), w2)"
    and r2: "requests w2 = concat (map (\<lambda>i. astro_requests (targets_init ! i) (?qs i)) [0, 1, 2, 3, 4, 5, 6])"
    and o2: "stdout w2 = stdout ?w1" "figures w2 = []" and v2: "catalog_view w2 = catalog_view ?w1"
    and s2: "\<exists>r. attrs (targets w2 ! 6) ''ephSun'' = Some (EphRow r)"
    using PlotTargets_run [OF d prov hq] by (auto simp: init_world_def plotted_init)
  note eq2 = catalog_view_eqD [OF v2]
  have len2: "length (targets w2) = 18" and sel2: "targetSpacecraft w2 = Some 6"
    using eq2(1,2) by (simp_all add: init_world_def catalog_defs)
  have view6: "name (targets w2 ! 6) = ''Europa Clipper''"
    "launch_date (targets w2 ! 6) = Some \<lparr>year = 2024, month = 10, day = 15\<rparr>"
    "isSpacecraft (targets w2 ! 6)"
    using eq2(3) [of 6] by (simp_all add: init_world_def catalog_defs)
  have clip: "MapNameToJplId ''Europa Clipper'' = Inr ''2024-182A''" by (simp add: MapNameToJplId_def idMap_def)
  let ?qt = "\<lparr>q_id = ''2024-182A'', q_location = ''500@10'',
          q_epochs = Some (isoformat \<lparr>year = 2024, month = 10, day = 15\<rparr>, isoformat (today E), ''7d'')\<rparr>"
  have qt: "horizons_query (today E) (targets w2 ! 6) ''Sun'' True = Inr ?qt"
    using horizons_query_series [OF sun] view6 clip by simp
  obtain rows els where tail: "PlotSpacecraftTail E w2 =
     (Inr (), w2\<lparr>targets := (targets w2)[6 := astro_store (targets w2 ! 6) ''Sun'' True rows els],
               requests := requests w2 @ astro_requests (targets w2 ! 6) ?qt,
               artists := artists w2 @ [TailLine (build_trajectory rows)]\<rparr>)"
    using PlotSpacecraftTail_ok [OF sel2 _ qt prov] len2 by auto
  let ?t3 = "astro_store (targets w2 ! 6) ''Sun'' True rows els"
  let ?w3 = "w2\<lparr>targets := (targets w2)[6 := ?t3], requests := requests w2 @ astro_requests (targets w2 ! 6) ?qt,
               artists := artists w2 @ [TailLine (build_trajectory rows)]\<rparr>"
  obtain rs where sun3: "attrs ?t3 ''ephSun'' = Some (EphRow rs)"
    using s2 astro_store_attrs(4) [where t = "targets w2 ! 6" and observer = "''Sun''" and sl = True
      and rows = rows and els = els and k = "''ephSun''"] by (auto simp: astro_key_def)
  have n3: "name ?t3 = ''Europa Clipper''" "launch_date ?t3 = Some \<lparr>year = 2024, month = 10, day = 15\<rparr>"
    "isSpacecraft ?t3"
    using view6 by simp_all
  let ?qe = "\<lparr>q_id = ''2024-182A'', q_location = ''500@'' @ ''399'', q_epochs = None\<rparr>"
  let ?qu = "\<lparr>q_id = ''2024-182A'', q_location = ''500@'' @ ''502'', q_epochs = None\<rparr>"
  have qe: "horizons_query (today E) ?t3 ''Earth'' False = Inr ?qe"
    using n3 clip by (intro horizons_query_current) (simp_all add: MapNameToJplId_def idMap_def)
  have qu: "horizons_query (today E) ?t3 ''Europa'' False = Inr ?qu"
    using n3 clip by (intro horizons_query_current) (simp_all add: MapNameToJplId_def idMap_def)
  obtain w4 msg where st: "PlotTitleLegendStatusBar E ?w3 = (Inr (), w4)"
    and o4: "stdout w4 = stdout ?w3" "figures w4 = figures ?w3"
    and r4: "requests w4 = requests ?w3 @ astro_requests ?t3 ?qe @ astro_requests ?t3 ?qu"
    and a4: "artists w4 = artists ?w3 @ [TitleText (name ?t3 @ '' Mission Status''), LegendBox, StatusText msg]"
    using PlotTitleLegendStatusBar_ok [of ?w3 6 E ?qe ?qu rs] sel2 len2 qe qu prov sun3 n3 by auto
  have ps: "PrintOrSave False ''clipper_watch.png'' w4 = (Inr (), w4\<lparr>figures := figures w4 @ [ShownWindow]\<rparr>)"
    by (simp add: PrintOrSave_def emit_figure_def prog_simps)
  let ?wm = "init_world\<lparr>stdout := [''Starting ClipperWatch...'', ''Mode: Interactive Window''],
                   targetSpacecraft := Some 6\<rparr>"
  have lim: "draw (AxesLimits xlimit ylimit) ?wm = (Inr (), ?wm\<lparr>artists := [AxesLimits xlimit ylimit]\<rparr>)"
    by (simp add: draw_def prog_simps init_world_def)
  have stars: "PlotStars E xlimit ylimit (?wm\<lparr>artists := [AxesLimits xlimit ylimit]\<rparr>) = (Inr (), ?w1)"
    by (simp add: PlotStars_run init_world_def)
  have run: "main E default_args init_world = (Inr (), w4\<lparr>figures := figures w4 @ [ShownWindow]\<rparr>)"
    unfolding main_default_prefix Plot_def using lim stars pt tail st ps by simp
  have req2: "requests w2 = concat (map (\<lambda>tid. [EphemeridesReq \<lparr>q_id = tid, q_location = ''500@10'', q_epochs = None\<rparr>,
                             ElementsReq \<lparr>q_id = tid, q_location = ''500@10'', q_epochs = None\<rparr>])
         [''199'', ''299'', ''399'', ''499'', ''599'', ''699'']) @
       [EphemeridesReq \<lparr>q_id = ''2024-182A'', q_location = ''500@10'', q_epochs = None\<rparr>]"
    unfolding r2 by (simp add: astro_requests_def catalog_defs sun_ids_def)
  show ?thesis
  proof (intro exI conjI)
    show "main E default_args init_world = (Inr (), w4\<lparr>figures := figures w4 @ [ShownWindow]\<rparr>)" by (rule run)
  qed (use o4 o2 a4 r4 req2 view6 n3 in \<open>simp_all add: init_world_def astro_requests_def isoformat_clipper_launch\<close>)
qed

text \<open>C21: with a service that answers every request, the default run (\<open>--spacecraft
  "Europa Clipper"\<close>, interactive window) returns normally: it prints the start and
  mode lines only, shows the figure once, ends the axes with the status text (so no
  telemetry line lacks its sample), and sends exactly sixteen requests, strictly one
  after the other in this order: for each planet in catalog order its ephemerides
  and its elements, the current ephemerides of Europa Clipper, its weekly series
  since launch, and its ephemerides seen from the Earth and from Europa.\<close>

theorem main_default_run:
  assumes prov: "provider_total (provider E)"
  shows "\<exists>w'. main E default_args init_world = (Inr (), w') \<and>
     stdout w' = [''Starting ClipperWatch...'', ''Mode: Interactive Window''] \<and>
     figures w' = [ShownWindow] \<and>
     requests w' =
       concat (map (\<lambda>tid. [EphemeridesReq \<lparr>q_id = tid, q_location = ''500@10'', q_epochs = None\<rparr>,
                             ElementsReq \<lparr>q_id = tid, q_location = ''500@10'', q_epochs = None\<rparr>])
         [''199'', ''299'', ''399'', ''499'', ''599'', ''699'']) @
       [EphemeridesReq \<lparr>q_id = ''2024-182A'', q_location = ''500@10'', q_epochs = None\<rparr>,
        EphemeridesReq \<lparr>q_id = ''2024-182A'', q_location = ''500@10'',
          q_epochs = Some (''2024-10-15'', isoformat (today E), ''7d'')\<rparr>,
        EphemeridesReq \<lparr>q_id = ''2024-182A'', q_location = ''500@399'', q_epochs = None\<rparr>,
        EphemeridesReq \<lparr>q_id = ''2024-182A'', q_location = ''500@502'', q_epochs = None\<rparr>] \<and>
     (\<exists>msg. last (artists w') = StatusText msg)"
  using prov by (rule main_default_sends)

lemma main_default_run_witness:
  "\<exists>w'. main sample_env default_args init_world = (Inr (), w') \<and>
     stdout w' = [''Starting ClipperWatch...'', ''Mode: Interactive Window''] \<and>
     figures w' = [ShownWindow] \<and>
     requests w' =
       concat (map (\<lambda>tid. [EphemeridesReq \<lparr>q_id = tid, q_location = ''500@10'', q_epochs = None\<rparr>,
                             ElementsReq \<lparr>q_id = tid, q_location = ''500@10'', q_epochs = None\<rparr>])
         [''199'', ''299'', ''399'', ''499'', ''599'', ''699'']) @
       [EphemeridesReq \<lparr>q_id = ''2024-182A'', q_location = ''500@10'', q_epochs = None\<rparr>,
        EphemeridesReq \<lparr>q_id = ''2024-182A'', q_location = ''500@10'',
          q_epochs = Some (''2024-10-15'', isoformat (today sample_env), ''7d'')\<rparr>,
        EphemeridesReq \<lparr>q_id = ''2024-182A'', q_location = ''500@399'', q_epochs = None\<rparr>,
        EphemeridesReq \<lparr>q_id = ''2024-182A'', q_location = ''500@502'', q_epochs = None\<rparr>] \<and>
     (\<exists>msg. last (artists w') = StatusText msg)"
  by (rule main_default_run [OF provider_total_sample_env])

text \<open>C23: when \<open>--spacecraft\<close> names no entry of the catalog (and neither
  \<open>--list\<close> nor \<open>--random\<close> is given), \<open>main\<close> prints \<open>Spacecraft ... not found!\<close>
  and exits with status 1 before any request is sent or anything is drawn; the
  selection is left at \<open>None\<close>.\<close>

theorem main_unknown_body:
  assumes "\<not> arg_list a" "\<not> arg_random a" "arg_spacecraft a \<notin> set (map name (targets w))"
  shows "main E a w =
    (Inl (SystemExit 1), w\<lparr>targetSpacecraft := None,
       stdout := stdout w @ [''Starting ClipperWatch...'', ''Spacecraft '' @ arg_spacecraft a @ '' not found!'']\<rparr>)"
proof -
  have "\<forall>t \<in> set (targets w). name t \<noteq> arg_spacecraft a" using assms(3) by force
  then have "first_index (\<lambda>t. name t = arg_spacecraft a) (targets w) = None"
    by (simp add: first_index_None)
  then show ?thesis
    using assms(1,2)
    by (simp add: main_def select_spacecraft_def FindTargetSpacecraft_def prog_simps print_line_def Let_def)
qed

lemma main_unknown_body_witness:
  "main sample_env (default_args\<lparr>arg_spacecraft := ''Cassini''\<rparr>) init_world =
    (Inl (SystemExit 1), init_world\<lparr>targetSpacecraft := None,
       stdout := stdout init_world @ [''Starting ClipperWatch...'', ''Spacecraft '' @ ''Cassini'' @ '' not found!'']\<rparr>)"
  using main_unknown_body [of "default_args\<lparr>arg_spacecraft := ''Cassini''\<rparr>" init_world sample_env]
  by (simp add: default_args_def init_world_def catalog_defs)

text \<open>C24: a run that ends with an exception (a failed fetch, a missing name, an
  exit) never saves nor shows a figure: partial output is never produced.\<close>

theorem main_no_partial_output:
  assumes "fst (main E a w) = Inl e"
  shows "figures (snd (main E a w)) = figures w"
  using main_keeps_figures_on_error assms unfolding keeps_on_error_def by blast

lemma main_no_partial_output_witness:
  "fst (main sample_env (default_args\<lparr>arg_spacecraft := ''Cassini''\<rparr>) init_world) = Inl (SystemExit 1) \<and>
   figures (snd (main sample_env (default_args\<lparr>arg_spacecraft := ''Cassini''\<rparr>) init_world)) = figures init_world"
proof
  show "fst (main sample_env (default_args\<lparr>arg_spacecraft := ''Cassini''\<rparr>) init_world) = Inl (SystemExit 1)"
    by (simp add: main_def default_args_def select_spacecraft_def FindTargetSpacecraft_def prog_simps
        print_line_def Let_def init_world_def catalog_defs)
  then show "figures (snd (main sample_env (default_args\<lparr>arg_spacecraft := ''Cassini''\<rparr>) init_world)) = figures init_world"
    by (rule main_no_partial_output)
qed

text \<open>C26: typing of the stored entries. Every run of \<open>main\<close> from a well-typed
  state ends in a well-typed state, whether it returns or exits: each run-time key of
  each dictionary holds the one kind of value the program reads from it, so the
  reads of \<open>PlotTargets\<close>, \<open>PlotSpacecraftTail\<close> and the telemetry lines never meet
  a value of the wrong kind (\<open>target_wt_get_row\<close> and the lemmas beside it).\<close>

theorem main_wt:
  assumes "world_wt w"
  shows "world_wt (snd (main E a w))"
proof -
  have obs: "''Sun'' \<in> set (map fst idMap)" "''Earth'' \<in> set (map fst idMap)"
    "''Europa'' \<in> set (map fst idMap)" by (simp_all add: idMap_def)
  have "invariant world_wt (main E a)"
    unfolding main_def select_spacecraft_def ListSpacecraft_def FindTargetSpacecraft_def
      GetRandomSpacecraft_def Plot_def PlotStars_def PlotTargets_def plot_target_def plot_planet_def
      plot_craft_def PlotSpacecraftTail_def PlotTitleLegendStatusBar_def PrintOrSave_def Let_def
    by (intro inv_intros GetAstroData_wt obs) (simp_all add: world_wt_modify_sel)
  then show ?thesis using assms unfolding invariant_def by blast
qed

lemma main_wt_witness: "world_wt (snd (main sample_env default_args init_world))"
  by (rule main_wt) (simp add: world_wt_def init_world_def catalog_defs target_wt_def)

text \<open>C27: every valid choice of spacecraft gives a complete run. With a service
  that answers every request, \<open>main\<close> without \<open>--list\<close> returns normally when
  \<open>--random\<close> is given (and the draw is in range) or \<open>--spacecraft\<close> names a
  spacecraft of the catalog: the selection is a spacecraft, the axes end with the
  status text, the figure is saved to \<open>--output\<close> or shown exactly once, and the
  last line printed is \<open>Image saved.\<close> or the mode line.\<close>

theorem main_selected_run:
  assumes prov: "provider_total (provider E)" and nolist: "\<not> arg_list a"
    and choice: "if arg_random a then (\<forall>c. 0 < c \<longrightarrow> randrange E c < c)
                 else arg_spacecraft a \<in> set (map name (filter isSpacecraft targets_init))"
  shows "\<exists>w' k. main E a init_world = (Inr (), w') \<and>
     figures w' = [if arg_save a then SavedTo (arg_output a) else ShownWindow] \<and>
     targetSpacecraft w' = Some k \<and> isSpacecraft (targets_init ! k) \<and>
     (\<exists>msg. last (artists w') = StatusText msg) \<and>
     hd (stdout w') = ''Starting ClipperWatch...'' \<and>
     last (stdout w') = (if arg_save a then ''Image saved.'' else ''Mode: Interactive Window'')"
proof -
  obtain k w1 where sel: "select_spacecraft E a (init_world\<lparr>stdout := [''Starting ClipperWatch...'']\<rparr>) = (Inr (), w1)"
    and w1: "targets w1 = targets_init" "targetSpacecraft w1 = Some k" "figures w1 = []"
      "hd (stdout w1) = ''Starting ClipperWatch...''" "stdout w1 \<noteq> []"
    and k: "k < length targets_init" "isSpacecraft (targets_init ! k)"
    using select_init_spacecraft [OF choice] by blast
  let ?mode = "if arg_save a then ''Mode: Save to disk -> '' @ arg_output a else ''Mode: Interactive Window''"
  let ?w2 = "w1\<lparr>stdout := stdout w1 @ [?mode]\<rparr>"
  have t2: "targets ?w2 = targets_init" "targetSpacecraft ?w2 = Some k" using w1 by simp_all
  obtain ld where ld: "launch_date (targets ?w2 ! k) = Some ld"
    using targets_init_launch [OF k] t2 by auto
  have d2: "distinct (map name (targets ?w2))" using targets_init_distinct t2 by simp
  have i2: "\<forall>t \<in> set (targets ?w2). \<exists>tid. MapNameToJplId (name t) = Inr tid"
    using targets_init_ids t2 by simp
  have k2: "k < length (targets ?w2)" using k t2 by simp
  obtain w' where plot: "Plot E (arg_save a) (arg_output a) ?w2 = (Inr (), w')"
    and o: "stdout w' = stdout ?w2 @ (if arg_save a then [''Image saved.''] else [])"
      "figures w' = figures ?w2 @ [if arg_save a then SavedTo (arg_output a) else ShownWindow]"
      "targetSpacecraft w' = Some k" "\<exists>msg. last (artists w') = StatusText msg"
    using Plot_ok [OF prov d2 i2 t2(2) k2 ld, of "arg_save a" "arg_output a"] by blast
  have run: "main E a init_world = (Inr (), w')"
    using main_prefix [OF nolist sel] plot by simp
  have hd: "hd (stdout w') = ''Starting ClipperWatch...''" using o(1) w1(4,5) by (simp add: hd_append)
  show ?thesis
  proof (intro exI [of _ w'] exI [of _ k] conjI)
    show "main E a init_world = (Inr (), w')" by (rule run)
  qed (use o w1 k hd in simp_all)
qed

lemma main_selected_run_witness:
  "\<exists>w' k. main sample_env (default_args\<lparr>arg_random := True, arg_save := True\<rparr>) init_world = (Inr (), w') \<and>
     figures w' = [if arg_save (default_args\<lparr>arg_random := True, arg_save := True\<rparr>)
                   then SavedTo (arg_output (default_args\<lparr>arg_random := True, arg_save := True\<rparr>)) else ShownWindow] \<and>
     targetSpacecraft w' = Some k \<and> isSpacecraft (targets_init ! k) \<and>
     (\<exists>msg. last (artists w') = StatusText msg) \<and>
     hd (stdout w') = ''Starting ClipperWatch...'' \<and>
     last (stdout w') = (if arg_save (default_args\<lparr>arg_random := True, arg_save := True\<rparr>)
                          then ''Image saved.'' else ''Mode: Interactive Window'')"
  by (rule main_selected_run [OF provider_total_sample_env]) (simp_all add: default_args_def sample_env_def)

text \<open>C28: naming a planet with \<open>--spacecraft\<close> passes the selection, since
  \<open>FindTargetSpacecraft\<close> searches the planets too; the run then fetches and draws
  the six planets (twelve requests) before \<open>PlotSpacecraftTail\<close> fails on the
  planet's missing \<open>launch_date\<close>, prints \<open>JPL Get error: 'launch_date'\<close> and
  exits with status 1, without saving or showing a figure. The unknown name is thus
  reported only after the fetches.\<close>

theorem main_planet_selected:
  assumes prov: "provider_total (provider E)" and opts: "\<not> arg_list a" "\<not> arg_random a"
    and planet: "arg_spacecraft a \<in> set (map name (filter (\<lambda>t. \<not> isSpacecraft t) targets_init))"
  shows "\<exists>w'. main E a init_world = (Inl (SystemExit 1), w') \<and>
     last (stdout w') = ''JPL Get error: '' @ error_text (KeyError ''launch_date'') \<and>
     length (requests w') = 12 \<and> figures w' = []"
proof -
  obtain k where kk: "k < length targets_init" "name (targets_init ! k) = arg_spacecraft a"
    and kp: "\<not> isSpacecraft (targets_init ! k)"
    using planet by (auto simp: in_set_conv_nth)
  have fk: "first_index (\<lambda>t. name t = arg_spacecraft a) targets_init = Some k"
    using find_init_index [OF kk(1)] kk(2) by simp
  have nold: "launch_date (targets_init ! k) = None"
  proof -
    have "\<forall>t \<in> set targets_init. \<not> isSpacecraft t \<longrightarrow> launch_date t = None" by (simp add: catalog_defs)
    then show ?thesis using kk(1) kp nth_mem by blast
  qed
  let ?mode = "if arg_save a then ''Mode: Save to disk -> '' @ arg_output a else ''Mode: Interactive Window''"
  let ?w0 = "init_world\<lparr>stdout := [''Starting ClipperWatch...'']\<rparr>"
  let ?wm = "?w0\<lparr>targetSpacecraft := Some k, stdout := [''Starting ClipperWatch...'', ?mode]\<rparr>"
  let ?w1 = "?wm\<lparr>artists := [AxesLimits xlimit ylimit, star_field E xlimit ylimit 0], np_drawn := 3 * num_stars\<rparr>"
  have sel: "select_spacecraft E a ?w0 = (Inr (), ?w0\<lparr>targetSpacecraft := Some k\<rparr>)"
    using select_named [OF opts(2), of ?w0 k E] fk by (simp add: init_world_def)
  have sun: "MapNameToJplId ''Sun'' = Inr ''10''" by (simp add: MapNameToJplId_def idMap_def)
  obtain w2 qs where pt: "PlotTargets E ?w1 = (Inr (), w2)"
    and r2: "requests w2 = concat (map (\<lambda>i. astro_requests (targets_init ! i) (qs i))
        (plotted_indices targets_init (Some k)))"
    and o2: "stdout w2 = stdout ?w1" "figures w2 = []" and v2: "catalog_view w2 = catalog_view ?w1"
    using PlotTargets_init [OF prov _ _ kk(1), of ?w1] by (auto simp: init_world_def)
  note eq2 = catalog_view_eqD [OF v2]
  have sel2: "targetSpacecraft w2 = Some k" "k < length (targets w2)"
    using eq2(1,2) kk by (simp_all add: init_world_def)
  have ld2: "launch_date (targets w2 ! k) = None" using eq2(3) [of k] kk nold by (simp add: init_world_def)
  have body: "astro_body E k ''Sun'' True w2 = (Inl (KeyError ''launch_date''), w2)"
    using sel2 ld2 sun by (simp add: astro_body_def horizons_query_def get_launch_date_def prog_simps Let_def)
  have tail: "PlotSpacecraftTail E w2 =
      (Inl (SystemExit 1), w2\<lparr>stdout := stdout w2 @ [''JPL Get error: '' @ error_text (KeyError ''launch_date'')]\<rparr>)"
    using GetAstroData_caught [OF body] sel2 by (simp add: PlotSpacecraftTail_def prog_simps)
  have len: "length (requests w2) = 12"
    unfolding r2 plotted_indices_planet [OF kp] planets_init by (simp add: astro_requests_def catalog_defs)
  have plot: "Plot E (arg_save a) (arg_output a) ?wm =
      (Inl (SystemExit 1), w2\<lparr>stdout := stdout w2 @ [''JPL Get error: '' @ error_text (KeyError ''launch_date'')]\<rparr>)"
    unfolding Plot_stars using pt tail by (simp add: init_world_def)
  have run: "main E a init_world =
      (Inl (SystemExit 1), w2\<lparr>stdout := stdout w2 @ [''JPL Get error: '' @ error_text (KeyError ''launch_date'')]\<rparr>)"
    using main_prefix [OF opts(1) sel] plot by simp
  show ?thesis
    using run len o2 by simp
qed

lemma main_planet_selected_witness:
  "\<exists>w'. main sample_env (default_args\<lparr>arg_spacecraft := ''Earth''\<rparr>) init_world = (Inl (SystemExit 1), w') \<and>
     last (stdout w') = ''JPL Get error: '' @ error_text (KeyError ''launch_date'') \<and>
     length (requests w') = 12 \<and> figures w' = []"
  by (rule main_planet_selected [OF provider_total_sample_env]) (simp_all add: default_args_def catalog_defs)

text \<open>C29: \<open>--list\<close> prints the start line, the heading and the names of the
  spacecraft in catalog order, then exits with status 0, whatever the other options:
  nothing is selected, fetched or drawn.\<close>

theorem main_list:
  assumes "arg_list a"
  shows "main E a w =
    (Inl (SystemExit 0),
     w\<lparr>stdout := stdout w @ ''Starting ClipperWatch...'' # ''Listing spacecraft...'' #
                  map name (filter isSpacecraft (targets w))\<rparr>)"
  using assms by (simp add: main_def ListSpacecraft_def prog_simps print_line_def forP_print_filter)

lemma main_list_witness:
  "main sample_env (default_args\<lparr>arg_list := True, arg_random := True\<rparr>) init_world =
    (Inl (SystemExit 0),
     init_world\<lparr>stdout := stdout init_world @ ''Starting ClipperWatch...'' # ''Listing spacecraft...'' #
                  map name (filter isSpacecraft (targets init_world))\<rparr>)"
  by (rule main_list) (simp add: default_args_def)

text \<open>C30: the star field lies inside the axes. If \<open>np.random\<close>'s generator yields
  doubles in \<open>[0, 1)\<close>, then every run of \<open>main\<close>, whatever its arguments and
  whether it returns or exits, draws only star scatters of 800 stars whose positions
  lie in \<open>[-xlimit, xlimit) \<times> [-ylimit, ylimit)\<close>, the limits \<open>Plot\<close> sets on the
  axes, and whose sizes lie in \<open>[0.1, 3)\<close>.\<close>

theorem main_stars_in_view:
  assumes u: "\<forall>i. 0 \<le> np_random E i \<and> np_random E i < 1"
    and w: "list_all (stars_within xlimit ylimit) (artists w)"
  shows "list_all (stars_within xlimit ylimit) (artists (snd (main E a w)))"
proof -
  have "invariant (\<lambda>w. list_all (stars_within xlimit ylimit) (artists w)) (main E a)"
    unfolding main_def select_spacecraft_def ListSpacecraft_def FindTargetSpacecraft_def
      GetRandomSpacecraft_def Plot_def PlotTargets_def plot_target_def plot_planet_def
      plot_craft_def PlotSpacecraftTail_def PlotTitleLegendStatusBar_def PrintOrSave_def
      GetAstroData_def astro_body_def Let_def
    by (intro inv_intros PlotStars_within [OF u]) (simp_all add: stars_within_def xlimit_def ylimit_def)
  then show ?thesis using w unfolding invariant_def by blast
qed

lemma main_stars_in_view_witness:
  "list_all (stars_within xlimit ylimit) (artists (snd (main sample_env default_args init_world)))"
  using main_stars_in_view [of sample_env init_world default_args] by (simp add: sample_env_def init_world_def)

end
