(* ===== verification/Failures.thy ===== *)
theory Failures
  imports Run "HOL-Library.Sublist"
begin

text \<open>
  Runs of \<open>main\<close> (\<^verbatim>\<open>src/clipperwatch.py\<close>, lines 423--473) against a service
  that may fail or answer with empty tables. Every such failure is raised inside the
  \<open>try\<close> of \<open>GetAstroData\<close> (lines 160--199) and ends the run. The run is compared
  with the run against the completed service \<open>complete_provider\<close>, which answers
  every request: \<open>agrees\<close> relates the two computations, and its rules follow the
  structure of the program (\<open>agrees_intros\<close>, with the request-log monotonicity
  \<open>grows\<close>, collection \<open>grows_intros\<close>).
\<close>

section \<open>Definitions\<close>

text \<open>The service that answers like \<open>S\<close> when \<open>S\<close> gives a non-empty table, and
  with the one-row table \<open>[d]\<close> otherwise.\<close>

definition complete_service :: "'a \<Rightarrow> (query \<Rightarrow> string + 'a list) \<Rightarrow> query \<Rightarrow> string + 'a list" where
  "complete_service d S q = (case S q of Inr (r # rs) \<Rightarrow> Inr (r # rs) | _ \<Rightarrow> Inr [d])"

text \<open>The completion of a service: the same answers wherever they can be used.\<close>

definition complete_provider :: "provider \<Rightarrow> provider" where
  "complete_provider p =
     \<lparr>eph_service = complete_service sample_row (eph_service p),
      elem_service = complete_service sample_elements (elem_service p)\<rparr>"

text \<open>A computation only appends to the request log.\<close>

definition grows :: "('a) run \<Rightarrow> bool" where
  "grows m \<longleftrightarrow> (\<forall>w. prefix (requests w) (requests (snd (m w))))"

text \<open>Two computations agree up to failures of kind \<open>P\<close>: from every state they give
  the same result and state, or the first fails with an error of kind \<open>P\<close> after
  sending a prefix of what the second sends.\<close>

definition agrees :: "(error \<Rightarrow> bool) \<Rightarrow> 'a run \<Rightarrow> 'a run \<Rightarrow> bool" where
  "agrees P m m' \<longleftrightarrow> (\<forall>w. m w = m' w \<or>
     (\<exists>e. fst (m w) = Inl e \<and> P e \<and> prefix (requests (snd (m w))) (requests (snd (m' w)))))"

text \<open>The sixteen requests of the default run (C21), for the date of the run.\<close>

definition default_requests :: "date \<Rightarrow> request list" where
  "default_requests d =
     concat (map (\<lambda>tid. [EphemeridesReq \<lparr>q_id = tid, q_location = ''500@10'', q_epochs = None\<rparr>,
                           ElementsReq \<lparr>q_id = tid, q_location = ''500@10'', q_epochs = None\<rparr>])
       [''199'', ''299'', ''399'', ''499'', ''599'', ''699'']) @
     [EphemeridesReq \<lparr>q_id = ''2024-182A'', q_location = ''500@10'', q_epochs = None\<rparr>,
      EphemeridesReq \<lparr>q_id = ''2024-182A'', q_location = ''500@10'',
        q_epochs = Some (''2024-10-15'', isoformat d, ''7d'')\<rparr>,
      EphemeridesReq \<lparr>q_id = ''2024-182A'', q_location = ''500@399'', q_epochs = None\<rparr>,
      EphemeridesReq \<lparr>q_id = ''2024-182A'', q_location = ''500@502'', q_epochs = None\<rparr>]"

text \<open>A service that is down: every request fails with the message \<open>timeout\<close>.\<close>

definition down_env :: env where
  "down_env = sample_env\<lparr>provider := \<lparr>eph_service = (\<lambda>q. Inl ''timeout''), elem_service = (\<lambda>q. Inl ''timeout'')\<rparr>\<rparr>"

section \<open>Lemmas\<close>

lemma grows_simple [grows_intros]:
  "grows (ret a)" "grows (raise e)" "grows (liftR r)" "grows (gets g)" "grows (get_target i)"
  "grows (print_line s)" "grows (draw a')" "grows (send rq)" "grows (set_field i k v)"
  "grows (emit_figure f)" "grows (np_uniform E l h n)"
  by (simp_all add: grows_def prog_simps effect_defs get_target_def np_uniform_def)

lemma grows_modify [grows_intros]: "(\<And>w. requests (f w) = requests w) \<Longrightarrow> grows (modify f)"
  by (simp add: grows_def prog_simps)

lemma grows_bindP [grows_intros]:
  assumes "grows m" "\<And>a. grows (k a)" shows "grows (bindP m k)"
  unfolding grows_def
proof
  fix w
  obtain r w1 where m: "m w = (r, w1)" by fastforce
  have p1: "prefix (requests w) (requests w1)" using assms(1) m unfolding grows_def by (metis snd_conv)
  show "prefix (requests w) (requests (snd (bindP m k w)))"
  proof (cases r)
    case (Inl e) then show ?thesis using m p1 by simp
  next
    case (Inr a)
    then have "prefix (requests w1) (requests (snd (k a w1)))" using assms(2) unfolding grows_def by blast
    then show ?thesis using m p1 Inr by (auto intro: prefix_order.trans)
  qed
qed

lemma grows_catch [grows_intros]:
  assumes "grows m" "\<And>e. grows (h e)" shows "grows (catch m h)"
  unfolding grows_def
proof
  fix w
  obtain r w1 where m: "m w = (r, w1)" by fastforce
  have p1: "prefix (requests w) (requests w1)" using assms(1) m unfolding grows_def by (metis snd_conv)
  show "prefix (requests w) (requests (snd (catch m h w)))"
  proof (cases r)
    case (Inl e)
    then have "prefix (requests w1) (requests (snd (h e w1)))" using assms(2) unfolding grows_def by blast
    then show ?thesis using m p1 Inl by (auto simp: catch_apply intro: prefix_order.trans)
  next
    case (Inr a) then show ?thesis using m p1 by (simp add: catch_apply)
  qed
qed

lemma grows_if [grows_intros]: "grows m1 \<Longrightarrow> grows m2 \<Longrightarrow> grows (if b then m1 else m2)"
  by simp

lemma grows_case_option [grows_intros]:
  "grows m1 \<Longrightarrow> (\<And>k. grows (m2 k)) \<Longrightarrow> grows (case x of None \<Rightarrow> m1 | Some k \<Rightarrow> m2 k)"
  by (cases x) simp_all

lemma grows_forP [grows_intros]: "(\<And>x. grows (g x)) \<Longrightarrow> grows (forP xs g)"
  by (induction xs) (simp_all add: grows_simple grows_bindP)

lemma agrees_refl [agrees_intros]: "agrees P m m"
  by (simp add: agrees_def)

lemma agrees_bindP [agrees_intros]:
  assumes m: "agrees P m m'" and k: "\<And>a. agrees P (k a) (k' a)" and g: "\<And>a. grows (k' a)"
  shows "agrees P (bindP m k) (bindP m' k')"
  unfolding agrees_def
proof
  fix w
  obtain r w1 where mw: "m w = (r, w1)" by fastforce
  show "bindP m k w = bindP m' k' w \<or> (\<exists>e. fst (bindP m k w) = Inl e \<and> P e \<and>
      prefix (requests (snd (bindP m k w))) (requests (snd (bindP m' k' w))))"
  proof (cases "m w = m' w")
    case True
    show ?thesis
    proof (cases r)
      case (Inl e)
      then have "m' w = (Inl e, w1)" using True mw by simp
      then show ?thesis using mw Inl by simp
    next
      case (Inr a)
      then have "m' w = (Inr a, w1)" using True mw by simp
      then show ?thesis using mw Inr k [of a] unfolding agrees_def by simp
    qed
  next
    case False
    then obtain e where e: "r = Inl e" "P e" and p: "prefix (requests w1) (requests (snd (m' w)))"
      using m mw unfolding agrees_def by fastforce
    obtain r' w1' where mw': "m' w = (r', w1')" by fastforce
    have "prefix (requests w1') (requests (snd (bindP m' k' w)))"
      using g mw' unfolding grows_def by (cases r') auto
    then show ?thesis using e p mw mw' by (auto intro: prefix_order.trans)
  qed
qed

lemma agrees_if [agrees_intros]:
  "agrees P m1 m1' \<Longrightarrow> agrees P m2 m2' \<Longrightarrow> agrees P (if b then m1 else m2) (if b then m1' else m2')"
  by simp

lemma agrees_case_option [agrees_intros]:
  "agrees P m1 m1' \<Longrightarrow> (\<And>k. agrees P (m2 k) (m2' k)) \<Longrightarrow>
   agrees P (case x of None \<Rightarrow> m1 | Some k \<Rightarrow> m2 k) (case x of None \<Rightarrow> m1' | Some k \<Rightarrow> m2' k)"
  by (cases x) simp_all

lemma agrees_forP [agrees_intros]:
  "(\<And>x. agrees P (g x) (g' x)) \<Longrightarrow> (\<And>x. grows (g' x)) \<Longrightarrow> agrees P (forP xs g) (forP xs g')"
  by (induction xs) (simp_all add: agrees_refl agrees_bindP grows_forP)

text \<open>A handler that always raises an error satisfying \<open>P\<close> and sends nothing turns any
  divergence of the protected computations into one of kind \<open>P\<close>.\<close>

lemma agrees_catch:
  assumes m: "agrees Q m m'"
    and h: "\<And>e w. \<exists>e' w'. h e w = (Inl e', w') \<and> P e' \<and> requests w' = requests w"
  shows "agrees P (catch m h) (catch m' h)"
  unfolding agrees_def
proof
  fix w
  obtain r w1 where mw: "m w = (r, w1)" by fastforce
  obtain r' w1' where mw': "m' w = (r', w1')" by fastforce
  have same: "requests (snd (catch m' h w)) = requests w1'"
  proof (cases r')
    case (Inl e0)
    obtain e' w' where "h e0 w1' = (Inl e', w')" "requests w' = requests w1'" using h by blast
    then show ?thesis using mw' Inl by (simp add: catch_apply)
  next
    case Inr then show ?thesis using mw' by (simp add: catch_apply)
  qed
  show "catch m h w = catch m' h w \<or> (\<exists>e. fst (catch m h w) = Inl e \<and> P e \<and>
      prefix (requests (snd (catch m h w))) (requests (snd (catch m' h w))))"
  proof (cases "m w = m' w")
    case True then show ?thesis by (simp add: catch_apply)
  next
    case False
    then obtain e where e: "r = Inl e" and p: "prefix (requests w1) (requests w1')"
      using m mw mw' unfolding agrees_def by fastforce
    obtain e' w2 where "h e w1 = (Inl e', w2)" "P e'" "requests w2 = requests w1" using h by blast
    then show ?thesis using e p mw same by (simp add: catch_apply)
  qed
qed

text \<open>One call of the service and \<open>[0]\<close> on its answer: with the completed service
  the two agree whenever the answer is a non-empty table, and otherwise the original
  fails at once, before sending anything more.\<close>

lemma agrees_fetch [agrees_intros]:
  assumes k: "\<And>tbl x. agrees P (k tbl x) (k' tbl x)" and g: "\<And>tbl x. grows (k' tbl x)"
    and P: "\<And>e. P e"
  shows "agrees P (bindP (liftR (provider_result (S q))) (\<lambda>tbl. bindP (liftR (py_first tbl)) (k tbl)))
                  (bindP (liftR (provider_result (complete_service d S q))) (\<lambda>tbl. bindP (liftR (py_first tbl)) (k' tbl)))"
proof (cases "\<exists>r rs. S q = Inr (r # rs)")
  case True
  then obtain r rs where s: "S q = Inr (r # rs)" by blast
  then have "complete_service d S q = Inr (r # rs)" by (simp add: complete_service_def)
  then show ?thesis using s k [of "r # rs" r] by (simp add: agrees_def prog_simps)
next
  case False
  let ?m' = "bindP (liftR (provider_result (complete_service d S q))) (\<lambda>tbl. bindP (liftR (py_first tbl)) (k' tbl))"
  have gm: "grows ?m'" by (intro grows_intros g)
  have "\<exists>e. bindP (liftR (provider_result (S q))) (\<lambda>tbl. bindP (liftR (py_first tbl)) (k tbl)) w = (Inl e, w)" for w
  proof (cases "S q")
    case (Inl msg) then show ?thesis by (simp add: prog_simps)
  next
    case (Inr b)
    with False have "b = []" by (cases b) auto
    with Inr show ?thesis by (simp add: prog_simps)
  qed
  then show ?thesis using gm P unfolding agrees_def grows_def by (metis fst_conv snd_conv)
qed

lemma env_provider_upd [simp]:
  "provider (E\<lparr>provider := p\<rparr>) = p" "today (E\<lparr>provider := p\<rparr>) = today E"
  "randrange (E\<lparr>provider := p\<rparr>) = randrange E" "np_random (E\<lparr>provider := p\<rparr>) = np_random E"
  by simp_all

lemma complete_provider_sel [simp]:
  "eph_service (complete_provider p) = complete_service sample_row (eph_service p)"
  "elem_service (complete_provider p) = complete_service sample_elements (elem_service p)"
  by (simp_all add: complete_provider_def)

lemma agrees_astro_body:
  "agrees (\<lambda>_. True) (astro_body E i observer sl)
     (astro_body (E\<lparr>provider := complete_provider (provider E)\<rparr>) i observer sl)"
  unfolding astro_body_def
  apply (simp only: env_provider_upd complete_provider_sel)
  by (intro agrees_intros grows_intros) simp_all

lemma agrees_GetAstroData [agrees_intros]:
  "agrees (\<lambda>e. e = SystemExit 1) (GetAstroData E i observer sl)
     (GetAstroData (E\<lparr>provider := complete_provider (provider E)\<rparr>) i observer sl)"
  unfolding GetAstroData_def
  by (rule agrees_catch [OF agrees_astro_body]) (simp add: print_line_def prog_simps)

lemma grows_GetAstroData [grows_intros]: "grows (GetAstroData E i observer sl)"
  unfolding GetAstroData_def astro_body_def by (intro grows_intros)

lemma grows_PlotStars [grows_intros]: "grows (PlotStars E xl yl)"
  unfolding PlotStars_def by (intro grows_intros)

lemma PlotStars_provider_upd: "PlotStars (E\<lparr>provider := p\<rparr>) = PlotStars E"
  by (intro ext) (simp add: PlotStars_def np_uniform_def uniform_draws_def)

lemma agrees_main:
  "agrees (\<lambda>e. e = SystemExit 1) (main E a) (main (E\<lparr>provider := complete_provider (provider E)\<rparr>) a)"
  unfolding main_def select_spacecraft_def ListSpacecraft_def FindTargetSpacecraft_def
    GetRandomSpacecraft_def Plot_def PlotTargets_def plot_target_def plot_planet_def
    plot_craft_def PlotSpacecraftTail_def PlotTitleLegendStatusBar_def PrintOrSave_def Let_def
  apply (simp only: env_provider_upd PlotStars_provider_upd)
  by (intro agrees_intros grows_intros) simp_all

lemma GetAstroData_fetch_fails:
  assumes "i < length (targets w)" "horizons_query (today E) (targets w ! i) observer sl = Inr q"
    and "eph_service (provider E) q = Inl msg"
  shows "GetAstroData E i observer sl w =
     (Inl (SystemExit 1), w\<lparr>requests := requests w @ [EphemeridesReq q],
                            stdout := stdout w @ [''JPL Get error: '' @ msg]\<rparr>)"
  using assms
  by (simp add: GetAstroData_def astro_body_def prog_simps effect_defs error_text_def)

lemma provider_total_complete: "provider_total (complete_provider p)"
  by (auto simp: provider_total_def complete_service_def split: sum.splits list.splits)

section \<open>Properties of failing runs\<close>

text \<open>C31: a failing service only cuts a run short. For any arguments, any service and
  any start state, the run of \<open>main\<close> is the run with the completed service, or it
  exits with status 1 having sent a prefix of the requests of that run: the requests
  are strictly sequential, none is repeated or reordered after a failure (no retry),
  and every failure of the service ends the run.\<close>

theorem main_failure_prefix:
  "main E a w = main (E\<lparr>provider := complete_provider (provider E)\<rparr>) a w \<or>
   (fst (main E a w) = Inl (SystemExit 1) \<and>
    prefix (requests (snd (main E a w))) (requests (snd (main (E\<lparr>provider := complete_provider (provider E)\<rparr>) a w))))"
  using agrees_main [of E a] unfolding agrees_def by blast

text \<open>C32: whatever the service answers, the default run sends a prefix of its sixteen
  requests in their fixed order; all of them when it returns normally, and when it
  does not it exits with status 1.\<close>

theorem main_default_requests:
  "prefix (requests (snd (main E default_args init_world))) (default_requests (today E)) \<and>
   (fst (main E default_args init_world) = Inr () \<longrightarrow>
      requests (snd (main E default_args init_world)) = default_requests (today E)) \<and>
   (fst (main E default_args init_world) \<noteq> Inr () \<longrightarrow>
      fst (main E default_args init_world) = Inl (SystemExit 1))"
proof -
  let ?E' = "E\<lparr>provider := complete_provider (provider E)\<rparr>"
  obtain w' where run': "main ?E' default_args init_world = (Inr (), w')"
    and req': "requests w' = default_requests (today E)"
    using main_default_sends [of ?E'] provider_total_complete by (auto simp: default_requests_def)
  show ?thesis
    using agrees_main [of E default_args] run' req' unfolding agrees_def
    by (metis (no_types, lifting) Inl_Inr_False fst_conv prefix_order.refl snd_conv)
qed

lemma main_default_requests_witness:
  "prefix (requests (snd (main sample_env default_args init_world))) (default_requests (today sample_env)) \<and>
   requests (snd (main sample_env default_args init_world)) = default_requests (today sample_env)"
proof -
  obtain w' where "main sample_env default_args init_world = (Inr (), w')"
    using main_default_sends [OF provider_total_sample_env] by blast
  then show ?thesis using main_default_requests [of sample_env] by simp
qed

text \<open>C33: when the first request of the default run (Mercury's ephemerides) fails
  with message \<open>msg\<close>, the run prints \<open>JPL Get error: msg\<close> and exits with
  status 1 right away: that request is the only one sent, nothing is retried, and no
  figure is saved or shown.\<close>

theorem main_first_fetch_fails:
  assumes fail: "eph_service (provider E) \<lparr>q_id = ''199'', q_location = ''500@10'', q_epochs = None\<rparr> = Inl msg"
  shows "fst (main E default_args init_world) = Inl (SystemExit 1) \<and>
     requests (snd (main E default_args init_world)) =
       [EphemeridesReq \<lparr>q_id = ''199'', q_location = ''500@10'', q_epochs = None\<rparr>] \<and>
     stdout (snd (main E default_args init_world)) =
       [''Starting ClipperWatch...'', ''Mode: Interactive Window'', ''JPL Get error: '' @ msg] \<and>
     figures (snd (main E default_args init_world)) = []"
proof -
  let ?w1 = "init_world\<lparr>stdout := [''Starting ClipperWatch...'', ''Mode: Interactive Window''],
                   targetSpacecraft := Some 6, artists := [AxesLimits xlimit ylimit, star_field E xlimit ylimit 0, SunMarker],
                   np_drawn := 3 * num_stars\<rparr>"
  have hq: "horizons_query (today E) (targets ?w1 ! 0) ''Sun'' False =
      Inr \<lparr>q_id = ''199'', q_location = ''500@10'', q_epochs = None\<rparr>"
    using horizons_query_current [of "''Sun''" "''10''" "targets_init ! 0" "''199''"]
    by (simp add: init_world_def catalog_defs MapNameToJplId_def idMap_def)
  have ga: "GetAstroData E 0 ''Sun'' False ?w1 =
     (Inl (SystemExit 1), ?w1\<lparr>requests := [EphemeridesReq \<lparr>q_id = ''199'', q_location = ''500@10'', q_epochs = None\<rparr>],
                              stdout := [''Starting ClipperWatch...'', ''Mode: Interactive Window'', ''JPL Get error: '' @ msg]\<rparr>)"
    using GetAstroData_fetch_fails [OF _ hq fail] by (simp add: init_world_def catalog_defs)
  have skip: "\<not> skip_target (targets ?w1 ! 0) ?w1" by (simp add: skip_target_def init_world_def catalog_defs)
  have len: "length (targets ?w1) = 18" by (simp add: init_world_def catalog_defs)
  have pt: "plot_target E 0 ?w1 = GetAstroData E 0 ''Sun'' False ?w1"
    using skip len ga by (simp add: plot_target_def prog_simps)
  have run: "main E default_args init_world = GetAstroData E 0 ''Sun'' False ?w1"
  proof -
    have ups: "[0..<length targets_init] = 0 # [Suc 0..<18]"
      using len by (simp add: init_world_def upt_conv_Cons)
    show ?thesis unfolding main_default_prefix Plot_def PlotTargets_def
      using pt ga by (simp add: PlotStars_run draw_def prog_simps init_world_def ups)
  qed
  show ?thesis unfolding run ga by (simp add: init_world_def)
qed

lemma main_first_fetch_fails_witness:
  "fst (main down_env default_args init_world) = Inl (SystemExit 1) \<and>
   requests (snd (main down_env default_args init_world)) =
     [EphemeridesReq \<lparr>q_id = ''199'', q_location = ''500@10'', q_epochs = None\<rparr>] \<and>
   stdout (snd (main down_env default_args init_world)) =
     [''Starting ClipperWatch...'', ''Mode: Interactive Window'', ''JPL Get error: timeout''] \<and>
   figures (snd (main down_env default_args init_world)) = []"
  using main_first_fetch_fails [of down_env "''timeout''"] by (simp add: down_env_def)

end
