(* ===== verification/Cli.thy ===== *)
theory Cli
  imports Pipeline "HOL-Library.Sublist"
begin

text \<open>
  The command line of \<^verbatim>\<open>src/clipperwatch.py\<close>: the parser that \<open>main\<close> builds
  (lines 424--454: \<open>-h/--help\<close>, added by argparse, and the five options) and
  \<open>parser.parse_args()\<close> (line 455), which reads \<open>sys.argv[1:]\<close> as argparse does:
  every string is first classified (an option, possibly abbreviated or with an
  \<open>=value\<close>, or an argument; an ambiguous abbreviation is an error at once), then
  the strings are consumed from left to right; \<open>--help\<close> exits with status 0,
  every error with status 2. \<open>cli_main\<close> is the program run from the command line.
\<close>

section \<open>Definitions\<close>

text \<open>The actions of the parser's options, in the order they are added.\<close>

datatype cli_action = ShowHelp | SaveFlag | OutputOpt | ListFlag | SpacecraftOpt | RandomFlag

definition cli_options :: "(string \<times> cli_action) list" where
  "cli_options =
     [(''-h'', ShowHelp), (''--help'', ShowHelp), (''--save'', SaveFlag), (''--output'', OutputOpt),
      (''--list'', ListFlag), (''--spacecraft'', SpacecraftOpt), (''--random'', RandomFlag)]"

text \<open>A classified string: an argument, the marker \<open>--\<close>, an option string that names
  no option, or an option with the string that selects it and its explicit argument,
  if any (\<open>True\<close> when it was given after \<open>=\<close>, \<open>False\<close> when attached to a short
  option).\<close>

datatype cli_token = TArg string | TDashDash | TUnknown string
  | TOpt string cli_action "(bool \<times> string) option"

definition is_digit :: "char \<Rightarrow> bool" where
  "is_digit c \<longleftrightarrow> c \<in> set ''0123456789''"

text \<open>\<open>_negative_number_matcher\<close>: \<open>^-\d+$|^-\d*\.\d+$\<close>, where \<open>$\<close> also matches
  before a final newline.\<close>

definition negnum :: "string \<Rightarrow> bool" where
  "negnum s =
     (let t = (if s \<noteq> [] \<and> last s = CHR 0x0A then butlast s else s)
      in t \<noteq> [] \<and> hd t = CHR ''-'' \<and>
         (let r = tl t; a = dropWhile is_digit r
          in (r \<noteq> [] \<and> list_all is_digit r) \<or>
             (a \<noteq> [] \<and> hd a = CHR ''.'' \<and> tl a \<noteq> [] \<and> list_all is_digit (tl a))))"

text \<open>\<open>str.partition('=')\<close>: the part before the first \<open>=\<close>, and the part after it
  when there is one.\<close>

definition partition_eq :: "string \<Rightarrow> string \<times> string option" where
  "partition_eq s =
     (takeWhile (\<lambda>c. c \<noteq> CHR ''='') s,
      if CHR ''='' \<in> set s then Some (tl (dropWhile (\<lambda>c. c \<noteq> CHR ''='') s)) else None)"

text \<open>\<open>_get_option_tuples\<close>: the options a string may abbreviate.\<close>

definition option_tuples :: "string \<Rightarrow> cli_token list" where
  "option_tuples s =
     (if s ! 1 = CHR ''-'' then
        (let (p, x) = partition_eq s
         in map (\<lambda>(os, act). TOpt os act (map_option (Pair True) x)) (filter (\<lambda>(os, act). prefix p os) cli_options))
      else
        map (\<lambda>(os, act). if os = take 2 s then TOpt os act (Some (False, drop 2 s)) else TOpt os act None)
          (filter (\<lambda>(os, act). os = take 2 s \<or> prefix s os) cli_options))"

text \<open>The rest of \<open>_parse_optional\<close>, once no option matches exactly: one
  abbreviated option, an error if several match, and otherwise an argument (a negative
  number or a string with a space) or an unknown option.\<close>

definition abbrev_option :: "string \<Rightarrow> cli_token result" where
  "abbrev_option s =
     (case option_tuples s of
        [] \<Rightarrow> if negnum s \<or> CHR '' '' \<in> set s then Inr (TArg s) else Inr (TUnknown s)
      | [t] \<Rightarrow> Inr t
      | _ \<Rightarrow> Inl (SystemExit 2))"

text \<open>\<open>_parse_optional\<close>: the classification of one string.\<close>

definition classify :: "string \<Rightarrow> cli_token result" where
  "classify s =
     (if s = [] \<or> hd s \<noteq> CHR ''-'' then Inr (TArg s)
      else case map_of cli_options s of
        Some act \<Rightarrow> Inr (TOpt s act None)
      | None \<Rightarrow>
          if length s = 1 then Inr (TArg s)
          else (case partition_eq s of
                  (os, Some x) \<Rightarrow>
                    (case map_of cli_options os of
                       Some act \<Rightarrow> Inr (TOpt os act (Some (True, x)))
                     | None \<Rightarrow> abbrev_option s)
                | (os, None) \<Rightarrow> abbrev_option s))"

text \<open>The first pass of \<open>_parse_known_args\<close>: every string before the first \<open>--\<close>
  is classified, in order; the strings after it are arguments.\<close>

fun classify_all :: "string list \<Rightarrow> cli_token list result" where
  "classify_all [] = Inr []"
| "classify_all (s # ss) =
     (if s = ''--'' then Inr (TDashDash # map TArg ss)
      else ebind (classify s) (\<lambda>t. ebind (classify_all ss) (\<lambda>ts. Inr (t # ts))))"

text \<open>\<open>-h\<close> with characters attached (\<open>consume_optional\<close>): further \<open>h\<close>s are more
  \<open>-h\<close>s, any other letter ends the cluster and help is shown; a \<open>-\<close> in the
  cluster, or an \<open>=\<close> after an \<open>h\<close>, is an explicit argument of \<open>-h\<close>: an error.\<close>

fun help_cluster :: "string \<Rightarrow> args result" where
  "help_cluster [] = Inl (SystemExit 0)"
| "help_cluster (c # r) =
     (if c = CHR ''-'' then Inl (SystemExit 2)
      else if c = CHR ''h'' then
        (case r of [] \<Rightarrow> Inl (SystemExit 0)
         | d # _ \<Rightarrow> if d = CHR ''='' then Inl (SystemExit 2) else help_cluster r)
      else Inl (SystemExit 0))"

text \<open>The store actions: \<open>store_true\<close> and storing a string.\<close>

fun store_flag :: "cli_action \<Rightarrow> args \<Rightarrow> args" where
  "store_flag SaveFlag a = a\<lparr>arg_save := True\<rparr>"
| "store_flag ListFlag a = a\<lparr>arg_list := True\<rparr>"
| "store_flag RandomFlag a = a\<lparr>arg_random := True\<rparr>"
| "store_flag _ a = a"

fun store_value :: "cli_action \<Rightarrow> string \<Rightarrow> args \<Rightarrow> args" where
  "store_value OutputOpt v a = a\<lparr>arg_output := v\<rparr>"
| "store_value SpacecraftOpt v a = a\<lparr>arg_spacecraft := v\<rparr>"
| "store_value _ v a = a"

definition takes_value :: "cli_action \<Rightarrow> bool" where
  "takes_value act \<longleftrightarrow> act = OutputOpt \<or> act = SpacecraftOpt"

text \<open>The second pass: options act from left to right; an option that takes a value
  takes its explicit argument or the next string if that is an argument; arguments,
  \<open>--\<close> and unknown options are left over (\<open>extras\<close>), which is an error at the end.\<close>

fun consume :: "cli_token list \<Rightarrow> args \<Rightarrow> bool \<Rightarrow> args result" where
  "consume [] a extras = (if extras then Inl (SystemExit 2) else Inr a)"
| "consume (TArg s # ts) a extras = consume ts a True"
| "consume (TDashDash # ts) a extras = consume ts a True"
| "consume (TUnknown s # ts) a extras = consume ts a True"
| "consume (TOpt os act x # ts) a extras =
     (if act = ShowHelp then
        (case x of None \<Rightarrow> Inl (SystemExit 0)
         | Some (True, _) \<Rightarrow> Inl (SystemExit 2)
         | Some (False, y) \<Rightarrow> help_cluster y)
      else if takes_value act then
        (case x of Some (_, v) \<Rightarrow> consume ts (store_value act v a) extras
         | None \<Rightarrow> (case ts of TArg v # ts' \<Rightarrow> consume ts' (store_value act v a) extras
                   | _ \<Rightarrow> Inl (SystemExit 2)))
      else
        (case x of None \<Rightarrow> consume ts (store_flag act a) extras
         | Some _ \<Rightarrow> Inl (SystemExit 2)))"

text \<open>\<open>parser.parse_args()\<close> (line 455): the namespace starts from the defaults.\<close>

definition parse_args :: "string list \<Rightarrow> args result" where
  "parse_args argv = ebind (classify_all argv) (\<lambda>ts. consume ts default_args False)"

text \<open>A command line that asks for the namespace \<open>a\<close>, option by option.\<close>

definition cli_render :: "args \<Rightarrow> string list" where
  "cli_render a =
     (if arg_save a then [''--save''] else []) @ [''--output'', arg_output a] @
     (if arg_list a then [''--list''] else []) @ [''--spacecraft'', arg_spacecraft a] @
     (if arg_random a then [''--random''] else [])"

text \<open>The program started with the arguments \<open>argv\<close>: \<open>main\<close> parses them first;
  help and usage errors end the run with their exit status.\<close>

definition cli_main :: "env \<Rightarrow> string list \<Rightarrow> unit run" where
  "cli_main E argv = (case parse_args argv of Inl e \<Rightarrow> raise e | Inr a \<Rightarrow> main E a)"


section \<open>Lemmas\<close>

lemma classify_Inl: "classify t = Inl e \<Longrightarrow> e = SystemExit 2"
  by (auto simp: classify_def abbrev_option_def split: if_splits option.splits list.splits prod.splits)

lemma classify_all_Inl:
  "t \<in> set (takeWhile (\<lambda>s. s \<noteq> ''--'') argv) \<Longrightarrow> classify t = Inl e \<Longrightarrow>
   classify_all argv = Inl (SystemExit 2)"
proof (induction argv)
  case Nil then show ?case by simp
next
  case (Cons s ss)
  show ?case
  proof (cases "classify s")
    case (Inl e')
    then show ?thesis using Cons.prems classify_Inl [OF Inl] by (auto split: if_splits)
  next
    case (Inr tok)
    then have "t \<noteq> s" "s \<noteq> ''--''" using Cons.prems by (auto split: if_splits)
    then show ?thesis using Cons Inr by auto
  qed
qed

lemma classify_options [simp]:
  "classify ''--save'' = Inr (TOpt ''--save'' SaveFlag None)"
  "classify ''--output'' = Inr (TOpt ''--output'' OutputOpt None)"
  "classify ''--list'' = Inr (TOpt ''--list'' ListFlag None)"
  "classify ''--spacecraft'' = Inr (TOpt ''--spacecraft'' SpacecraftOpt None)"
  "classify ''--random'' = Inr (TOpt ''--random'' RandomFlag None)"
  by (simp_all add: classify_def cli_options_def)

lemma classify_dashdash: "classify ''--'' = Inl (SystemExit 2)"
  by (simp add: classify_def cli_options_def abbrev_option_def option_tuples_def partition_eq_def)

text \<open>C35: round trip of the command line. For every namespace whose two strings are
  plain arguments for argparse (they do not read as an option), parsing the command
  line that spells it out gives the namespace back.\<close>

theorem parse_args_render:
  assumes o: "classify (arg_output a) = Inr (TArg (arg_output a))"
    and s: "classify (arg_spacecraft a) = Inr (TArg (arg_spacecraft a))"
  shows "parse_args (cli_render a) = Inr a"
proof -
  have "arg_output a \<noteq> ''--''" "arg_spacecraft a \<noteq> ''--''" using o s classify_dashdash by auto
  then show ?thesis using o s
    by (cases a) (simp add: parse_args_def cli_render_def default_args_def takes_value_def)
qed

lemma parse_args_render_witness:
  "parse_args (cli_render (default_args\<lparr>arg_save := True, arg_output := ''-1.5'', arg_spacecraft := ''Juno''\<rparr>)) =
   Inr (default_args\<lparr>arg_save := True, arg_output := ''-1.5'', arg_spacecraft := ''Juno''\<rparr>)"
  by (rule parse_args_render) (simp_all add: classify_def cli_options_def abbrev_option_def option_tuples_def
      partition_eq_def negnum_def is_digit_def)

lemma classify_s: "classify ''--s'' = Inl (SystemExit 2)"
  by (simp add: classify_def cli_options_def abbrev_option_def option_tuples_def partition_eq_def)

text \<open>C36: argparse classifies every string before \<open>--\<close> before it acts on any, and
  \<open>--s\<close> abbreviates both \<open>--save\<close> and \<open>--spacecraft\<close>. Wherever \<open>--s\<close> stands
  before \<open>--\<close>, even after \<open>--help\<close> or where an option's value is expected, the
  run ends with status 2 before anything is printed, fetched or drawn.\<close>

theorem cli_main_ambiguous:
  assumes "''--s'' \<in> set (takeWhile (\<lambda>s. s \<noteq> ''--'') argv)"
  shows "cli_main E argv w = (Inl (SystemExit 2), w)"
  using classify_all_Inl [OF assms classify_s] by (simp add: cli_main_def parse_args_def prog_simps)

lemma cli_main_ambiguous_witness:
  "cli_main sample_env [''--help'', ''--output'', ''--s''] init_world = (Inl (SystemExit 2), init_world)"
  by (rule cli_main_ambiguous) simp

end
