(* ===== verification/Spec2Isabelle.thy ===== *)
theory Spec2Isabelle
  imports Failures Cli
begin

text \<open>
  \<^bold>\<open>ClipperWatch, verified model.\<close>
  \<^verbatim>\<open>src/clipperwatch.py\<close> draws a snapshot of the inner solar system with one tracked
  spacecraft: it selects the spacecraft from a fixed catalog, fetches ephemerides
  and orbital elements from JPL Horizons one request after the other, projects the
  samples to the ecliptic plane, reconstructs the planets' orbits from their
  elements, draws the spacecraft's trajectory since launch and a block of telemetry
  text, and saves or shows the figure. This development is a shallow embedding of
  that file: each Python function is a HOL definition with the source's name, and
  the program's state and effects are explicit.

  \<^medskip>\<^bold>\<open>Theories and what they model.\<close>
  \<^item> \<open>Prelude\<close>: the Python exceptions (\<^typ>\<open>error\<close>), results \<open>error + 'a\<close>, an
    exception-and-state monad \<^typ>\<open>('s, 'a) prog\<close> (\<open>ret\<close>, \<open>raise\<close>, \<open>bindP\<close>,
    \<open>catch\<close>, \<open>forP\<close> for \<open>for\<close> loops) in which an exception keeps the mutations
    made before it, as in Python; frame conditions (\<open>preserves\<close>, \<open>keeps_on_error\<close>,
    collection \<open>frame_intros\<close>); Python primitives (\<open>xs[0]\<close>, \<open>d[k]\<close>,
    \<open>s.split(c)[0]\<close>, \<open>str(n)\<close>, zero padding) and the reading of a digit
    string back as its number (\<open>digits_value\<close>, the inverse of \<open>str(n)\<close>), in
    which C18 states what a printed number means.
  \<^item> \<open>Horizons\<close>: the service as an oracle record \<open>provider\<close> from a \<open>query\<close> to
    a failure message or a table (\<open>eph_row\<close>, \<open>elements\<close>, only the columns read),
    and the \<open>request\<close>s the program sends.
  \<^item> \<open>Geometry\<close>: the Coordinate Projector \<open>project\<close> (lines 229--236 and
    313--320), the Orbit Path Reconstructor \<open>orbit_path\<close> (\<open>linspace\<close>,
    \<open>conic_radius\<close>, \<open>rotate\<close>, lines 249--280) and the Trajectory Builder
    \<open>build_trajectory\<close>/\<open>tail_loop\<close> (lines 309--326).
  \<^item> \<open>Dates\<close>: CPython's \<open>date\<close> as the program uses it: the ordinal of
    \<open>_ymd2ord\<close>, \<open>(d1 - d2).days\<close>, \<open>isoformat()\<close>.
  \<^item> \<open>World\<close>: the program state \<^typ>\<open>world\<close>: the global \<open>targets\<close> (dictionaries
    as the record \<^typ>\<open>target\<close>, run-time keys in the map \<open>attrs\<close>), the global
    \<open>targetSpacecraft\<close> as the index of the dictionary it aliases, the requests
    sent, the lines printed, the artists drawn and the figure saved or shown.
  \<^item> \<open>Catalog\<close>: \<open>targets\<close> (lines 10--104), \<open>MapNameToJplId\<close>,
    \<open>FindTargetSpacecraft\<close>, \<open>GetRandomSpacecraft\<close>, \<open>ListSpacecraft\<close>.
  \<^item> \<open>Astro\<close>: \<open>GetAstroData\<close> (lines 160--199): query construction, the two
    requests, the dictionary updates and the catch-all handler that prints and
    exits 1; its abstract specification \<open>astro_store\<close>.
  \<^item> \<open>Telemetry\<close>: \<open>GetDistSpeedFrom\<close>, \<open>GetSignalDelay\<close>, \<open>GetMissionDays\<close>
    and Python's \<open>{x:.kf}\<close> formatting \<open>fmt_fixed\<close>.
  \<^item> \<open>Pipeline\<close>: \<open>PlotStars\<close> with numpy's \<open>np.random.uniform\<close> (\<open>np_uniform\<close>:
    the generator is the input stream \<open>np_random\<close> of the environment and the state
    counts the doubles taken), the axes limits \<open>xlimit\<close>/\<open>ylimit\<close> of \<open>Plot\<close>,
    \<open>PlotTargets\<close> (its loop body \<open>plot_target\<close>
    with the value comparison \<open>obj != targetSpacecraft\<close> as \<open>skip_target\<close>),
    \<open>PlotSpacecraftTail\<close>, \<open>PlotTitleLegendStatusBar\<close> with its status text
    \<open>status_message\<close>, \<open>PrintOrSave\<close>, \<open>Plot\<close>, the parsed arguments \<open>args\<close> and
    \<open>main\<close> (lines 202--473).
  \<^item> \<open>Run\<close>: whole runs of \<open>main\<close> from the module state \<open>init_world\<close>.
  \<^item> \<open>Failures\<close>: runs against a service that may fail or answer with empty tables,
    compared with the run against the completed service \<open>complete_provider\<close>
    (every unusable answer replaced by a one-row table) through the relation
    \<open>agrees\<close>; its rules (\<open>agrees_intros\<close>, with the request-log monotonicity
    \<open>grows\<close>, \<open>grows_intros\<close>) follow the structure of the program, and the only
    rule that looks at the service is the one for a fetch (\<open>agrees_fetch\<close>).
  \<^item> \<open>Cli\<close>: the command line: the parser's option table \<open>cli_options\<close> (lines
    424--454, with argparse's \<open>-h/--help\<close>) and \<open>parse_args\<close> (line 455) as
    argparse runs it: a first pass \<open>classify_all\<close> (exact options, \<open>=value\<close>,
    unique abbreviations, negative numbers and strings with a space as arguments,
    \<open>--\<close>), then a left-to-right pass \<open>consume\<close>; help exits 0 and every usage
    error exits 2. \<open>cli_main\<close> is the program started from the shell (lines
    476--477). The model was compared with CPython 3.11's argparse on 400 random
    command lines over abbreviations, values, \<open>=\<close>, \<open>-h\<close> clusters and \<open>--\<close>,
    with the same result on each.

  \<^medskip>\<^bold>\<open>How the components interact.\<close>
  \<open>main\<close> prints, optionally lists, selects (\<open>FindTargetSpacecraft\<close> or
  \<open>GetRandomSpacecraft\<close>), prints the mode and calls \<open>Plot\<close>, which runs the four
  drawing stages and \<open>PrintOrSave\<close>. Every stage fetches through \<open>GetAstroData\<close>,
  which writes into the dictionaries of \<open>targets\<close>; later stages read those entries
  (\<open>get_row\<close>, \<open>get_el\<close>, \<open>get_table\<close>, \<open>get_targetname\<close>). All of them are
  computations of type \<open>world \<Rightarrow> 'a result \<times> world\<close> composed with \<open>bindP\<close> in the
  order of the source, so the request log and the draw order are the program's.

  \<^medskip>\<^bold>\<open>What is proved.\<close>
  Geometry: projected points lie at the given range (C2); each orbit has 360 points
  and is closed (C1), is a circle of radius \<open>a\<close> for \<open>e = 0\<close> (C4) and an ellipse
  with the Sun at a focus for \<open>0 \<le> e < 1\<close> (C5); the tail loop equals mapping the
  projector over the samples, in order (C3). Catalog: the selection functions
  \<open>FindTargetSpacecraft\<close>, \<open>GetRandomSpacecraft\<close> (uniform over the spacecraft)
  and \<open>ListSpacecraft\<close> (C6--C9). Fetch: refinement of
  \<open>astro_store\<close> (C10), the only escaping exception is \<open>exit(1)\<close> after the error
  line (C11), a planet's since-launch fetch fails on \<open>launch_date\<close> (C12), the
  storage keys are injective (C13), a fetch leaves every other entry alone (C14).
  Telemetry: the motion label and speed (C15), signal delays at 1 and 5.2 AU (C16)
  and their monotonicity (C17), the shape of fixed-point formatting and the
  accuracy of the number its digits denote (C18), missing samples raise \<open>KeyError\<close> (C19), the mission day count (C20).
  Whole program: the default run succeeds and sends its 16 requests in a fixed
  sequential order (C21); \<open>PlotTargets\<close> fetches exactly the planets and the
  selected spacecraft in catalog order (C22); an unknown name exits 1 before any
  fetch (C23); no failing run saves or shows a figure (C24); the status text has one line
  per field of its f-string, in order (C25); every run keeps each run-time key holding one kind of
  value (C26); every valid spacecraft choice, random or named, gives a complete run
  (C27); a planet's name is rejected only after the twelve planet requests, with
  \<open>JPL Get error: 'launch_date'\<close> and exit 1 (C28); \<open>--list\<close> lists the
  spacecraft and exits 0 before anything else (C29); every star drawn lies inside
  the axes limits, with its size in \<open>[0.1, 3)\<close> (C30). Failing service: a run is
  the run against the completed service or exits 1 after a prefix of its requests
  (C31), so the default run sends a prefix of its sixteen requests, all of them when
  it returns (C32), and a failure of the first request ends it at once with the
  error line (C33). Status text: its fields are evaluated left to right and the
  first absent sample decides the \<open>KeyError\<close> (C34). Command line: spelling out
  a namespace whose values are plain arguments parses back to it (C35), and the
  ambiguous abbreviation \<open>--s\<close> anywhere before \<open>--\<close> ends the program with
  status 2 before it prints, fetches or draws anything (C36).

  \<^medskip>\<^bold>\<open>Modelling choices and bounds.\<close>
  Floats are reals, so the theorems state the exact values the floating-point code
  approximates; \<open>f"{x:.kf}"\<close> is round-half-even of the exact value
  (\<open>fixed_units\<close>), printed as its integer and fractional digits. The two calls
  of \<open>date.today()\<close> are one input \<open>today\<close> of the environment \<^typ>\<open>env\<close>, and
  \<open>random.randrange\<close> is an input function; numpy's generator is the input stream
  \<open>np_random\<close> of doubles in \<open>[0, 1)\<close> (the hypothesis of C30), which
  \<open>PlotStars\<close> reads from position 0, as no other code draws from it. Loops are structural recursion over
  the lists they iterate (\<open>forP\<close>, \<open>tail_loop\<close>, \<open>pick_loop\<close>), so every
  definition is total and no fuel is needed: the program has no loop whose
  termination depends on data, so termination holds by construction and is not a
  claim. The mission-day theorem assumes the
  date stays within \<open>datetime\<close>'s \<open>MAXYEAR = 9999\<close>. Texts of exceptions other
  than \<open>KeyError\<close> and of the service are approximations of Python's messages.

  \<^medskip>\<^bold>\<open>Not modelled.\<close>
  The network transport of astroquery (the service is an oracle; its answers are
  arbitrary, or any non-empty tables where a theorem needs them); numpy's generator
  algorithm itself (its output is the input stream \<open>np_random\<close>); matplotlib
  styling calls (style sheet, colours, aspect, fonts, layout, dpi), which add no
  data to the scene, while the axes limits are kept as \<open>AxesLimits\<close>; the texts argparse
  writes (the help message, which depends on the program name and the terminal
  width, and the usage errors on stderr): \<open>parse_args\<close> keeps only their exit
  statuses, 0 and 2. The \<open>TypeError\<close> branches of \<open>get_row\<close> and the other typed reads
  are unreachable in runs of the program: C26 keeps the typing \<open>world_wt\<close>, under
  which those reads never give \<open>TypeError\<close> (\<open>target_wt_get_row\<close> and the lemmas
  beside it).
\<close>

end
